(* ===== verification/Prelude.thy ===== *)
theory Prelude
  imports Main "HOL-Library.Word"
begin

text \<open>
  Shared vocabulary of the development: the machine types of \<^verbatim>\<open>src/sysinfos.c\<close>
  (32-bit registers, bytes), the error values that make the C undefined behaviours of the
  file explicit, a bind on results, and the generic facts on bits and little-endian bytes
  that the component theories use.  Nothing here models a particular function of the
  source; the lemmas are collected in \<open>flag_simps\<close> and \<open>byte_simps\<close>.
\<close>

unbundle bit_operations_syntax

named_theorems flag_simps "facts that turn a C flag test into single bit tests"
named_theorems byte_simps "facts on little-endian byte images of words"

type_synonym u32 = "32 word"
type_synonym byte = "8 word"

text \<open>
  The C code never reports an error, but several of its paths are undefined behaviour:
  a copy past the end of a buffer, a \<open>%s\<close> conversion of a NULL pointer or of a buffer
  without a terminating NUL byte, a decimal conversion that does not fit an \<open>int\<close>.
  The model returns such a path as an error value.
\<close>

datatype c_error = Out_Of_Bounds | Null_String | Unterminated_String | Int_Overflow

type_synonym 'a result = "c_error + 'a"

text \<open>
  One iteration of a C loop either goes on with a new loop state (the loop continues) or
  leaves the loop with a value (\<open>break\<close>, \<open>return\<close>, or an error).
\<close>

datatype ('s, 'r) loop_step = Continue 's | Break 'r

definition bind_res :: "'a result \<Rightarrow> ('a \<Rightarrow> 'b result) \<Rightarrow> 'b result" where
  "bind_res r f = (case r of Inl e \<Rightarrow> Inl e | Inr a \<Rightarrow> f a)"

definition bind_step :: "'a result \<Rightarrow> ('a \<Rightarrow> ('s, 'b result) loop_step) \<Rightarrow> ('s, 'b result) loop_step" where
  "bind_step r f = (case r of Inl e \<Rightarrow> Break (Inl e) | Inr a \<Rightarrow> f a)"

definition le_bytes :: "u32 \<Rightarrow> byte list" where
  "le_bytes w = [ucast w, ucast (drop_bit 8 w), ucast (drop_bit 16 w), ucast (drop_bit 24 w)]"

definition of_le_bytes :: "byte list \<Rightarrow> u32" where
  "of_le_bytes bs =
     ucast (bs ! 0) OR push_bit 8 (ucast (bs ! 1)) OR push_bit 16 (ucast (bs ! 2))
       OR push_bit 24 (ucast (bs ! 3))"

subsection \<open>Results\<close>

lemma bind_res_simps [simp]:
  "bind_res (Inl e) f = Inl e"
  "bind_res (Inr a) f = f a"
  by (simp_all add: bind_res_def)

lemma bind_step_simps [simp]:
  "bind_step (Inl e) f = Break (Inl e)"
  "bind_step (Inr a) f = f a"
  by (simp_all add: bind_step_def)

lemma bind_res_Inr_iff:
  "bind_res r f = Inr b \<longleftrightarrow> (\<exists>a. r = Inr a \<and> f a = Inr b)"
  by (cases r) auto

lemma bind_res_assoc [simp]:
  "bind_res (bind_res r f) g = bind_res r (\<lambda>a. bind_res (f a) g)"
  by (cases r) auto

subsection \<open>Single bits and masks\<close>

text \<open>A C test \<open>x & (1 << n)\<close> read as a boolean is the bit \<open>n\<close> of \<open>x\<close>.\<close>

lemma and_push_bit_one_nonzero [flag_simps]:
  "(x AND push_bit n 1 \<noteq> (0 :: 'a::len word)) \<longleftrightarrow> bit x n"
  by (simp add: push_bit_of_1 and_exp_eq_0_iff_not_bit)

text \<open>A C test \<open>(x & m) == m\<close> holds when every bit of the mask is set in \<open>x\<close>.\<close>

lemma and_mask_eq_iff:
  "(x AND m = (m :: 'a::len word)) \<longleftrightarrow> (\<forall>n. bit m n \<longrightarrow> bit x n)"
  by (auto simp: bit_eq_iff bit_simps dest: bit_imp_le_length)

lemma bit_push_bit_one_iff [flag_simps]:
  "bit (push_bit m 1 :: 'a::len word) n \<longleftrightarrow> n = m \<and> m < LENGTH('a)"
  by (auto simp: bit_simps push_bit_of_1 bit_exp_iff)

subsection \<open>Little-endian bytes of a 32-bit word\<close>

lemma bit_byte_high [simp, byte_simps]: "8 \<le> n \<Longrightarrow> \<not> bit (b :: byte) n"
  by (auto dest: bit_imp_le_length)

lemma length_le_bytes [simp, byte_simps]: "length (le_bytes w) = 4"
  by (simp add: le_bytes_def)

lemma of_le_bytes_le_bytes [simp, byte_simps]: "of_le_bytes (le_bytes w) = w"
proof (rule bit_word_eqI)
  fix n :: nat
  assume "n < LENGTH(32)"
  then show "bit (of_le_bytes (le_bytes w)) n = bit w n"
    unfolding of_le_bytes_def le_bytes_def
    by (cases "n < 8"; cases "n < 16"; cases "n < 24") (auto simp: bit_simps)
qed

lemma le_bytes_of_le_bytes [byte_simps]:
  assumes "length bs = 4"
  shows "le_bytes (of_le_bytes bs) = bs"
proof -
  obtain a b c d where bs: "bs = [a, b, c, d]"
    using assms by (auto simp: length_Suc_conv numeral_eq_Suc)
  have "le_bytes (of_le_bytes [a, b, c, d]) = [a, b, c, d]"
    unfolding of_le_bytes_def le_bytes_def
    by (auto intro!: bit_word_eqI simp: bit_simps)
  then show ?thesis by (simp add: bs)
qed

lemma le_bytes_inj [byte_simps]: "le_bytes v = le_bytes w \<longleftrightarrow> v = w"
  by (metis of_le_bytes_le_bytes)

subsection \<open>Conversions\<close>

lemma unat_word_of_int_small:
  "0 \<le> x \<Longrightarrow> x < 2 ^ 32 \<Longrightarrow> unat (word_of_int x :: u32) = nat x"
  by (simp add: unsigned_of_int take_bit_int_eq_self)

lemma int_mod_2p32_neg: "- (2 ^ 31) \<le> (v :: int) \<Longrightarrow> v < 0 \<Longrightarrow> v mod 2 ^ 32 = v + 2 ^ 32"
proof -
  assume "- (2 ^ 31) \<le> v" "v < 0"
  then have "(v + 2 ^ 32) mod 2 ^ 32 = v + 2 ^ 32" by (intro mod_pos_pos_trivial) simp_all
  then show ?thesis by simp
qed

end
