(* ===== verification/CLib.thy ===== *)
theory CLib
  imports Prelude
begin

text \<open>
  The C library functions that \<^verbatim>\<open>src/sysinfos.c\<close> calls, modelled from their C
  standard semantics (they are not code of the repository): \<open>memcpy\<close> into a buffer at an
  offset, the \<open>%x\<close> conversion of \<open>printf\<close> on an unsigned value.  A copy that
  would write past the end of the destination is undefined behaviour in C and is the error
  \<open>Out_Of_Bounds\<close> here.  The lemmas give the length and content of a copy, the
  digits and width of the hexadecimal rendering, and that reading the digits back gives
  the number (the round trip).
\<close>

subsection \<open>memcpy\<close>

definition memcpy_at :: "byte list \<Rightarrow> nat \<Rightarrow> byte list \<Rightarrow> byte list result" where
  "memcpy_at dst off src =
     (if off + length src \<le> length dst
      then Inr (take off dst @ src @ drop (off + length src) dst)
      else Inl Out_Of_Bounds)"

subsection \<open>printf \<open>%x\<close>\<close>

definition hex_digit :: "nat \<Rightarrow> char" where
  "hex_digit d = ''0123456789abcdef'' ! d"

fun fmt_hex_nat :: "nat \<Rightarrow> string" where
  "fmt_hex_nat n = (if n < 16 then [hex_digit n] else fmt_hex_nat (n div 16) @ [hex_digit (n mod 16)])"

declare fmt_hex_nat.simps [simp del]

definition fmt_hex :: "u32 \<Rightarrow> string" where
  "fmt_hex w = fmt_hex_nat (unat w)"

definition hex_val :: "char \<Rightarrow> nat" where
  "hex_val c = (if of_char c \<le> (57 :: nat) then of_char c - 48 else of_char c - 87)"

definition parse_hex :: "string \<Rightarrow> nat" where
  "parse_hex cs = foldl (\<lambda>acc c. 16 * acc + hex_val c) 0 cs"

definition is_hex_digit :: "char \<Rightarrow> bool" where
  "is_hex_digit c \<longleftrightarrow> c \<in> set ''0123456789abcdef''"

subsection \<open>C strings, snprintf \<open>%s\<close>, strstr, getdelim\<close>

text \<open>
  A \<open>%s\<close> argument is read up to its first NUL byte; a buffer without one is read past
  its end (the error \<open>Unterminated_String\<close>).  \<open>snprintf(out, maxsz, "%s", str)\<close>
  writes at most \<open>maxsz - 1\<close> characters and a NUL into \<open>out\<close>, nothing when
  \<open>maxsz = 0\<close>.  Text is a \<open>string\<close> (one \<open>char\<close> per byte);
  \<open>bytes_of\<close> is its image in a \<open>char\<close> buffer.
\<close>

definition cstr :: "byte list \<Rightarrow> byte list result" where
  "cstr bs = (if 0 \<in> set bs then Inr (takeWhile (\<lambda>b. b \<noteq> 0) bs) else Inl Unterminated_String)"

definition snprintf_str :: "nat \<Rightarrow> byte list \<Rightarrow> byte list \<Rightarrow> byte list" where
  "snprintf_str maxsz out str =
     (if maxsz = 0 then out
      else let n = min (length str) (maxsz - 1) in take n str @ [0] @ drop (Suc n) out)"

definition bytes_of :: "string \<Rightarrow> byte list" where
  "bytes_of cs = map of_char cs"

text \<open>
  \<open>sprintf(out, "%s", str)\<close> and \<open>strcpy(out, str)\<close> take no size: they write
  \<open>str\<close> and a NUL at the start of \<open>out\<close>, past its end when it is too short.
\<close>

definition sprintf_buf :: "byte list \<Rightarrow> string \<Rightarrow> byte list result" where
  "sprintf_buf out str = memcpy_at out 0 (bytes_of str @ [0])"

fun strstr :: "string \<Rightarrow> string \<Rightarrow> nat option" where
  "strstr [] needle = (if needle = [] then Some 0 else None)"
| "strstr (c # cs) needle =
     (if take (length needle) (c # cs) = needle then Some 0 else map_option Suc (strstr cs needle))"

text \<open>
  \<open>getdelim(&buf, &size, 0, fd)\<close> returns the file piece by piece; a piece is the bytes
  it stores in \<open>buf\<close>: up to and including a NUL delimiter, or up to the end of the file,
  and \<open>getdelim\<close> writes a terminating NUL after them.  At the end it returns -1.
  \<open>c_string\<close> is what a string function sees in \<open>buf\<close>: the bytes before the first NUL.
\<close>

fun nul_chunks :: "string \<Rightarrow> string \<Rightarrow> string list" where
  "nul_chunks acc [] = (if acc = [] then [] else [rev acc])"
| "nul_chunks acc (c # cs) =
     (if c = CHR 0x00 then rev (c # acc) # nul_chunks [] cs else nul_chunks (c # acc) cs)"

definition c_string :: "string \<Rightarrow> string" where
  "c_string buf = takeWhile (\<lambda>c. c \<noteq> CHR 0x00) buf"

text \<open>
  The same calls on the stream itself: \<open>getdelim_nul content pos\<close> is
  \<open>getdelim(&buf, &size, 0, fd)\<close> on a stream over \<open>content\<close> at offset \<open>pos\<close>.  At the
  end of the file it returns \<open>None\<close> (-1); otherwise the bytes read (the piece and its
  delimiter, when there is one) and the offset after them.
\<close>

definition getdelim_nul :: "string \<Rightarrow> nat \<Rightarrow> (string \<times> nat) option" where
  "getdelim_nul content pos =
     (if length content \<le> pos then None
      else (let rest = drop pos content;
                n = min (Suc (length (takeWhile (\<lambda>c. c \<noteq> CHR 0x00) rest))) (length rest)
            in Some (take n rest, pos + n)))"

subsection \<open>atoi, printf \<open>%d\<close> and \<open>%02x\<close>\<close>

text \<open>
  \<open>atoi\<close> skips white space, reads an optional sign and the longest run of decimal
  digits; a value outside the range of \<open>int\<close> is undefined behaviour (the error
  \<open>Int_Overflow\<close>).  \<open>%d\<close> prints an \<open>int\<close> in decimal with a minus sign when
  negative; \<open>%02x\<close> pads the hexadecimal digits with zeros to width two.
\<close>

definition c_isspace :: "char \<Rightarrow> bool" where
  "c_isspace c \<longleftrightarrow> of_char c = (32 :: nat) \<or> (9 \<le> (of_char c :: nat) \<and> of_char c \<le> (13 :: nat))"

definition c_isdigit :: "char \<Rightarrow> bool" where
  "c_isdigit c \<longleftrightarrow> 48 \<le> (of_char c :: nat) \<and> of_char c \<le> (57 :: nat)"

definition dec_val :: "string \<Rightarrow> nat" where
  "dec_val cs = foldl (\<lambda>acc c. 10 * acc + (of_char c - 48)) 0 cs"

definition int_in_range :: "int \<Rightarrow> bool" where
  "int_in_range n \<longleftrightarrow> - (2 ^ 31) \<le> n \<and> n < 2 ^ 31"

definition atoi :: "string \<Rightarrow> int result" where
  "atoi s =
     (let s = dropWhile c_isspace s;
          (neg, s) = (case s of
                        [] \<Rightarrow> (False, [])
                      | c # r \<Rightarrow> (if c = CHR ''-'' then (True, r)
                                 else if c = CHR ''+'' then (False, r) else (False, c # r)));
          v = int (dec_val (takeWhile c_isdigit s));
          n = (if neg then - v else v)
      in if int_in_range n then Inr n else Inl Int_Overflow)"

fun fmt_dec_nat :: "nat \<Rightarrow> string" where
  "fmt_dec_nat n = (if n < 10 then [hex_digit n] else fmt_dec_nat (n div 10) @ [hex_digit (n mod 10)])"

declare fmt_dec_nat.simps [simp del]

definition fmt_dec_int :: "int \<Rightarrow> string" where
  "fmt_dec_int n = (if n < 0 then CHR ''-'' # fmt_dec_nat (nat (- n)) else fmt_dec_nat (nat n))"

definition pad2 :: "string \<Rightarrow> string" where
  "pad2 s = replicate (2 - length s) CHR ''0'' @ s"

subsection \<open>fscanf \<open>%d\<close>\<close>

text \<open>
  \<open>fscanf(fd, "%d", &v)\<close> on a file whose text is \<open>s\<close>: white space is skipped; at the
  end of the input it returns \<open>EOF\<close> (-1) and stores nothing; when no digit follows the
  optional sign it returns 0 and stores nothing; otherwise it stores the value and returns 1.
  A value outside the range of \<open>int\<close> is undefined behaviour.
\<close>

definition fscanf_d :: "string \<Rightarrow> (int \<times> int option) result" where
  "fscanf_d s =
     (let s = dropWhile c_isspace s in
      if s = [] then Inr (-1, None)
      else
        (let (neg, r) = (case s of
                           [] \<Rightarrow> (False, [])
                         | c # r \<Rightarrow> (if c = CHR ''-'' then (True, r)
                                    else if c = CHR ''+'' then (False, r) else (False, c # r)));
             ds = takeWhile c_isdigit r
         in if ds = [] then Inr (0, None)
            else (let v = int (dec_val ds); n = (if neg then - v else v)
                  in if int_in_range n then Inr (1, Some n) else Inl Int_Overflow)))"

subsection \<open>Facts on memcpy\<close>

lemma memcpy_at_Inr:
  "off + length src \<le> length dst \<Longrightarrow>
   memcpy_at dst off src = Inr (take off dst @ src @ drop (off + length src) dst)"
  by (simp add: memcpy_at_def)

lemma memcpy_at_Inl:
  "length dst < off + length src \<Longrightarrow> memcpy_at dst off src = Inl Out_Of_Bounds"
  by (simp add: memcpy_at_def)

lemma memcpy_at_length:
  "memcpy_at dst off src = Inr dst' \<Longrightarrow> length dst' = length dst"
  by (auto simp: memcpy_at_def split: if_splits)

subsection \<open>Facts on the hexadecimal rendering\<close>

lemma hex_val_hex_digit [simp]: "d < 16 \<Longrightarrow> hex_val (hex_digit d) = d"
  by (auto simp: numeral_eq_Suc less_Suc_eq hex_val_def hex_digit_def)

lemma hex_digit_is_hex_digit: "d < 16 \<Longrightarrow> is_hex_digit (hex_digit d)"
  unfolding is_hex_digit_def hex_digit_def by (rule nth_mem) simp

lemma parse_hex_snoc: "parse_hex (cs @ [c]) = 16 * parse_hex cs + hex_val c"
  by (simp add: parse_hex_def)

lemma parse_hex_fmt_hex_nat: "parse_hex (fmt_hex_nat n) = n"
proof (induction n rule: fmt_hex_nat.induct)
  case (1 n)
  show ?case
  proof (cases "n < 16")
    case True
    then show ?thesis by (simp add: fmt_hex_nat.simps [of n] parse_hex_def)
  next
    case False
    then have "fmt_hex_nat n = fmt_hex_nat (n div 16) @ [hex_digit (n mod 16)]"
      by (simp add: fmt_hex_nat.simps [of n])
    with False "1.IH" show ?thesis by (simp add: parse_hex_snoc)
  qed
qed

lemma fmt_hex_nat_digits: "\<forall>c \<in> set (fmt_hex_nat n). is_hex_digit c"
proof (induction n rule: fmt_hex_nat.induct)
  case (1 n)
  then show ?case
    by (subst fmt_hex_nat.simps) (auto simp: hex_digit_is_hex_digit)
qed

lemma fmt_hex_nat_length: "n < 16 ^ Suc k \<Longrightarrow> length (fmt_hex_nat n) \<le> Suc k"
proof (induction n arbitrary: k rule: fmt_hex_nat.induct)
  case (1 n)
  show ?case
  proof (cases "n < 16")
    case True
    then show ?thesis by (simp add: fmt_hex_nat.simps [of n])
  next
    case False
    then obtain j where k: "k = Suc j"
      using "1.prems" by (cases k) auto
    with "1.prems" have "n div 16 < 16 ^ Suc j"
      by (simp add: less_mult_imp_div_less mult.commute)
    with False "1.IH" have "length (fmt_hex_nat (n div 16)) \<le> Suc j" by simp
    with False k show ?thesis by (simp add: fmt_hex_nat.simps [of n])
  qed
qed

lemma fmt_hex_nat_nonempty: "fmt_hex_nat n \<noteq> []"
  by (subst fmt_hex_nat.simps) simp

subsection \<open>Facts on C strings and strstr\<close>

lemma length_snprintf_str [simp]:
  "maxsz = length out \<Longrightarrow> length (snprintf_str maxsz out str) = length out"
  by (cases out) (auto simp: snprintf_str_def Let_def min_def)

lemma snprintf_str_terminated:
  "0 < maxsz \<Longrightarrow> maxsz = length out \<Longrightarrow> 0 \<in> set (snprintf_str maxsz out str)"
  by (auto simp: snprintf_str_def Let_def)

lemma snprintf_str_prefix:
  "0 < maxsz \<Longrightarrow> maxsz = length out \<Longrightarrow> length str < maxsz \<Longrightarrow>
   take (Suc (length str)) (snprintf_str maxsz out str) = str @ [0]"
  by (simp add: snprintf_str_def min_def)

lemma cstr_no_nul: "cstr bs = Inr cs \<Longrightarrow> 0 \<notin> set cs"
  by (auto simp: cstr_def split: if_splits dest: set_takeWhileD)

lemma strstr_found:
  "strstr hay needle = Some i \<Longrightarrow> i + length needle \<le> length hay \<and> take (length needle) (drop i hay) = needle"
proof (induction hay arbitrary: i)
  case Nil
  then show ?case by (simp split: if_splits)
next
  case (Cons c cs)
  show ?case
  proof (cases "take (length needle) (c # cs) = needle")
    case True
    with Cons.prems have "i = 0" by simp
    with True show ?thesis by (metis add_0 drop0 length_take min.absorb_iff2 nat_le_linear take_all)
  next
    case False
    with Cons.prems obtain j where "strstr cs needle = Some j" "i = Suc j" by auto
    with Cons.IH show ?thesis by simp
  qed
qed

lemma strstr_None:
  "strstr hay needle = None \<Longrightarrow> take (length needle) (drop i hay) = needle \<Longrightarrow> length hay < i + length needle"
proof (induction hay arbitrary: i)
  case Nil
  then show ?case by (cases "needle = []") auto
next
  case (Cons c cs)
  show ?case
  proof (cases i)
    case 0
    with Cons.prems show ?thesis by (auto split: if_splits)
  next
    case (Suc j)
    with Cons.prems have "strstr cs needle = None" by (auto split: if_splits)
    with Cons.IH Cons.prems Suc show ?thesis by simp
  qed
qed

lemma strstr_single:
  "strstr p [c] = (if c \<in> set p then Some (length (takeWhile (\<lambda>x. x \<noteq> c) p)) else None)"
  by (induction p) auto

lemma nul_chunks_single:
  "CHR 0x00 \<notin> set cs \<Longrightarrow> acc @ cs \<noteq> [] \<Longrightarrow> nul_chunks acc cs = [rev acc @ cs]"
  by (induction acc cs rule: nul_chunks.induct) auto

lemma c_string_no_nul [simp]: "CHR 0x00 \<notin> set s \<Longrightarrow> c_string s = s"
  by (auto simp: c_string_def)

subsection \<open>Facts on atoi and the decimal and padded renderings\<close>

lemma hex_digit_dec:
  "d < 10 \<Longrightarrow> c_isdigit (hex_digit d) \<and> of_char (hex_digit d) - 48 = d"
  by (auto simp: numeral_eq_Suc less_Suc_eq c_isdigit_def hex_digit_def)

lemma fmt_dec_nat_digits: "list_all c_isdigit (fmt_dec_nat n)"
proof (induction n rule: fmt_dec_nat.induct)
  case (1 n)
  then show ?case
    by (subst fmt_dec_nat.simps) (auto simp: hex_digit_dec)
qed

lemma fmt_dec_nat_nonempty: "fmt_dec_nat n \<noteq> []"
  by (subst fmt_dec_nat.simps) simp

lemma dec_val_snoc: "dec_val (cs @ [c]) = 10 * dec_val cs + (of_char c - 48)"
  by (simp add: dec_val_def)

lemma dec_val_fmt_dec_nat: "dec_val (fmt_dec_nat n) = n"
proof (induction n rule: fmt_dec_nat.induct)
  case (1 n)
  show ?case
  proof (cases "n < 10")
    case True
    then show ?thesis by (simp add: fmt_dec_nat.simps [of n] dec_val_def hex_digit_dec)
  next
    case False
    then have "fmt_dec_nat n = fmt_dec_nat (n div 10) @ [hex_digit (n mod 10)]"
      by (simp add: fmt_dec_nat.simps [of n])
    with False "1.IH" show ?thesis by (simp add: dec_val_snoc hex_digit_dec)
  qed
qed

lemma takeWhile_all_append:
  "list_all P xs \<Longrightarrow> takeWhile P (xs @ ys) = xs @ takeWhile P ys"
  by (induction xs) auto

lemma c_isdigit_not_sign_space:
  "c_isdigit c \<Longrightarrow> c \<noteq> CHR ''-'' \<and> c \<noteq> CHR ''+'' \<and> \<not> c_isspace c"
  by (auto simp: c_isdigit_def c_isspace_def)

lemma atoi_fmt_dec_nat:
  assumes "takeWhile c_isdigit rest = []"
  shows "dropWhile c_isspace (fmt_dec_nat n @ rest) = fmt_dec_nat n @ rest \<and>
         takeWhile c_isdigit (fmt_dec_nat n @ rest) = fmt_dec_nat n"
proof -
  obtain c cs where fc: "fmt_dec_nat n = c # cs"
    using fmt_dec_nat_nonempty by (cases "fmt_dec_nat n") auto
  have "c_isdigit c" using fmt_dec_nat_digits [of n] by (simp add: fc)
  then show ?thesis
    using assms fmt_dec_nat_digits [of n] by (simp add: takeWhile_all_append c_isdigit_not_sign_space fc)
qed

lemma atoi_fmt_dec_int:
  assumes "int_in_range n" and "takeWhile c_isdigit rest = []"
  shows "atoi (fmt_dec_int n @ rest) = Inr n"
proof (cases "n < 0")
  case True
  with assms atoi_fmt_dec_nat [OF assms(2), of "nat (- n)"] show ?thesis
    by (simp add: atoi_def fmt_dec_int_def c_isspace_def dec_val_fmt_dec_nat)
next
  case False
  obtain c cs where fc: "fmt_dec_nat (nat n) = c # cs"
    using fmt_dec_nat_nonempty by (cases "fmt_dec_nat (nat n)") auto
  have "c_isdigit c" using fmt_dec_nat_digits [of "nat n"] by (simp add: fc)
  moreover have "dec_val (c # cs) = nat n" using dec_val_fmt_dec_nat [of "nat n"] by (simp add: fc)
  ultimately show ?thesis using False assms atoi_fmt_dec_nat [OF assms(2), of "nat n"]
    by (simp add: atoi_def fmt_dec_int_def fc c_isdigit_not_sign_space Let_def)
qed

lemma parse_hex_zeros: "parse_hex (replicate k CHR ''0'' @ s) = parse_hex s"
  by (induction k) (simp_all add: parse_hex_def hex_val_def)

lemma parse_hex_pad2: "parse_hex (pad2 s) = parse_hex s"
  by (simp add: pad2_def parse_hex_zeros)

lemma length_pad2: "length s \<le> 2 \<Longrightarrow> length (pad2 s) = 2"
  by (simp add: pad2_def)

lemma snprintf_str_zeroed_last:
  "0 < maxsz \<Longrightarrow> snprintf_str maxsz (replicate maxsz 0) s ! (maxsz - 1) = 0"
  by (auto simp: snprintf_str_def nth_append min_def nth_Cons')

lemma length_fmt_hex_byte: "n < 256 \<Longrightarrow> length (fmt_hex_nat n) \<le> 2"
  using fmt_hex_nat_length [of n 1] by simp

lemma fscanf_d_fmt_dec_int:
  assumes "int_in_range n" and "takeWhile c_isdigit rest = []"
  shows "fscanf_d (fmt_dec_int n @ rest) = Inr (1, Some n)"
proof (cases "n < 0")
  case True
  with assms atoi_fmt_dec_nat [OF assms(2), of "nat (- n)"] show ?thesis
    by (simp add: fscanf_d_def fmt_dec_int_def c_isspace_def dec_val_fmt_dec_nat fmt_dec_nat_nonempty)
next
  case False
  obtain c cs where fc: "fmt_dec_nat (nat n) = c # cs"
    using fmt_dec_nat_nonempty by (cases "fmt_dec_nat (nat n)") auto
  have "c_isdigit c" using fmt_dec_nat_digits [of "nat n"] by (simp add: fc)
  moreover have "dec_val (c # cs) = nat n" using dec_val_fmt_dec_nat [of "nat n"] by (simp add: fc)
  ultimately show ?thesis using False assms atoi_fmt_dec_nat [OF assms(2), of "nat n"]
    by (simp add: fscanf_d_def fmt_dec_int_def fc c_isdigit_not_sign_space Let_def)
qed

lemma nul_chunks_Cons:
  "cs \<noteq> [] \<Longrightarrow>
   nul_chunks acc cs = (rev acc @ take (Suc (length (takeWhile (\<lambda>c. c \<noteq> CHR 0x00) cs))) cs)
     # nul_chunks [] (drop (Suc (length (takeWhile (\<lambda>c. c \<noteq> CHR 0x00) cs))) cs)"
proof (induction cs arbitrary: acc)
  case Nil
  then show ?case by simp
next
  case (Cons c cs)
  show ?case by (cases "c = CHR 0x00"; cases "cs = []") (simp_all add: Cons.IH)
qed

lemma getdelim_nul_None: "getdelim_nul content pos = None \<longleftrightarrow> length content \<le> pos"
  by (simp add: getdelim_nul_def Let_def)

lemma getdelim_nul_Some:
  assumes "getdelim_nul content pos = Some (piece, pos')"
  shows "pos < pos' \<and> pos' \<le> length content \<and>
         nul_chunks [] (drop pos content) = piece # nul_chunks [] (drop pos' content)"
proof -
  have lt: "pos < length content" using assms by (simp add: getdelim_nul_def split: if_splits)
  let ?r = "drop pos content"
  let ?n = "Suc (length (takeWhile (\<lambda>c. c \<noteq> CHR 0x00) ?r))"
  have tm: "take (min ?n (length ?r)) ?r = take ?n ?r" by (simp add: min_def)
  have p: "piece = take ?n ?r" and p': "pos' = pos + min ?n (length ?r)"
    using assms lt tm by (auto simp: getdelim_nul_def Let_def)
  have "drop pos' content = drop ?n ?r"
    by (simp add: p' min_def add.commute)
  moreover have "?r \<noteq> []" using lt by simp
  ultimately show ?thesis
    using lt by (simp add: p p' nul_chunks_Cons [of ?r "[]"] min_def, linarith)
qed

lemma unat_of_char_byte: "unat (of_char c :: byte) = of_char c"
  by (subst of_nat_of_char [symmetric])
     (simp add: unat_of_nat nat_of_char_less_256 del: of_nat_of_char)

lemma of_char_byte_10: "of_char c = (10::byte) \<longleftrightarrow> c = CHR 0x0A"
proof
  assume "of_char c = (10::byte)"
  then have "unat (of_char c :: byte) = 10" by simp
  then have eq: "(of_char c :: nat) = of_char (CHR 0x0A)" by (simp add: unat_of_char_byte)
  show "c = CHR 0x0A" by (rule injD [OF inj_of_char [where 'a = nat] eq])
qed simp

lemma newline_in_bytes_of: "(10::byte) \<in> set (bytes_of s) \<longleftrightarrow> CHR 0x0A \<in> set s"
  by (auto simp: bytes_of_def of_char_byte_10 image_iff)

lemma snprintf_str_zeroed_prefix:
  "set (takeWhile (\<lambda>b. b \<noteq> 0) (snprintf_str maxsz (replicate maxsz 0) s)) \<subseteq> set s"
  by (auto simp: snprintf_str_def Let_def takeWhile_append dest: in_set_takeD set_takeWhileD)

lemma sprintf_buf_eq:
  "sprintf_buf out str =
     (if length str < length out then Inr (bytes_of str @ 0 # drop (Suc (length str)) out)
      else Inl Out_Of_Bounds)"
  by (simp add: sprintf_buf_def memcpy_at_def bytes_of_def)

lemma nul_chunks_delimited:
  "CHR 0x00 \<notin> set piece \<Longrightarrow>
   nul_chunks acc (piece @ CHR 0x00 # rest) = (rev acc @ piece @ [CHR 0x00]) # nul_chunks [] rest"
  by (induction piece arbitrary: acc) auto

lemma c_string_delimited [simp]: "CHR 0x00 \<notin> set piece \<Longrightarrow> c_string (piece @ CHR 0x00 # rest) = piece"
  by (induction piece) (auto simp: c_string_def)

end
