(* ===== verification/Cpuid.thy ===== *)
theory Cpuid
  imports CLib
begin

text \<open>
  The identification instruction of \<^verbatim>\<open>src/sysinfos.c\<close> (lines 98--132 and the
  \<^verbatim>\<open>#define\<close>s of lines 240--254).  The processor is a parameter of every
  operation: \<open>cpuid_hw leaf subleaf\<close> is the quad of registers that the instruction
  leaves in EAX, EBX, ECX, EDX.  This is the interface between the detector and the
  hardware; every lemma of the detector holds for every \<open>cpuid_hw\<close>.  The build target
  (\<^verbatim>\<open>__arm__\<close> or not) is the datatype \<open>arch\<close>.  On x86 the wrapper copies the
  four registers into \<open>output[0..3]\<close>; on ARM the macro of line 126 only stores
  \<open>output[0] = 0\<close> and leaves the other three words as the caller had them.
\<close>

datatype arch = X86 | ARM

text \<open>The register indices \<^verbatim>\<open>EAX_Reg\<close> .. \<^verbatim>\<open>EDX_Reg\<close> (0..3) of \<open>int output[4]\<close>.\<close>

datatype reg = EAX_Reg | EBX_Reg | ECX_Reg | EDX_Reg

type_synonym quad = "reg \<Rightarrow> u32"

type_synonym cpuid_hw = "u32 \<Rightarrow> u32 \<Rightarrow> quad"

definition reg_index :: "reg \<Rightarrow> nat" where
  "reg_index r = (case r of EAX_Reg \<Rightarrow> 0 | EBX_Reg \<Rightarrow> 1 | ECX_Reg \<Rightarrow> 2 | EDX_Reg \<Rightarrow> 3)"

definition quad_regs :: "reg list" where
  "quad_regs = [EAX_Reg, EBX_Reg, ECX_Reg, EDX_Reg]"

text \<open>\<open>int cpu_info[4] = { 0 }\<close>\<close>

definition zero_quad :: quad where
  "zero_quad = (\<lambda>_. 0)"

subsection \<open>The CPUID leaves used by the file\<close>

definition VENDOR_ID :: u32 where "VENDOR_ID = 0"
definition PROCESSOR_INFO :: u32 where "PROCESSOR_INFO = 1"
definition CACHE_TLB_DESCRIPTOR :: u32 where "CACHE_TLB_DESCRIPTOR = 2"
definition EXTENDED_FEATURES :: u32 where "EXTENDED_FEATURES = 7"
definition HIGHEST_EXTENDED_FUNCTION :: u32 where "HIGHEST_EXTENDED_FUNCTION = 0x80000000"
definition EXTENDED_PROCESSOR_INFO :: u32 where "EXTENDED_PROCESSOR_INFO = 0x80000001"
definition PROCESSOR_BRAND_STRING_1 :: u32 where "PROCESSOR_BRAND_STRING_1 = 0x80000002"
definition PROCESSOR_BRAND_STRING_2 :: u32 where "PROCESSOR_BRAND_STRING_2 = 0x80000003"
definition PROCESSOR_BRAND_STRING_3 :: u32 where "PROCESSOR_BRAND_STRING_3 = 0x80000004"

subsection \<open>The instruction and its wrapper\<close>

text \<open>
  \<^verbatim>\<open>cpuid(functionnumber, output)\<close>: the three compiler variants of lines 100--123
  all execute the instruction with EAX = \<open>functionnumber\<close> and ECX = 0 and store
  EAX, EBX, ECX, EDX in this order.
\<close>

definition cpuid :: "arch \<Rightarrow> cpuid_hw \<Rightarrow> u32 \<Rightarrow> quad \<Rightarrow> quad" where
  "cpuid arch hw functionnumber output =
     (case arch of
        X86 \<Rightarrow> hw functionnumber 0
      | ARM \<Rightarrow> output(EAX_Reg := 0))"

definition processor_id :: "arch \<Rightarrow> cpuid_hw \<Rightarrow> u32 \<Rightarrow> quad \<Rightarrow> quad" where
  "processor_id arch hw functionnumber output = cpuid arch hw functionnumber output"

subsection \<open>The quad in memory\<close>

text \<open>
  \<open>memcpy(s, cpu_info, sizeof(cpu_info))\<close> copies the 16 bytes of \<open>int[4]\<close>: the
  words in index order, each in the little-endian byte order of x86.
\<close>

definition quad_bytes :: "quad \<Rightarrow> byte list" where
  "quad_bytes q = concat (map (\<lambda>r. le_bytes (q r)) quad_regs)"

definition quad_of_bytes :: "byte list \<Rightarrow> quad" where
  "quad_of_bytes bs r = of_le_bytes (take 4 (drop (4 * reg_index r) bs))"

lemmas cpuid_leaf_defs =
  VENDOR_ID_def PROCESSOR_INFO_def CACHE_TLB_DESCRIPTOR_def EXTENDED_FEATURES_def
  HIGHEST_EXTENDED_FUNCTION_def EXTENDED_PROCESSOR_INFO_def PROCESSOR_BRAND_STRING_1_def
  PROCESSOR_BRAND_STRING_2_def PROCESSOR_BRAND_STRING_3_def

subsection \<open>Facts on the instruction\<close>

lemma cpuid_X86 [simp]: "cpuid X86 hw fn out = hw fn 0"
  by (simp add: cpuid_def)

lemma cpuid_ARM [simp]: "cpuid ARM hw fn out = out(EAX_Reg := 0)"
  by (simp add: cpuid_def)

lemma reg_all_iff: "(\<forall>r. P r) \<longleftrightarrow> P EAX_Reg \<and> P EBX_Reg \<and> P ECX_Reg \<and> P EDX_Reg"
  by (metis reg.exhaust)

lemma zero_quad_apply [simp]: "zero_quad r = 0"
  by (simp add: zero_quad_def)

lemma cpuid_ARM_zero [simp]: "cpuid ARM hw fn zero_quad = zero_quad"
  by (auto simp: fun_eq_iff)

subsection \<open>Facts on the memory image of a quad\<close>

lemma length_quad_bytes [simp, byte_simps]: "length (quad_bytes q) = 16"
  by (simp add: quad_bytes_def quad_regs_def)

lemma quad_bytes_unfold:
  "quad_bytes q = le_bytes (q EAX_Reg) @ le_bytes (q EBX_Reg) @ le_bytes (q ECX_Reg) @ le_bytes (q EDX_Reg)"
  by (simp add: quad_bytes_def quad_regs_def)

lemma quad_of_bytes_append [simp]:
  "length bs = 16 \<Longrightarrow> quad_of_bytes (bs @ cs) = quad_of_bytes bs"
  by (auto simp: fun_eq_iff quad_of_bytes_def reg_index_def split: reg.splits)

lemma quad_of_bytes_quad_bytes [simp, byte_simps]: "quad_of_bytes (quad_bytes q) = q"
proof
  fix r
  show "quad_of_bytes (quad_bytes q) r = q r"
    by (cases r) (simp_all add: quad_of_bytes_def reg_index_def quad_bytes_unfold)
qed

lemma quad_bytes_inj [byte_simps]: "quad_bytes p = quad_bytes q \<longleftrightarrow> p = q"
  by (metis quad_of_bytes_quad_bytes)

subsection \<open>Properties of the primitive\<close>

text \<open>
  C7. On an ARM build the query does not return an all-zero quad: \<^verbatim>\<open>processor_id\<close>
  stores 0 in \<open>output[0]\<close> only, so its result is all zero exactly when the caller's
  other three words were already zero.  On x86 the result is the processor's answer to the
  leaf with subleaf 0, whatever the buffer held.
\<close>

theorem processor_id_zero_iff:
  "(processor_id ARM hw fn out = zero_quad \<longleftrightarrow>
      out EBX_Reg = 0 \<and> out ECX_Reg = 0 \<and> out EDX_Reg = 0) \<and>
   processor_id X86 hw fn out = hw fn 0"
proof -
  have "processor_id ARM hw fn out = zero_quad \<longleftrightarrow> (\<forall>r. (out(EAX_Reg := 0)) r = 0)"
    by (simp add: processor_id_def fun_eq_iff)
  also have "\<dots> \<longleftrightarrow> out EBX_Reg = 0 \<and> out ECX_Reg = 0 \<and> out EDX_Reg = 0"
    by (simp add: reg_all_iff)
  finally show ?thesis by (simp add: processor_id_def)
qed

end
