(* ===== verification/Features.thy ===== *)
theory Features
  imports Cpuid
begin

text \<open>
  Feature detection of \<^verbatim>\<open>src/sysinfos.c\<close>: the flag and mask constants (lines
  256--271), the checks \<^verbatim>\<open>has_sse2\<close> .. \<^verbatim>\<open>has_sse\<close> (lines 273--362) and
  \<^verbatim>\<open>cpu_bestfeature\<close> (lines 393--421).  Each check queries a fixed leaf into a zeroed
  \<open>int cpu_info[4]\<close> and tests a mask against one register; on ARM it returns false
  without querying.  \<^verbatim>\<open>cpu_bestfeature\<close> tries the checks in a fixed order and
  writes the label of the first that holds.

  The abstract specification is the table of the design (selector, register, bits) per
  capability and the preference order: \<open>supports\<close> reads the bits, and
  \<open>best_feature_spec\<close> picks the first selectable capability of \<open>preference\<close>.
  The lemmas show that every check is exactly its row of the table and that
  \<^verbatim>\<open>cpu_bestfeature\<close> implements the preference order.
\<close>

subsection \<open>Flags and masks\<close>

definition XSAVE_Flag :: u32 where "XSAVE_Flag = push_bit 26 1"
definition OSXSAVE_Flag :: u32 where "OSXSAVE_Flag = push_bit 27 1"
definition AVX1_Flag :: u32 where "AVX1_Flag = push_bit 28 1"
definition XOP_Flag :: u32 where "XOP_Flag = push_bit 11 1"
definition FMA3_Flag :: u32 where "FMA3_Flag = push_bit 12 1"
definition AES_Flag :: u32 where "AES_Flag = push_bit 25 1"
definition SSE42_Flag :: u32 where "SSE42_Flag = push_bit 20 1"
definition SSE_Flag :: u32 where "SSE_Flag = push_bit 25 1"
definition SSE2_Flag :: u32 where "SSE2_Flag = push_bit 26 1"
definition AVX2_Flag :: u32 where "AVX2_Flag = push_bit 5 1"

definition AVX1_mask :: u32 where "AVX1_mask = AVX1_Flag OR XSAVE_Flag OR OSXSAVE_Flag"
definition FMA3_mask :: u32 where "FMA3_mask = FMA3_Flag OR AVX1_mask"

lemmas flag_defs =
  XSAVE_Flag_def OSXSAVE_Flag_def AVX1_Flag_def XOP_Flag_def FMA3_Flag_def AES_Flag_def
  SSE42_Flag_def SSE_Flag_def SSE2_Flag_def AVX2_Flag_def AVX1_mask_def FMA3_mask_def

subsection \<open>The checks\<close>

definition has_sse2 :: "arch \<Rightarrow> cpuid_hw \<Rightarrow> bool" where
  "has_sse2 arch hw =
     (case arch of ARM \<Rightarrow> False
      | X86 \<Rightarrow> (let cpu_info = cpuid arch hw PROCESSOR_INFO zero_quad
               in cpu_info EDX_Reg AND SSE2_Flag \<noteq> 0))"

definition has_aes_ni :: "arch \<Rightarrow> cpuid_hw \<Rightarrow> bool" where
  "has_aes_ni arch hw =
     (case arch of ARM \<Rightarrow> False
      | X86 \<Rightarrow> (let cpu_info = cpuid arch hw PROCESSOR_INFO zero_quad
               in cpu_info ECX_Reg AND AES_Flag \<noteq> 0))"

definition has_avx1 :: "arch \<Rightarrow> cpuid_hw \<Rightarrow> bool" where
  "has_avx1 arch hw =
     (case arch of ARM \<Rightarrow> False
      | X86 \<Rightarrow> (let cpu_info = cpuid arch hw PROCESSOR_INFO zero_quad
               in cpu_info ECX_Reg AND AVX1_mask = AVX1_mask))"

definition has_avx2 :: "arch \<Rightarrow> cpuid_hw \<Rightarrow> bool" where
  "has_avx2 arch hw =
     (case arch of ARM \<Rightarrow> False
      | X86 \<Rightarrow> (let cpu_info = cpuid arch hw EXTENDED_FEATURES zero_quad
               in cpu_info EBX_Reg AND AVX2_Flag \<noteq> 0))"

definition has_xop :: "arch \<Rightarrow> cpuid_hw \<Rightarrow> bool" where
  "has_xop arch hw =
     (case arch of ARM \<Rightarrow> False
      | X86 \<Rightarrow> (let cpu_info = cpuid arch hw PROCESSOR_INFO zero_quad
               in cpu_info ECX_Reg AND XOP_Flag \<noteq> 0))"

definition has_fma3 :: "arch \<Rightarrow> cpuid_hw \<Rightarrow> bool" where
  "has_fma3 arch hw =
     (case arch of ARM \<Rightarrow> False
      | X86 \<Rightarrow> (let cpu_info = cpuid arch hw PROCESSOR_INFO zero_quad
               in cpu_info ECX_Reg AND FMA3_mask = FMA3_mask))"

definition has_sse42 :: "arch \<Rightarrow> cpuid_hw \<Rightarrow> bool" where
  "has_sse42 arch hw =
     (case arch of ARM \<Rightarrow> False
      | X86 \<Rightarrow> (let cpu_info = cpuid arch hw PROCESSOR_INFO zero_quad
               in cpu_info ECX_Reg AND SSE42_Flag \<noteq> 0))"

definition has_sse :: "arch \<Rightarrow> cpuid_hw \<Rightarrow> bool" where
  "has_sse arch hw =
     (case arch of ARM \<Rightarrow> False
      | X86 \<Rightarrow> (let cpu_info = cpuid arch hw PROCESSOR_INFO zero_quad
               in cpu_info EDX_Reg AND SSE_Flag \<noteq> 0))"

subsection \<open>The best feature\<close>

text \<open>
  The two queries at the start of the x86 branch fill locals that are never read; the
  label depends on the checks only.  \<open>*outbuf = '\0'\<close> is the empty string.
\<close>

definition cpu_bestfeature :: "arch \<Rightarrow> cpuid_hw \<Rightarrow> string" where
  "cpu_bestfeature arch hw =
     (case arch of ARM \<Rightarrow> ''ARM''
      | X86 \<Rightarrow>
        (let cpu_info = cpuid arch hw PROCESSOR_INFO zero_quad;
             cpu_info_adv = cpuid arch hw EXTENDED_FEATURES zero_quad
         in if has_avx1 arch hw \<and> has_avx2 arch hw then ''AVX2''
            else if has_avx1 arch hw then ''AVX1''
            else if has_fma3 arch hw then ''FMA3''
            else if has_xop arch hw then ''XOP''
            else if has_sse42 arch hw then ''SSE42''
            else if has_sse2 arch hw then ''SSE2''
            else if has_sse arch hw then ''SSE''
            else ''''))"

text \<open>
  The write of the label into \<open>outbuf\<close>: \<open>sprintf(outbuf, label)\<close>, or
  \<open>*outbuf = '\0'\<close> when no feature is found.  The argument \<open>maxsz\<close> is never read.
\<close>

definition cpu_bestfeature_write :: "arch \<Rightarrow> cpuid_hw \<Rightarrow> byte list \<Rightarrow> int \<Rightarrow> byte list result" where
  "cpu_bestfeature_write arch hw outbuf maxsz =
     (let label = cpu_bestfeature arch hw in
      if label = [] then (if outbuf = [] then Inl Out_Of_Bounds else Inr (outbuf[0 := 0]))
      else sprintf_buf outbuf label)"

subsection \<open>Abstract specification: the capability table and the preference order\<close>

datatype feature = F_SSE | F_SSE2 | F_SSE42 | F_AES_NI | F_AVX1 | F_FMA3 | F_XOP | F_AVX2

text \<open>Rows of the design table: (selector, register, bit) that must all be set.\<close>

fun feature_bits :: "feature \<Rightarrow> (u32 \<times> reg \<times> nat) list" where
  "feature_bits F_SSE = [(1, EDX_Reg, 25)]"
| "feature_bits F_SSE2 = [(1, EDX_Reg, 26)]"
| "feature_bits F_SSE42 = [(1, ECX_Reg, 20)]"
| "feature_bits F_AES_NI = [(1, ECX_Reg, 25)]"
| "feature_bits F_AVX1 = [(1, ECX_Reg, 28), (1, ECX_Reg, 26), (1, ECX_Reg, 27)]"
| "feature_bits F_FMA3 = [(1, ECX_Reg, 12), (1, ECX_Reg, 28), (1, ECX_Reg, 26), (1, ECX_Reg, 27)]"
| "feature_bits F_XOP = [(1, ECX_Reg, 11)]"
| "feature_bits F_AVX2 = [(7, EBX_Reg, 5)]"

definition supports :: "cpuid_hw \<Rightarrow> feature \<Rightarrow> bool" where
  "supports hw f = list_all (\<lambda>(leaf, r, b). bit (hw leaf 0 r) b) (feature_bits f)"

definition has_feature :: "arch \<Rightarrow> cpuid_hw \<Rightarrow> feature \<Rightarrow> bool" where
  "has_feature arch hw f =
     (case f of
        F_SSE \<Rightarrow> has_sse arch hw | F_SSE2 \<Rightarrow> has_sse2 arch hw
      | F_SSE42 \<Rightarrow> has_sse42 arch hw | F_AES_NI \<Rightarrow> has_aes_ni arch hw
      | F_AVX1 \<Rightarrow> has_avx1 arch hw | F_FMA3 \<Rightarrow> has_fma3 arch hw
      | F_XOP \<Rightarrow> has_xop arch hw | F_AVX2 \<Rightarrow> has_avx2 arch hw)"

definition preference :: "feature list" where
  "preference = [F_AVX2, F_AVX1, F_FMA3, F_XOP, F_SSE42, F_SSE2, F_SSE]"

fun feature_label :: "feature \<Rightarrow> string" where
  "feature_label F_AVX2 = ''AVX2''"
| "feature_label F_AVX1 = ''AVX1''"
| "feature_label F_FMA3 = ''FMA3''"
| "feature_label F_XOP = ''XOP''"
| "feature_label F_SSE42 = ''SSE42''"
| "feature_label F_SSE2 = ''SSE2''"
| "feature_label F_SSE = ''SSE''"
| "feature_label F_AES_NI = ''AES''"

text \<open>AVX2 is only chosen together with AVX1 (the design's precedence rule).\<close>

definition selectable :: "cpuid_hw \<Rightarrow> feature \<Rightarrow> bool" where
  "selectable hw f = (if f = F_AVX2 then supports hw F_AVX1 \<and> supports hw F_AVX2 else supports hw f)"

definition best_feature_spec :: "cpuid_hw \<Rightarrow> feature option" where
  "best_feature_spec hw = find (selectable hw) preference"

definition label_of :: "feature option \<Rightarrow> string" where
  "label_of fo = (case fo of None \<Rightarrow> '''' | Some f \<Rightarrow> feature_label f)"

subsection \<open>Each check is its row of the table\<close>

lemma flag_tests [flag_simps]:
  "(x AND SSE_Flag \<noteq> 0) \<longleftrightarrow> bit x 25"
  "(x AND SSE2_Flag \<noteq> 0) \<longleftrightarrow> bit x 26"
  "(x AND SSE42_Flag \<noteq> 0) \<longleftrightarrow> bit x 20"
  "(x AND AES_Flag \<noteq> 0) \<longleftrightarrow> bit x 25"
  "(x AND XOP_Flag \<noteq> 0) \<longleftrightarrow> bit x 11"
  "(x AND AVX2_Flag \<noteq> 0) \<longleftrightarrow> bit x 5"
  by (simp_all only: flag_defs and_push_bit_one_nonzero)

lemma bit_AVX1_mask_iff [flag_simps]: "bit AVX1_mask n \<longleftrightarrow> n = 28 \<or> n = 26 \<or> n = 27"
  by (simp only: AVX1_mask_def AVX1_Flag_def XSAVE_Flag_def OSXSAVE_Flag_def bit_or_iff
      bit_push_bit_one_iff) simp

lemma bit_FMA3_mask_iff [flag_simps]: "bit FMA3_mask n \<longleftrightarrow> n = 12 \<or> n = 28 \<or> n = 26 \<or> n = 27"
  by (simp only: FMA3_mask_def FMA3_Flag_def bit_or_iff bit_AVX1_mask_iff bit_push_bit_one_iff) simp

lemma has_avx1_X86:
  "has_avx1 X86 hw \<longleftrightarrow>
     (let c = hw PROCESSOR_INFO 0 ECX_Reg in bit c 28 \<and> bit c 26 \<and> bit c 27)"
  by (auto simp: has_avx1_def and_mask_eq_iff bit_AVX1_mask_iff Let_def)

lemma has_fma3_X86:
  "has_fma3 X86 hw \<longleftrightarrow>
     (let c = hw PROCESSOR_INFO 0 ECX_Reg in bit c 12 \<and> bit c 28 \<and> bit c 26 \<and> bit c 27)"
  by (auto simp: has_fma3_def and_mask_eq_iff bit_FMA3_mask_iff Let_def)

lemmas single_flag_checks =
  has_sse2_def has_aes_ni_def has_avx2_def has_xop_def has_sse42_def has_sse_def

lemma has_feature_X86_supports: "has_feature X86 hw f = supports hw f"
  by (cases f)
     (simp_all add: has_feature_def supports_def single_flag_checks has_avx1_X86 has_fma3_X86
        flag_tests cpuid_leaf_defs Let_def)

lemma has_feature_ARM: "\<not> has_feature ARM hw f"
  by (cases f) (simp_all add: has_feature_def single_flag_checks has_avx1_def has_fma3_def)

lemma has_feature_unfold:
  "has_sse arch hw = has_feature arch hw F_SSE"
  "has_sse2 arch hw = has_feature arch hw F_SSE2"
  "has_sse42 arch hw = has_feature arch hw F_SSE42"
  "has_aes_ni arch hw = has_feature arch hw F_AES_NI"
  "has_avx1 arch hw = has_feature arch hw F_AVX1"
  "has_fma3 arch hw = has_feature arch hw F_FMA3"
  "has_xop arch hw = has_feature arch hw F_XOP"
  "has_avx2 arch hw = has_feature arch hw F_AVX2"
  by (simp_all add: has_feature_def)

lemma supports_FMA3_AVX1: "supports hw F_FMA3 \<Longrightarrow> supports hw F_AVX1"
  by (simp add: supports_def)

lemma cpu_bestfeature_X86_checks:
  "cpu_bestfeature X86 hw =
     (if supports hw F_AVX1 \<and> supports hw F_AVX2 then ''AVX2''
      else if supports hw F_AVX1 then ''AVX1''
      else if supports hw F_FMA3 then ''FMA3''
      else if supports hw F_XOP then ''XOP''
      else if supports hw F_SSE42 then ''SSE42''
      else if supports hw F_SSE2 then ''SSE2''
      else if supports hw F_SSE then ''SSE''
      else '''')"
  by (simp add: cpu_bestfeature_def has_feature_unfold has_feature_X86_supports)

subsection \<open>Properties of the detector\<close>

text \<open>
  C1. \<^verbatim>\<open>cpu_bestfeature\<close> on x86 implements the design's policy: it writes the label of
  the first capability of the preference order AVX2, AVX1, FMA3, XOP, SSE4.2, SSE2, SSE whose
  table bits are all set (AVX2 together with AVX1), and the empty string when there is none.
\<close>

theorem cpu_bestfeature_refines: "cpu_bestfeature X86 hw = label_of (best_feature_spec hw)"
  by (simp add: cpu_bestfeature_X86_checks best_feature_spec_def preference_def selectable_def
      label_of_def)

text \<open>
  C2. Every capability check is exactly its row of the design table: on x86 it holds iff all
  the listed bits of the listed register of the listed leaf are set; on ARM it is false.
\<close>

theorem has_feature_table: "has_feature arch hw f \<longleftrightarrow> arch = X86 \<and> supports hw f"
  by (cases arch) (simp_all add: has_feature_X86_supports has_feature_ARM)

text \<open>
  \<^verbatim>\<open>has_avx1\<close> holds iff bits 28, 26 and 27 of ECX of leaf 1 are all set: clearing any
  one of the three makes it false.
\<close>

lemma has_avx1_iff_bits:
  "has_avx1 arch hw \<longleftrightarrow>
     arch = X86 \<and> bit (hw 1 0 ECX_Reg) 28 \<and> bit (hw 1 0 ECX_Reg) 26 \<and> bit (hw 1 0 ECX_Reg) 27"
  by (cases arch) (simp_all add: has_feature_unfold has_feature_X86_supports has_feature_ARM
      supports_def)

text \<open>C3. The FMA3 mask contains the AVX1 mask: every processor with FMA3 has AVX1.\<close>

theorem has_fma3_imp_avx1: "has_avx1 arch hw" if "has_fma3 arch hw"
proof (cases arch)
  case X86
  with that show ?thesis
    by (metis has_feature_unfold(5,6) has_feature_X86_supports supports_FMA3_AVX1)
next
  case ARM
  with that show ?thesis by (simp add: has_fma3_def)
qed

theorem has_fma3_imp_avx1_witness:
  "has_fma3 X86 (\<lambda>leaf sub r. if leaf = 1 \<and> r = ECX_Reg then 0x1C001000 else 0) \<and>
   has_avx1 X86 (\<lambda>leaf sub r. if leaf = 1 \<and> r = ECX_Reg then 0x1C001000 else 0)"
proof -
  have "has_fma3 X86 (\<lambda>leaf sub r. if leaf = 1 \<and> r = ECX_Reg then 0x1C001000 else 0)"
    by (simp add: has_fma3_def flag_defs cpuid_leaf_defs)
  with has_fma3_imp_avx1 show ?thesis by blast
qed

text \<open>
  C4. Because of C3, the FMA3 branch of \<^verbatim>\<open>cpu_bestfeature\<close> is dead: the label
  ''FMA3'' is never written, on any processor and any build.
\<close>

theorem cpu_bestfeature_never_FMA3: "cpu_bestfeature arch hw \<noteq> ''FMA3''"
proof (cases arch)
  case X86
  then show ?thesis by (auto simp: cpu_bestfeature_X86_checks supports_def)
next
  case ARM
  then show ?thesis by (simp add: cpu_bestfeature_def)
qed

text \<open>
  C5. Precedence: when the AVX1 mask and the AVX2 bit are both set, the label is AVX2 whatever
  the FMA3, XOP and SSE bits are.
\<close>

theorem cpu_bestfeature_AVX2_first:
  "has_avx1 X86 hw \<Longrightarrow> has_avx2 X86 hw \<Longrightarrow> cpu_bestfeature X86 hw = ''AVX2''"
  by (simp add: cpu_bestfeature_def)

theorem cpu_bestfeature_AVX2_first_witness:
  "has_avx1 X86 (\<lambda>leaf sub r. if leaf = 1 \<and> r = ECX_Reg then 0x1C001800
                              else if leaf = 7 \<and> r = EBX_Reg then 0x20 else 0) \<and>
   has_avx2 X86 (\<lambda>leaf sub r. if leaf = 1 \<and> r = ECX_Reg then 0x1C001800
                              else if leaf = 7 \<and> r = EBX_Reg then 0x20 else 0) \<and>
   cpu_bestfeature X86 (\<lambda>leaf sub r. if leaf = 1 \<and> r = ECX_Reg then 0x1C001800
                              else if leaf = 7 \<and> r = EBX_Reg then 0x20 else 0) = ''AVX2''"
proof -
  let ?hw = "\<lambda>leaf sub r. if leaf = (1::u32) \<and> r = ECX_Reg then 0x1C001800
                         else if leaf = 7 \<and> r = EBX_Reg then (0x20::u32) else 0"
  have a1: "has_avx1 X86 ?hw" by (simp add: has_avx1_def flag_defs cpuid_leaf_defs)
  have a2: "has_avx2 X86 ?hw" by (simp add: has_avx2_def flag_defs cpuid_leaf_defs)
  from a1 a2 cpu_bestfeature_AVX2_first [OF a1 a2] show ?thesis by blast
qed

text \<open>
  No capability is reported in two ways: on x86, a processor whose every leaf answers
  zero gets no check and the empty label; an ARM build gets no check either, and the fixed
  platform label ''ARM''.  A caller cannot tell a minimal x86 processor from an x86
  processor whose query was not answered, only from an ARM build.
\<close>

lemma no_capability_labels:
  "(\<forall>f. \<not> has_feature X86 (\<lambda>_ _. zero_quad) f) \<and> cpu_bestfeature X86 (\<lambda>_ _. zero_quad) = '''' \<and>
   (\<forall>f. \<not> has_feature ARM hw f) \<and> cpu_bestfeature ARM hw = ''ARM''"
proof -
  have "\<not> supports (\<lambda>_ _. zero_quad) f" for f
    by (cases f) (simp_all add: supports_def)
  then have "(\<forall>f. \<not> has_feature X86 (\<lambda>_ _. zero_quad) f) \<and> cpu_bestfeature X86 (\<lambda>_ _. zero_quad) = []"
    by (simp add: has_feature_X86_supports cpu_bestfeature_X86_checks)
  moreover have "(\<forall>f. \<not> has_feature ARM hw f) \<and> cpu_bestfeature ARM hw = ''ARM''"
    by (simp add: has_feature_ARM cpu_bestfeature_def)
  ultimately show ?thesis by simp
qed

lemma cpu_bestfeature_length: "length (cpu_bestfeature arch hw) \<le> 5"
  by (simp add: cpu_bestfeature_def Let_def split: arch.split)

text \<open>
  C6. Writing the label: \<^verbatim>\<open>cpu_bestfeature\<close> writes the label and a NUL at the start
  of \<open>outbuf\<close> whatever \<open>maxsz\<close> says; it stays inside the buffer exactly when the buffer
  is longer than the label, and the label has at most 5 characters, so 6 bytes always
  suffice while a smaller buffer can be overrun even when \<open>maxsz\<close> is its true size.
\<close>

theorem cpu_bestfeature_write_bounds:
  "cpu_bestfeature_write arch hw outbuf maxsz =
     (if length (cpu_bestfeature arch hw) < length outbuf
      then Inr (bytes_of (cpu_bestfeature arch hw) @ 0 # drop (Suc (length (cpu_bestfeature arch hw))) outbuf)
      else Inl Out_Of_Bounds) \<and>
   length (cpu_bestfeature arch hw) \<le> 5"
  by (cases outbuf)
     (auto simp: cpu_bestfeature_write_def sprintf_buf_eq cpu_bestfeature_length bytes_of_def Let_def)

end
