(* ===== verification/Highest.thy ===== *)
theory Highest
  imports Cpuid
begin

text \<open>
  \<^verbatim>\<open>cpuid_get_highest_function_number\<close> and \<^verbatim>\<open>cpuid_get_highest_function\<close>
  (\<^verbatim>\<open>src/sysinfos.c\<close> lines 364--391): leaf 0 is read into \<open>uint32_t cpu_info[4]\<close> and
  its EAX, the highest standard leaf, is mapped to a microarchitecture name; any other value
  is printed as \<open>"undef %x"\<close>.  The model returns the string that \<open>strcpy\<close> or
  \<open>sprintf\<close> writes into \<open>s\<close> (without its NUL).  The lemmas give the exact label
  of every value, the length of the longest label (the buffer the caller needs) and that the
  printed value can be read back.
\<close>

definition cpuid_get_highest_function_number :: "arch \<Rightarrow> cpuid_hw \<Rightarrow> u32" where
  "cpuid_get_highest_function_number arch hw =
     (let cpu_info = cpuid arch hw VENDOR_ID zero_quad in cpu_info EAX_Reg)"

definition cpuid_get_highest_function :: "arch \<Rightarrow> cpuid_hw \<Rightarrow> string" where
  "cpuid_get_highest_function arch hw =
     (let fn = cpuid_get_highest_function_number arch hw in
      if fn = 0x16 then ''Skylake''
      else if fn = 0xd then ''IvyBridge''
      else if fn = 0xb then ''Corei7''
      else if fn = 0xa then ''Core2''
      else ''undef '' @ fmt_hex fn)"

text \<open>
  The write into \<open>s\<close>: \<open>strcpy(s, label)\<close> for a known code, \<open>sprintf(s, "undef %x", fn)\<close>
  otherwise; neither takes the size of \<open>s\<close>.
\<close>

definition cpuid_get_highest_function_write :: "arch \<Rightarrow> cpuid_hw \<Rightarrow> byte list \<Rightarrow> byte list result" where
  "cpuid_get_highest_function_write arch hw s = sprintf_buf s (cpuid_get_highest_function arch hw)"

lemma highest_number_X86 [simp]: "cpuid_get_highest_function_number X86 hw = hw 0 0 EAX_Reg"
  by (simp add: cpuid_get_highest_function_number_def VENDOR_ID_def)

lemma highest_number_ARM [simp]: "cpuid_get_highest_function_number ARM hw = 0"
  by (simp add: cpuid_get_highest_function_number_def)

lemma fmt_hex_length: "length (fmt_hex w) \<le> 8"
proof -
  have "unat w < 16 ^ Suc 7"
    using unsigned_less [of w] by simp
  then have "length (fmt_hex_nat (unat w)) \<le> Suc 7"
    by (rule fmt_hex_nat_length)
  then show ?thesis by (simp add: fmt_hex_def)
qed

lemma undef_label_distinct:
  "''undef '' @ cs \<noteq> ''Skylake''" "''undef '' @ cs \<noteq> ''IvyBridge''"
  "''undef '' @ cs \<noteq> ''Corei7''" "''undef '' @ cs \<noteq> ''Core2''"
  by simp_all

subsection \<open>Properties of the label\<close>

text \<open>
  C8. Each of the four era names is written exactly for its code of leaf 0 (0x16, 0xd,
  0xb, 0xa): no other value, in particular no unrecognised one, is given an era name.
\<close>

theorem highest_function_known_codes:
  "(cpuid_get_highest_function arch hw = ''Skylake'' \<longleftrightarrow> cpuid_get_highest_function_number arch hw = 0x16) \<and>
   (cpuid_get_highest_function arch hw = ''IvyBridge'' \<longleftrightarrow> cpuid_get_highest_function_number arch hw = 0xd) \<and>
   (cpuid_get_highest_function arch hw = ''Corei7'' \<longleftrightarrow> cpuid_get_highest_function_number arch hw = 0xb) \<and>
   (cpuid_get_highest_function arch hw = ''Core2'' \<longleftrightarrow> cpuid_get_highest_function_number arch hw = 0xa)"
  by (simp add: cpuid_get_highest_function_def Let_def undef_label_distinct)

text \<open>
  C9. Any other value of leaf 0 is printed as \<open>undef\<close>, a space and the value in
  lower-case hexadecimal without prefix (the design text says \<open>undefined: 0x<value>\<close>).
\<close>

theorem highest_function_undef:
  assumes "hw 0 0 EAX_Reg \<notin> {0x16, 0xd, 0xb, 0xa}"
  shows "cpuid_get_highest_function X86 hw = ''undef '' @ fmt_hex (hw 0 0 EAX_Reg)"
  using assms by (simp add: cpuid_get_highest_function_def)

theorem highest_function_undef_witness:
  "(0x14 :: u32) \<notin> {0x16, 0xd, 0xb, 0xa} \<and>
   cpuid_get_highest_function X86 (\<lambda>leaf sub r. if r = EAX_Reg then 0x14 else 0) = ''undef 14''"
proof -
  have "fmt_hex (0x14 :: u32) = ''14''"
    by (simp add: fmt_hex_def fmt_hex_nat.simps hex_digit_def)
  with highest_function_undef [of "\<lambda>leaf sub r. if r = EAX_Reg then (0x14 :: u32) else 0"]
  show ?thesis by simp
qed

lemma highest_label_length: "length (cpuid_get_highest_function arch hw) \<le> 14"
  using fmt_hex_length [of "cpuid_get_highest_function_number arch hw"]
  by (simp add: cpuid_get_highest_function_def Let_def)

text \<open>
  C10. The label never has more than 14 characters (\<open>"undef "\<close> and at most eight
  hexadecimal digits), so writing it into a buffer of at least 15 bytes always succeeds
  and leaves the label followed by a NUL at the start of the buffer, for every processor.
\<close>

theorem highest_function_length:
  assumes "15 \<le> length s"
  shows "length (cpuid_get_highest_function arch hw) \<le> 14 \<and>
    cpuid_get_highest_function_write arch hw s =
      Inr (bytes_of (cpuid_get_highest_function arch hw) @ 0 #
           drop (Suc (length (cpuid_get_highest_function arch hw))) s)"
  using assms highest_label_length [of arch hw]
  by (simp add: cpuid_get_highest_function_write_def sprintf_buf_eq)

lemma highest_function_length_witness:
  "length (cpuid_get_highest_function ARM (\<lambda>_ _. zero_quad)) \<le> 14 \<and>
   cpuid_get_highest_function_write ARM (\<lambda>_ _. zero_quad) (replicate 15 0) =
     Inr (bytes_of ''undef 0'' @ 0 # replicate 7 0)"
  using highest_function_length [of "replicate 15 0" ARM "\<lambda>_ _. zero_quad"]
  by (simp add: cpuid_get_highest_function_def fmt_hex_def fmt_hex_nat.simps hex_digit_def)

end
