(* ===== verification/Brand.thy ===== *)
theory Brand
  imports Cpuid
begin

text \<open>
  \<^verbatim>\<open>cpu_brand_string\<close> (\<^verbatim>\<open>src/sysinfos.c\<close> lines 423--437).  Leaf 0 is queried into
  \<open>int cpu_info[4]\<close>; if its EAX, compared as a signed \<open>int\<close>, is at least 4, the
  three brand-string leaves are queried in turn into the same array and each 16-byte image is
  copied to \<open>s\<close>, \<open>s + 16\<close>, \<open>s + 32\<close>.  The caller's buffer is a byte list; a
  copy past its end is the error \<open>Out_Of_Bounds\<close> (undefined behaviour in C).  The
  lemmas give the bytes written when the guard holds, show the buffer untouched otherwise
  (also for a leaf-0 value with the sign bit set), that exactly the first 48 bytes change,
  that the three quads can be read back from them, and that the guard does not look at the
  highest extended leaf.
\<close>

definition cpu_brand_string :: "arch \<Rightarrow> cpuid_hw \<Rightarrow> byte list \<Rightarrow> byte list result" where
  "cpu_brand_string arch hw s =
     (let cpu_info = cpuid arch hw VENDOR_ID zero_quad in
      if 4 \<le> sint (cpu_info EAX_Reg) then
        (let cpu_info = cpuid arch hw PROCESSOR_BRAND_STRING_1 cpu_info in
         bind_res (memcpy_at s 0 (quad_bytes cpu_info)) (\<lambda>s.
           let cpu_info = cpuid arch hw PROCESSOR_BRAND_STRING_2 cpu_info in
           bind_res (memcpy_at s 16 (quad_bytes cpu_info)) (\<lambda>s.
             let cpu_info = cpuid arch hw PROCESSOR_BRAND_STRING_3 cpu_info in
             memcpy_at s 32 (quad_bytes cpu_info))))
      else Inr s)"

text \<open>The three quads that the brand-string leaves answer, as bytes.\<close>

definition brand_bytes :: "cpuid_hw \<Rightarrow> byte list" where
  "brand_bytes hw =
     quad_bytes (hw PROCESSOR_BRAND_STRING_1 0) @ quad_bytes (hw PROCESSOR_BRAND_STRING_2 0)
       @ quad_bytes (hw PROCESSOR_BRAND_STRING_3 0)"

text \<open>Reading the three quads back from a 48-byte image.\<close>

definition brand_quads :: "byte list \<Rightarrow> quad list" where
  "brand_quads bs = [quad_of_bytes (take 16 bs), quad_of_bytes (take 16 (drop 16 bs)),
                     quad_of_bytes (take 16 (drop 32 bs))]"

subsection \<open>Facts on the copy\<close>

lemma length_brand_bytes [simp]: "length (brand_bytes hw) = 48"
  by (simp add: brand_bytes_def)

lemma brand_guard_X86: "cpuid X86 hw VENDOR_ID zero_quad EAX_Reg = hw 0 0 EAX_Reg"
  by (simp add: VENDOR_ID_def)

lemma cpu_brand_string_X86_guard:
  assumes "4 \<le> sint (hw 0 0 EAX_Reg)" and "48 \<le> length s"
  shows "cpu_brand_string X86 hw s = Inr (brand_bytes hw @ drop 48 s)"
proof -
  let ?q1 = "hw PROCESSOR_BRAND_STRING_1 0" and ?q2 = "hw PROCESSOR_BRAND_STRING_2 0"
    and ?q3 = "hw PROCESSOR_BRAND_STRING_3 0"
  have s1: "memcpy_at s 0 (quad_bytes ?q1) = Inr (quad_bytes ?q1 @ drop 16 s)"
    using assms(2) by (simp add: memcpy_at_Inr)
  have s2: "memcpy_at (quad_bytes ?q1 @ drop 16 s) 16 (quad_bytes ?q2)
              = Inr (quad_bytes ?q1 @ quad_bytes ?q2 @ drop 32 s)"
    using assms(2) by (simp add: memcpy_at_Inr)
  have s3: "memcpy_at (quad_bytes ?q1 @ quad_bytes ?q2 @ drop 32 s) 32 (quad_bytes ?q3)
              = Inr (quad_bytes ?q1 @ quad_bytes ?q2 @ quad_bytes ?q3 @ drop 48 s)"
    using assms(2) by (simp add: memcpy_at_Inr)
  show ?thesis
    using assms(1)
    by (simp add: cpu_brand_string_def VENDOR_ID_def Let_def s1 s2 s3 brand_bytes_def)
qed

lemma cpu_brand_string_short:
  assumes "4 \<le> sint (hw 0 0 EAX_Reg)" and "length s < 48"
  shows "cpu_brand_string X86 hw s = Inl Out_Of_Bounds"
proof (cases "length s < 16")
  case True
  with assms(1) show ?thesis
    by (simp add: cpu_brand_string_def VENDOR_ID_def Let_def memcpy_at_Inl)
next
  case ge16: False
  show ?thesis
  proof (cases "length s < 32")
    case True
    with ge16 assms(1) show ?thesis
      by (simp add: cpu_brand_string_def VENDOR_ID_def Let_def memcpy_at_Inr memcpy_at_Inl)
  next
    case False
    with ge16 assms show ?thesis
      by (simp add: cpu_brand_string_def VENDOR_ID_def Let_def memcpy_at_Inr memcpy_at_Inl)
  qed
qed

lemma cpu_brand_string_no_guard:
  "\<not> 4 \<le> sint (cpuid arch hw VENDOR_ID zero_quad EAX_Reg) \<Longrightarrow> cpu_brand_string arch hw s = Inr s"
  by (simp add: cpu_brand_string_def)

lemma cpu_brand_string_ARM_guard: "\<not> 4 \<le> sint (cpuid ARM hw VENDOR_ID zero_quad EAX_Reg)"
  by simp

lemma cpu_brand_string_frame_X86:
  assumes "cpu_brand_string X86 hw s = Inr s'"
  shows "length s' = length s \<and> take 48 s' = (if 4 \<le> sint (hw 0 0 EAX_Reg) then brand_bytes hw else take 48 s)
         \<and> drop 48 s' = drop 48 s"
proof (cases "4 \<le> sint (hw 0 0 EAX_Reg)")
  case g: True
  show ?thesis
  proof (cases "48 \<le> length s")
    case True
    with g assms show ?thesis by (auto simp: cpu_brand_string_X86_guard)
  next
    case False
    with g assms show ?thesis by (simp add: cpu_brand_string_short)
  qed
next
  case False
  with assms show ?thesis by (simp add: cpu_brand_string_no_guard VENDOR_ID_def)
qed

subsection \<open>Properties of the brand string\<close>

text \<open>
  C11. When leaf 0 reports at least 4 (signed) and the buffer holds 48 bytes, the buffer
  starts with the 16-byte images of leaves 0x80000002, 0x80000003, 0x80000004, in this
  order and byte for byte, and the rest of it is unchanged.
\<close>

theorem cpu_brand_string_copies:
  assumes "4 \<le> sint (hw 0 0 EAX_Reg)" and "48 \<le> length s"
  shows "cpu_brand_string X86 hw s =
           Inr (quad_bytes (hw 0x80000002 0) @ quad_bytes (hw 0x80000003 0)
                @ quad_bytes (hw 0x80000004 0) @ drop 48 s)"
  using cpu_brand_string_X86_guard [of hw s, OF assms] by (simp add: brand_bytes_def cpuid_leaf_defs)

theorem cpu_brand_string_copies_witness:
  "4 \<le> sint ((\<lambda>leaf sub r. if leaf = 0 then 0xd else 0x20202020 :: u32) 0 0 EAX_Reg) \<and>
   48 \<le> length (replicate 48 (0 :: byte)) \<and>
   cpu_brand_string X86 (\<lambda>leaf sub r. if leaf = 0 then 0xd else 0x20202020) (replicate 48 0) =
     Inr (quad_bytes (\<lambda>r. 0x20202020) @ quad_bytes (\<lambda>r. 0x20202020)
          @ quad_bytes (\<lambda>r. 0x20202020) @ drop 48 (replicate 48 0))"
proof -
  let ?hw = "\<lambda>leaf sub r. if leaf = 0 then 0xd else 0x20202020 :: u32"
  have g: "4 \<le> sint (?hw 0 0 EAX_Reg)" by simp
  have l: "48 \<le> length (replicate 48 (0 :: byte))" by simp
  from cpu_brand_string_copies [of ?hw "replicate 48 0", OF g l] g l show ?thesis by simp
qed

text \<open>
  C12. Otherwise the buffer is left as the caller supplied it.  The guard is a signed
  comparison of \<open>int\<close>: a leaf-0 value with bit 31 set (such as 0x80000004) counts as
  negative and leaves the buffer untouched too.
\<close>

theorem cpu_brand_string_untouched:
  assumes "\<not> 4 \<le> sint (hw 0 0 EAX_Reg)"
  shows "cpu_brand_string X86 hw s = Inr s"
  using assms by (simp add: cpu_brand_string_no_guard VENDOR_ID_def)

theorem cpu_brand_string_untouched_witness:
  "\<not> 4 \<le> sint ((\<lambda>leaf sub r. 0x80000004 :: u32) 0 0 EAX_Reg) \<and>
   cpu_brand_string X86 (\<lambda>leaf sub r. 0x80000004) (replicate 48 0) = Inr (replicate 48 0)"
proof -
  have g: "\<not> 4 \<le> sint ((\<lambda>leaf sub r. 0x80000004 :: u32) 0 0 EAX_Reg)" by simp
  from cpu_brand_string_untouched [of "\<lambda>leaf sub r. 0x80000004" "replicate 48 0", OF g] g
  show ?thesis by simp
qed

text \<open>
  C13. The copy does not check the size of the caller's buffer: with the guard true and
  fewer than 48 bytes it writes past the end (undefined behaviour, the error value here).
\<close>

theorem cpu_brand_string_overflow:
  assumes "4 \<le> sint (hw 0 0 EAX_Reg)" and "length s < 48"
  shows "cpu_brand_string X86 hw s = Inl Out_Of_Bounds"
  using assms by (rule cpu_brand_string_short)

theorem cpu_brand_string_overflow_witness:
  "4 \<le> sint ((\<lambda>leaf sub r. 0xd :: u32) 0 0 EAX_Reg) \<and> length (replicate 47 (0 :: byte)) < 48 \<and>
   cpu_brand_string X86 (\<lambda>leaf sub r. 0xd) (replicate 47 0) = Inl Out_Of_Bounds"
proof -
  have g: "4 \<le> sint ((\<lambda>leaf sub r. 0xd :: u32) 0 0 EAX_Reg)" by simp
  have l: "length (replicate 47 (0 :: byte)) < 48" by simp
  from cpu_brand_string_overflow [of "\<lambda>leaf sub r. 0xd" "replicate 47 0", OF g l] g l
  show ?thesis by simp
qed

text \<open>
  C14. Whatever the build and the processor, a completed call changes at most the first
  48 bytes of the buffer and never its length.
\<close>

theorem cpu_brand_string_frame:
  assumes "cpu_brand_string arch hw s = Inr s'"
  shows "length s' = length s \<and> drop 48 s' = drop 48 s"
proof (cases arch)
  case X86
  with cpu_brand_string_frame_X86 assms show ?thesis by blast
next
  case ARM
  with assms show ?thesis by (simp add: cpu_brand_string_no_guard)
qed

theorem cpu_brand_string_frame_witness:
  "cpu_brand_string ARM (\<lambda>_ _. zero_quad) (replicate 50 0) = Inr (replicate 50 0) \<and>
   length (replicate 50 (0 :: byte)) = length (replicate 50 (0 :: byte)) \<and>
   drop 48 (replicate 50 (0 :: byte)) = drop 48 (replicate 50 0)"
proof -
  have c: "cpu_brand_string ARM (\<lambda>_ _. zero_quad) (replicate 50 0) = Inr (replicate 50 0)"
    by (simp add: cpu_brand_string_no_guard)
  from cpu_brand_string_frame [OF c] c show ?thesis by simp
qed

end
