(* ===== verification/Host.thy ===== *)
theory Host
  imports CLib
begin

text \<open>
  The part of the process and operating system that the readers of \<^verbatim>\<open>src/sysinfos.c\<close>
  use: the file system (a path names a text file or nothing), the environment variables, and
  the number of open \<open>FILE\<close> streams, and the number of live blocks of the C heap.
  \<open>fopen\<close> of an existing file opens a stream and returns its contents; \<open>fclose\<close>
  closes one.  A reader that does not close what it opened leaves \<open>open_fds\<close> higher
  than it found it; one that does not \<open>free\<close> what was allocated for it leaves
  \<open>heap_blocks\<close> higher.  These are C library and OS services, not
  code of the repository; they are modelled from their documented behaviour.
\<close>

text \<open>The build target of the readers: \<^verbatim>\<open>#ifdef WIN32\<close> or the Linux branch.\<close>

datatype platform = WIN32 | Linux

record host =
  files :: "string \<rightharpoonup> string"
  env :: "string \<rightharpoonup> string"
  open_fds :: nat
  heap_blocks :: nat

definition fopen :: "host \<Rightarrow> string \<Rightarrow> string option \<times> host" where
  "fopen h path =
     (case files h path of
        None \<Rightarrow> (None, h)
      | Some c \<Rightarrow> (Some c, h\<lparr>open_fds := Suc (open_fds h)\<rparr>))"

definition fclose :: "host \<Rightarrow> host" where
  "fclose h = h\<lparr>open_fds := open_fds h - 1\<rparr>"

definition getenv :: "host \<Rightarrow> string \<Rightarrow> string option" where
  "getenv h name = env h name"

subsection \<open>The heap and the line buffer of getdelim\<close>

text \<open>
  \<open>char *buf\<close> and \<open>size_t size\<close>, the two variables \<open>getdelim(&buf, &size, ...)\<close>
  updates: \<open>buf_block\<close> is \<open>None\<close> for NULL and \<open>Some n\<close> for a heap block of \<open>n\<close>
  bytes.  Only the allocation matters to the readers, not the bytes kept in the block.
\<close>

record line_buf =
  buf_block :: "nat option"
  buf_size :: nat

text \<open>
  \<open>free(p)\<close>: releases the block \<open>p\<close> points to; \<open>free(NULL)\<close> does nothing.
\<close>

definition c_free :: "nat option \<Rightarrow> host \<Rightarrow> host" where
  "c_free p h = (case p of None \<Rightarrow> h | Some _ \<Rightarrow> h\<lparr>heap_blocks := heap_blocks h - 1\<rparr>)"

text \<open>
  The buffer handling of the GNU C library's \<open>getdelim\<close> (the Linux build's C library):
  when \<open>*lineptr\<close> is NULL or \<open>*n\<close> is 0 it first \<open>malloc\<close>s 120 bytes, also when the
  stream is at its end; when the bytes read (the piece and its delimiter, \<open>pos' - pos\<close>)
  and a NUL need more than \<open>*n\<close> bytes it \<open>realloc\<close>s to the larger of that need and
  \<open>2 * *n\<close>.  Allocation failure is not modelled.  The data returned is
  \<open>getdelim_nul\<close>'s.
\<close>

definition getdelim_alloc :: "line_buf \<Rightarrow> host \<Rightarrow> line_buf \<times> host" where
  "getdelim_alloc lb h =
     (if buf_block lb = None \<or> buf_size lb = 0
      then (\<lparr>buf_block = Some 120, buf_size = 120\<rparr>, h\<lparr>heap_blocks := Suc (heap_blocks h)\<rparr>)
      else (lb, h))"

definition getdelim_grow :: "nat \<Rightarrow> line_buf \<Rightarrow> line_buf" where
  "getdelim_grow needed lb =
     (if buf_size lb < needed
      then (let n = max needed (2 * buf_size lb) in \<lparr>buf_block = Some n, buf_size = n\<rparr>)
      else lb)"

definition getdelim :: "string \<Rightarrow> nat \<Rightarrow> line_buf \<Rightarrow> host \<Rightarrow> (string \<times> nat) option \<times> line_buf \<times> host" where
  "getdelim content pos lb h =
     (case getdelim_alloc lb h of
        (lb, h) \<Rightarrow>
          (case getdelim_nul content pos of
             None \<Rightarrow> (None, lb, h)
           | Some (piece, pos') \<Rightarrow> (Some (piece, pos'), getdelim_grow (pos' - pos + 1) lb, h)))"

text \<open>The buffer is usable (\<open>getdelim\<close> does not allocate again) once it is non-NULL with a non-zero size.\<close>

definition buf_ready :: "line_buf \<Rightarrow> bool" where
  "buf_ready lb \<longleftrightarrow> buf_block lb \<noteq> None \<and> buf_size lb \<noteq> 0"

definition getdelim_heap :: "line_buf \<Rightarrow> host \<Rightarrow> host" where
  "getdelim_heap lb h = (if buf_ready lb then h else h\<lparr>heap_blocks := Suc (heap_blocks h)\<rparr>)"

lemma fopen_None [simp]: "files h path = None \<Longrightarrow> fopen h path = (None, h)"
  by (simp add: fopen_def)

lemma fopen_Some [simp]:
  "files h path = Some c \<Longrightarrow> fopen h path = (Some c, h\<lparr>open_fds := Suc (open_fds h)\<rparr>)"
  by (simp add: fopen_def)

lemma fopen_files [simp]: "files (snd (fopen h path)) = files h"
  by (simp add: fopen_def split: option.splits)

lemma fclose_fopen_fds: "files h path = Some c \<Longrightarrow> open_fds (fclose (snd (fopen h path))) = open_fds h"
  by (simp add: fclose_def)

lemma getdelim_alloc_ready:
  "getdelim_alloc lb h = (lb', h') \<Longrightarrow> buf_ready lb' \<and> h' = getdelim_heap lb h"
  by (auto simp: getdelim_alloc_def getdelim_heap_def buf_ready_def split: if_splits)

lemma getdelim_grow_ready: "buf_ready lb \<Longrightarrow> buf_ready (getdelim_grow needed lb) \<and> needed \<le> buf_size (getdelim_grow needed lb)"
  by (auto simp: getdelim_grow_def buf_ready_def Let_def)

text \<open>
  One call: the data is \<open>getdelim_nul\<close>'s, the buffer is afterwards usable and holds what
  was read and a NUL, and the heap gains a block exactly when the buffer was not usable.
\<close>

lemma getdelim_eq:
  assumes "getdelim content pos lb h = (r, lb', h')"
  shows "getdelim_nul content pos = r \<and> buf_ready lb' \<and> h' = getdelim_heap lb h \<and>
         (\<forall>piece pos'. r = Some (piece, pos') \<longrightarrow> pos' - pos < buf_size lb')"
proof -
  obtain lb1 h1 where a: "getdelim_alloc lb h = (lb1, h1)" by (cases "getdelim_alloc lb h")
  from getdelim_alloc_ready [OF a] have r1: "buf_ready lb1" and h1: "h1 = getdelim_heap lb h" by auto
  show ?thesis
  proof (cases "getdelim_nul content pos")
    case None
    with assms a r1 h1 show ?thesis by (simp add: getdelim_def)
  next
    case (Some a')
    then obtain piece pos' where g: "getdelim_nul content pos = Some (piece, pos')" by (cases a') auto
    from getdelim_grow_ready [OF r1, of "pos' - pos + 1"] assms a g h1 show ?thesis
      by (auto simp: getdelim_def)
  qed
qed

lemma getdelim_heap_ready [simp]: "buf_ready lb \<Longrightarrow> getdelim_heap lb h = h"
  by (simp add: getdelim_heap_def)

lemma getdelim_heap_fields [simp]:
  "files (getdelim_heap lb h) = files h" "env (getdelim_heap lb h) = env h"
  "open_fds (getdelim_heap lb h) = open_fds h"
  by (simp_all add: getdelim_heap_def)

lemma c_free_getdelim_heap [simp]:
  "buf_ready lb' \<Longrightarrow> c_free (buf_block lb') (getdelim_heap \<lparr>buf_block = None, buf_size = 0\<rparr> h) = h"
  by (auto simp: c_free_def getdelim_heap_def buf_ready_def)

end
