(* ===== verification/CpuName.thy ===== *)
theory CpuName
  imports Cpuid Host
begin

text \<open>
  \<^verbatim>\<open>cpu_getname\<close> (\<^verbatim>\<open>src/sysinfos.c\<close> lines 134--180).  The result is the contents of
  \<open>outbuf\<close> (\<open>maxsz\<close> bytes, zeroed first by \<open>memset\<close>).

  On WIN32 the highest extended leaf \<open>ext\<close> is read; when it is at least 0x80000004
  (an unsigned comparison: the constant is an \<open>unsigned int\<close>) the loop copies leaves
  0x80000002 .. 0x80000000 + (\<open>ext\<close> & 0xF) into \<open>char brand[0xC0]\<close>, 16 bytes each,
  and \<open>brand\<close> is printed with \<open>%s\<close>; otherwise the environment variable
  \<open>PROCESSOR_IDENTIFIER\<close> is printed (a missing variable is a NULL \<open>%s\<close> argument).

  On Linux \<^verbatim>\<open>/proc/cpuinfo\<close> is read piece by piece with \<open>getdelim\<close>; the first
  piece containing \<open>"model name\t"\<close> and then \<open>":"\<close> gives the text two characters
  after the colon up to the end of the line.  The stream is closed before returning.
\<close>

subsection \<open>WIN32\<close>

function brand_loop :: "arch \<Rightarrow> cpuid_hw \<Rightarrow> nat \<Rightarrow> nat \<Rightarrow> quad \<Rightarrow> byte list \<Rightarrow> byte list result" where
  "brand_loop arch hw i hi output brand =
     (if i \<le> hi then
        (let output = cpuid arch hw (0x80000000 + of_nat i) output in
         bind_res (memcpy_at brand ((i - 2) * 16) (quad_bytes output))
           (\<lambda>brand. brand_loop arch hw (Suc i) hi output brand))
      else Inr brand)"
  by pat_completeness auto
termination
  by (relation "measure (\<lambda>(arch, hw, i, hi, output, brand). Suc hi - i)") auto

declare brand_loop.simps [simp del]

definition cpu_getname_win32 :: "arch \<Rightarrow> cpuid_hw \<Rightarrow> host \<Rightarrow> nat \<Rightarrow> byte list result" where
  "cpu_getname_win32 arch hw h maxsz =
     (let outbuf = replicate maxsz 0;
          brand = replicate 0xC0 0;
          output = cpuid arch hw 0x80000000 zero_quad;
          ext = output EAX_Reg
      in if 0x80000004 \<le> ext then
           bind_res (brand_loop arch hw 2 (unat (ext AND 0xF)) output brand) (\<lambda>brand.
             bind_res (cstr brand) (\<lambda>str. Inr (snprintf_str maxsz outbuf str)))
         else
           (case getenv h ''PROCESSOR_IDENTIFIER'' of
              None \<Rightarrow> Inl Null_String
            | Some v \<Rightarrow> Inr (snprintf_str maxsz outbuf (bytes_of v))))"

subsection \<open>Linux\<close>

definition model_name_key :: string where
  "model_name_key = ''model name'' @ [CHR 0x09]"

definition newline :: string where
  "newline = [CHR 0x0A]"

text \<open>
  One iteration of the \<open>getdelim\<close> loop of lines 163--176 on the bytes \<open>buf\<close> that
  \<open>getdelim\<close> stored: \<open>strstr\<close> works on the C string in \<open>buf\<close>; it continues when
  that string has no \<open>"model name\t"\<close> followed by a colon, and otherwise leaves the loop
  (\<open>break\<close>) after printing the rest of the line.  After \<open>p += 2\<close>, \<open>p\<close> may point at
  any byte up to getdelim's terminating NUL at offset \<open>length buf\<close>; further on it is
  outside the buffer.
\<close>

definition model_name_piece :: "string \<Rightarrow> nat \<Rightarrow> byte list \<Rightarrow> (unit, byte list result) loop_step" where
  "model_name_piece buf maxsz outbuf =
     (let s = c_string buf in
      case strstr s model_name_key of
        None \<Rightarrow> Continue ()
      | Some i \<Rightarrow>
          (case strstr (drop i s) '':'' of
             None \<Rightarrow> Continue ()
           | Some j \<Rightarrow>
               (let q = i + j + 2 in
                if length buf < q then Break (Inl Out_Of_Bounds)
                else
                  (let p = drop q s;
                       line = (case strstr p newline of None \<Rightarrow> p | Some e \<Rightarrow> take e p)
                   in Break (Inr (snprintf_str maxsz outbuf (bytes_of line)))))))"

fun scan_model_name :: "string list \<Rightarrow> nat \<Rightarrow> byte list \<Rightarrow> byte list result" where
  "scan_model_name [] maxsz outbuf = Inr outbuf"
| "scan_model_name (buf # bufs) maxsz outbuf =
     (case model_name_piece buf maxsz outbuf of
        Continue _ \<Rightarrow> scan_model_name bufs maxsz outbuf
      | Break r \<Rightarrow> r)"

definition cpu_getname_linux :: "host \<Rightarrow> nat \<Rightarrow> (byte list \<times> host) result" where
  "cpu_getname_linux h maxsz =
     (let outbuf = replicate maxsz 0 in
      case fopen h ''/proc/cpuinfo'' of
        (None, h') \<Rightarrow> Inr (outbuf, h')
      | (Some content, h') \<Rightarrow>
          bind_res (scan_model_name (nul_chunks [] content) maxsz outbuf)
            (\<lambda>out. Inr (out, fclose h')))"

subsection \<open>Both builds\<close>

definition cpu_getname :: "platform \<Rightarrow> arch \<Rightarrow> cpuid_hw \<Rightarrow> host \<Rightarrow> nat \<Rightarrow> (byte list \<times> host) result" where
  "cpu_getname os arch hw h maxsz =
     (case os of
        WIN32 \<Rightarrow> bind_res (cpu_getname_win32 arch hw h maxsz) (\<lambda>out. Inr (out, h))
      | Linux \<Rightarrow> cpu_getname_linux h maxsz)"

subsection \<open>What the WIN32 loop copies\<close>

definition brand_leaves :: "cpuid_hw \<Rightarrow> nat \<Rightarrow> nat \<Rightarrow> byte list" where
  "brand_leaves hw i hi = concat (map (\<lambda>k. quad_bytes (hw (0x80000000 + of_nat k) 0)) [i..<Suc hi])"

definition win32_brand :: "cpuid_hw \<Rightarrow> nat \<Rightarrow> byte list" where
  "win32_brand hw hi =
     (if 2 \<le> hi then brand_leaves hw 2 hi @ replicate (192 - (hi - 1) * 16) 0 else replicate 192 0)"

subsection \<open>Facts on the WIN32 loop\<close>

lemma length_brand_leaves [simp]: "length (brand_leaves hw i hi) = 16 * (Suc hi - i)"
  by (simp add: brand_leaves_def length_concat o_def sum_list_triv Suc_diff_le)

lemma brand_leaves_Cons:
  "i \<le> hi \<Longrightarrow> brand_leaves hw i hi = quad_bytes (hw (0x80000000 + of_nat i) 0) @ brand_leaves hw (Suc i) hi"
proof -
  assume "i \<le> hi"
  then have "[i..<Suc hi] = i # [Suc i..<Suc hi]" by (simp add: upt_conv_Cons)
  then show ?thesis by (simp add: brand_leaves_def)
qed

lemma brand_loop_step:
  "i \<le> hi \<Longrightarrow> brand_loop arch hw i hi output brand =
     bind_res (memcpy_at brand ((i - 2) * 16) (quad_bytes (cpuid arch hw (0x80000000 + of_nat i) output)))
       (\<lambda>b. brand_loop arch hw (Suc i) hi (cpuid arch hw (0x80000000 + of_nat i) output) b)"
  by (simp add: brand_loop.simps [of arch hw i hi] Let_def)

lemma brand_loop_stop: "hi < i \<Longrightarrow> brand_loop arch hw i hi output brand = Inr brand"
  by (simp add: brand_loop.simps [of arch hw i hi])

lemma brand_loop_fills:
  assumes "2 \<le> i" and "i \<le> hi" and "hi \<le> 13" and "length bb = 192"
  shows "brand_loop X86 hw i hi q0 bb =
           Inr (take ((i - 2) * 16) bb @ brand_leaves hw i hi @ drop ((hi - 1) * 16) bb)"
  using assms
proof (induct "Suc hi - i" arbitrary: i q0 bb)
  case 0
  then show ?case by simp
next
  case (Suc d)
  let ?q = "quad_bytes (hw (0x80000000 + of_nat i) 0)"
  let ?b = "take ((i - 2) * 16) bb @ ?q @ drop ((i - 1) * 16) bb"
  have cp: "memcpy_at bb ((i - 2) * 16) ?q = Inr ?b"
    using Suc.prems by (simp add: memcpy_at_Inr algebra_simps)
  show ?case
  proof (cases "i = hi")
    case True
    then have hi: "hi = i" by simp
    show ?thesis
      using Suc.prems cp by (simp add: hi brand_loop_step brand_loop_stop brand_leaves_def)
  next
    case False
    have len: "length ?b = 192" using Suc.prems by (simp add: algebra_simps)
    have IH: "brand_loop X86 hw (Suc i) hi (hw (0x80000000 + of_nat i) 0) ?b =
        Inr (take ((Suc i - 2) * 16) ?b @ brand_leaves hw (Suc i) hi @ drop ((hi - 1) * 16) ?b)"
      using Suc.hyps(1) [of "Suc i"] Suc.hyps(2) Suc.prems False len by simp
    have t: "take ((Suc i - 2) * 16) ?b = take ((i - 2) * 16) bb @ ?q"
      using Suc.prems by (simp add: algebra_simps)
    have d: "drop ((hi - 1) * 16) ?b = drop ((hi - 1) * 16) bb"
      using Suc.prems False by (simp add: algebra_simps)
    have "brand_loop X86 hw i hi q0 bb =
        brand_loop X86 hw (Suc i) hi (hw (0x80000000 + of_nat i) 0) ?b"
      using Suc.prems by (simp add: brand_loop_step cp)
    also have "\<dots> = Inr (take ((i - 2) * 16) bb @ brand_leaves hw i hi @ drop ((hi - 1) * 16) bb)"
      using Suc.prems by (simp only: IH t d brand_leaves_Cons append_assoc)
    finally show ?thesis .
  qed
qed

lemma brand_loop_overflows:
  assumes "2 \<le> i" and "i \<le> 14" and "14 \<le> hi" and "length bb = 192"
  shows "brand_loop X86 hw i hi q0 bb = Inl Out_Of_Bounds"
  using assms
proof (induct "14 - i" arbitrary: i q0 bb)
  case 0
  then have "i = 14" by simp
  with "0.prems" show ?case by (simp add: brand_loop_step memcpy_at_Inl)
next
  case (Suc d)
  let ?q = "quad_bytes (hw (0x80000000 + of_nat i) 0)"
  have cp: "memcpy_at bb ((i - 2) * 16) ?q = Inr (take ((i - 2) * 16) bb @ ?q @ drop ((i - 1) * 16) bb)"
    using Suc.prems Suc.hyps(2) by (simp add: memcpy_at_Inr algebra_simps)
  have len: "length (take ((i - 2) * 16) bb @ ?q @ drop ((i - 1) * 16) bb) = 192"
    using Suc.prems Suc.hyps(2) by (simp add: algebra_simps)
  show ?case
    using Suc.hyps(1) [of "Suc i"] Suc.hyps(2) Suc.prems len
    by (simp add: brand_loop_step cp)
qed

lemma line_of_strstr_newline:
  "(case strstr p newline of None \<Rightarrow> p | Some e \<Rightarrow> take e p) = takeWhile (\<lambda>c. c \<noteq> CHR 0x0A) p"
proof (cases "CHR 0x0A \<in> set p")
  case True
  then show ?thesis by (simp add: newline_def strstr_single takeWhile_eq_take [symmetric])
next
  case False
  then have "takeWhile (\<lambda>c. c \<noteq> CHR 0x0A) p = p"
    using False by (induction p) auto
  with False show ?thesis by (simp add: newline_def strstr_single del: takeWhile_eq_all_conv)
qed

lemma win32_brand_fill:
  assumes "hi \<le> 13"
  shows "brand_loop X86 hw 2 hi q0 (replicate 192 0) = Inr (win32_brand hw hi)"
proof (cases "2 \<le> hi")
  case True
  with assms show ?thesis by (simp add: brand_loop_fills win32_brand_def)
next
  case False
  then show ?thesis by (simp add: brand_loop_stop win32_brand_def)
qed

lemma cpu_getname_win32_X86_ext:
  assumes "0x80000004 \<le> hw 0x80000000 0 EAX_Reg" and "unat (hw 0x80000000 0 EAX_Reg AND 0xF) \<le> 13"
  shows "cpu_getname_win32 X86 hw h maxsz =
     bind_res (cstr (win32_brand hw (unat (hw 0x80000000 0 EAX_Reg AND 0xF))))
       (\<lambda>str. Inr (snprintf_str maxsz (replicate maxsz 0) str))"
  using assms by (simp add: cpu_getname_win32_def win32_brand_fill)

lemma takeWhile_pad_zero:
  "takeWhile (\<lambda>b. b \<noteq> 0) (xs @ replicate (Suc n) (0::byte)) = takeWhile (\<lambda>b. b \<noteq> 0) xs"
  by (induction xs) auto

lemma cstr_win32_brand:
  assumes "hi \<le> 12"
  shows "cstr (win32_brand hw hi) = Inr (takeWhile (\<lambda>b. b \<noteq> 0) (win32_brand hw hi))"
proof -
  have "192 - (hi - 1) * 16 = Suc (191 - (hi - 1) * 16)" using assms by simp
  then show ?thesis by (simp add: cstr_def win32_brand_def)
qed

subsection \<open>Facts on the Linux scan and on the result buffer\<close>

lemma snprintf_str_zeroed:
  "length (snprintf_str maxsz (replicate maxsz 0) s) = maxsz \<and>
   (0 < maxsz \<longrightarrow> 0 \<in> set (snprintf_str maxsz (replicate maxsz 0) s))"
  by (simp add: snprintf_str_terminated)

lemma model_name_piece_Break:
  "model_name_piece buf maxsz out = Break r \<Longrightarrow>
   r = Inl Out_Of_Bounds \<or>
   (\<exists>line. CHR 0x0A \<notin> set line \<and> r = Inr (snprintf_str maxsz out (bytes_of line)))"
  by (auto simp: model_name_piece_def line_of_strstr_newline Let_def split: option.splits if_splits
           dest: set_takeWhileD)

lemma scan_model_name_Inr:
  "scan_model_name bufs maxsz out = Inr out' \<Longrightarrow>
   out' = out \<or> (\<exists>line. CHR 0x0A \<notin> set line \<and> out' = snprintf_str maxsz out (bytes_of line))"
  by (induction bufs) (auto split: loop_step.splits dest: model_name_piece_Break)

lemma cpu_getname_win32_Inr:
  "cpu_getname_win32 arch hw h maxsz = Inr out \<Longrightarrow> \<exists>s. out = snprintf_str maxsz (replicate maxsz 0) s"
  by (auto simp: cpu_getname_win32_def Let_def bind_res_Inr_iff split: if_splits option.splits)

lemma cpu_getname_linux_Inr:
  "cpu_getname_linux h maxsz = Inr (out, h') \<Longrightarrow>
     (out = replicate maxsz 0 \<or>
      (\<exists>line. CHR 0x0A \<notin> set line \<and> out = snprintf_str maxsz (replicate maxsz 0) (bytes_of line))) \<and>
     files h' = files h \<and> env h' = env h \<and> open_fds h' = open_fds h \<and>
     heap_blocks h' = heap_blocks h"
  by (cases "files h ''/proc/cpuinfo''")
     (auto simp: cpu_getname_linux_def fclose_def bind_res_Inr_iff Let_def dest!: scan_model_name_Inr)

lemma cpuinfo_single_chunk:
  assumes "CHR 0x00 \<notin> set content" and "strstr content model_name_key = Some i"
  shows "nul_chunks [] content = [content]"
proof -
  have "content \<noteq> []"
    using strstr_found [OF assms(2)] by (auto simp: model_name_key_def)
  with assms(1) show ?thesis by (simp add: nul_chunks_single)
qed

subsection \<open>Properties of cpu_getname\<close>

text \<open>
  C15. Safety of \<^verbatim>\<open>cpu_getname\<close> on both builds: whenever it returns, the buffer
  still has its \<open>maxsz\<close> bytes and holds a NUL byte (so it is a C string), and the host is
  as before: no file or variable changed, and every stream opened is closed again.
\<close>

theorem cpu_getname_safe:
  assumes "cpu_getname os arch hw h maxsz = Inr (out, h')"
  shows "length out = maxsz \<and> (0 < maxsz \<longrightarrow> 0 \<in> set out) \<and>
         files h' = files h \<and> env h' = env h \<and> open_fds h' = open_fds h"
proof (cases os)
  case WIN32
  with assms show ?thesis
    by (auto simp: cpu_getname_def bind_res_Inr_iff snprintf_str_zeroed dest!: cpu_getname_win32_Inr)
next
  case Linux
  with assms show ?thesis
    by (auto simp: cpu_getname_def snprintf_str_zeroed dest!: cpu_getname_linux_Inr)
qed

lemma cpu_getname_safe_witness:
  "cpu_getname WIN32 X86 (\<lambda>_ _. zero_quad) \<lparr>files = Map.empty, env = [''PROCESSOR_IDENTIFIER'' \<mapsto> ''Intel64''], open_fds = 0, heap_blocks = 0\<rparr> 4 = Inr (bytes_of ''Int'' @ [0], \<lparr>files = Map.empty, env = [''PROCESSOR_IDENTIFIER'' \<mapsto> ''Intel64''], open_fds = 0, heap_blocks = 0\<rparr>) \<and>
   0 \<in> set (bytes_of ''Int'' @ [0])"
  using cpu_getname_safe [of WIN32 X86 "\<lambda>_ _. zero_quad" "\<lparr>files = Map.empty, env = [''PROCESSOR_IDENTIFIER'' \<mapsto> ''Intel64''], open_fds = 0, heap_blocks = 0\<rparr>" 4 "bytes_of ''Int'' @ [0]" "\<lparr>files = Map.empty, env = [''PROCESSOR_IDENTIFIER'' \<mapsto> ''Intel64''], open_fds = 0, heap_blocks = 0\<rparr>"]
  by (simp add: cpu_getname_def cpu_getname_win32_def getenv_def snprintf_str_def bytes_of_def)

text \<open>
  C17. WIN32, brand path: when the highest extended leaf \<open>ext\<close> is at least 0x80000004 and
  its low nibble \<open>hi\<close> is at most 12, the name is the bytes of leaves 0x80000002 ..
  0x80000000 + \<open>hi\<close> (16 bytes each, the rest of \<open>brand\<close> zero) up to the first NUL,
  printed with \<open>snprintf\<close> into the zeroed buffer.  Leaves past 0x80000004 are copied too
  whenever \<open>hi\<close> is above 4.
\<close>

theorem cpu_getname_win32_brand:
  assumes "0x80000004 \<le> hw 0x80000000 0 EAX_Reg" and "unat (hw 0x80000000 0 EAX_Reg AND 0xF) \<le> 12"
  shows "cpu_getname_win32 X86 hw h maxsz =
     Inr (snprintf_str maxsz (replicate maxsz 0)
            (takeWhile (\<lambda>b. b \<noteq> 0) (win32_brand hw (unat (hw 0x80000000 0 EAX_Reg AND 0xF)))))"
  using assms by (simp add: cpu_getname_win32_X86_ext cstr_win32_brand)

lemma cpu_getname_win32_brand_witness:
  "0x80000004 \<le> ((\<lambda>leaf sub r. if leaf = 0x80000000 \<and> r = EAX_Reg then 0x80000008 else 0x41) :: cpuid_hw) 0x80000000 0 EAX_Reg \<and>
   unat (((\<lambda>leaf sub r. if leaf = 0x80000000 \<and> r = EAX_Reg then 0x80000008 else 0x41) :: cpuid_hw) 0x80000000 0 EAX_Reg AND 0xF) \<le> 12 \<and>
   cpu_getname_win32 X86 (\<lambda>leaf sub r. if leaf = 0x80000000 \<and> r = EAX_Reg then 0x80000008 else 0x41) \<lparr>files = Map.empty, env = Map.empty, open_fds = 0, heap_blocks = 0\<rparr> 3 = Inr [0x41, 0, 0]"
  using cpu_getname_win32_brand [of "\<lambda>leaf sub r. if leaf = 0x80000000 \<and> r = EAX_Reg then 0x80000008 else 0x41" "\<lparr>files = Map.empty, env = Map.empty, open_fds = 0, heap_blocks = 0\<rparr>" 3]
  by (simp add: win32_brand_def brand_leaves_def quad_bytes_unfold le_bytes_def snprintf_str_def)

text \<open>
  C16. WIN32, overflow: when \<open>ext\<close> is at least 0x80000004 and its low nibble is 14 or 15
  (an AMD processor reporting 0x8000001E or 0x8000001F), the loop copies leaf
  0x8000000E to \<open>brand[192]\<close>, past the end of \<open>char brand[0xC0]\<close>: undefined
  behaviour, the error \<open>Out_Of_Bounds\<close>.
\<close>

theorem cpu_getname_win32_overflow:
  assumes "0x80000004 \<le> hw 0x80000000 0 EAX_Reg" and "14 \<le> unat (hw 0x80000000 0 EAX_Reg AND 0xF)"
  shows "cpu_getname_win32 X86 hw h maxsz = Inl Out_Of_Bounds"
  using assms by (simp add: cpu_getname_win32_def brand_loop_overflows)

lemma cpu_getname_win32_overflow_witness:
  "cpu_getname_win32 X86 (\<lambda>leaf sub r. if r = EAX_Reg then 0x8000001F else 0) \<lparr>files = Map.empty, env = Map.empty, open_fds = 0, heap_blocks = 0\<rparr> 3 = Inl Out_Of_Bounds"
  using cpu_getname_win32_overflow [of "\<lambda>leaf sub r. if r = EAX_Reg then 0x8000001F else 0" "\<lparr>files = Map.empty, env = Map.empty, open_fds = 0, heap_blocks = 0\<rparr>" 3]
  by simp

text \<open>
  C18. WIN32, empty name: when \<open>ext\<close> is at least 0x80000004 but its low nibble is 0 or 1
  (for instance 0x80000020), the loop runs no iteration, no brand leaf is read and the name
  is empty (the buffer stays zero), although the processor has a brand string.
\<close>

theorem cpu_getname_win32_short_nibble:
  assumes "0x80000004 \<le> hw 0x80000000 0 EAX_Reg" and "unat (hw 0x80000000 0 EAX_Reg AND 0xF) < 2"
  shows "cpu_getname_win32 X86 hw h maxsz = Inr (replicate maxsz 0)"
  using assms by (cases maxsz) (simp_all add: cpu_getname_win32_X86_ext win32_brand_def cstr_def snprintf_str_def)

lemma cpu_getname_win32_short_nibble_witness:
  "cpu_getname_win32 X86 (\<lambda>leaf sub r. if r = EAX_Reg then 0x80000020 else 0) \<lparr>files = Map.empty, env = Map.empty, open_fds = 0, heap_blocks = 0\<rparr> 3 = Inr (replicate 3 0)"
  using cpu_getname_win32_short_nibble [of "\<lambda>leaf sub r. if r = EAX_Reg then 0x80000020 else 0" "\<lparr>files = Map.empty, env = Map.empty, open_fds = 0, heap_blocks = 0\<rparr>" 3]
  by simp

text \<open>
  C19. WIN32, fallback: when \<open>ext\<close> is below 0x80000004 the name is the environment
  variable \<open>PROCESSOR_IDENTIFIER\<close> printed into the zeroed buffer; when the variable is
  not set the \<open>%s\<close> argument is a NULL pointer (error \<open>Null_String\<close>).
\<close>

theorem cpu_getname_win32_fallback:
  assumes "hw 0x80000000 0 EAX_Reg < 0x80000004"
  shows "cpu_getname_win32 X86 hw h maxsz =
     (case env h ''PROCESSOR_IDENTIFIER'' of
        None \<Rightarrow> Inl Null_String
      | Some v \<Rightarrow> Inr (snprintf_str maxsz (replicate maxsz 0) (bytes_of v)))"
proof -
  have "\<not> 0x80000004 \<le> hw 0x80000000 0 EAX_Reg" using assms by (simp add: not_le)
  then show ?thesis by (simp add: cpu_getname_win32_def getenv_def Let_def)
qed

lemma cpu_getname_win32_fallback_witness:
  "cpu_getname_win32 X86 (\<lambda>_ _. zero_quad) \<lparr>files = Map.empty, env = [''PROCESSOR_IDENTIFIER'' \<mapsto> ''Intel64''], open_fds = 0, heap_blocks = 0\<rparr> 4 = Inr (bytes_of ''Int'' @ [0])"
  using cpu_getname_win32_fallback [of "\<lambda>_ _. zero_quad" "\<lparr>files = Map.empty, env = [''PROCESSOR_IDENTIFIER'' \<mapsto> ''Intel64''], open_fds = 0, heap_blocks = 0\<rparr>" 4]
  by (simp add: snprintf_str_def bytes_of_def)

text \<open>
  C20. Linux, model name: for a \<^verbatim>\<open>/proc/cpuinfo\<close> without NUL bytes whose first
  \<open>"model name\t"\<close> is at \<open>i\<close> and whose first colon after it is \<open>j\<close> further, the
  name is the text from two characters after the colon to the end of that line, printed
  into the zeroed buffer, and the stream is closed.
\<close>

theorem cpu_getname_linux_model_name:
  assumes "files h ''/proc/cpuinfo'' = Some content" and "CHR 0x00 \<notin> set content"
    and "strstr content model_name_key = Some i" and "strstr (drop i content) '':'' = Some j"
    and "i + j + 2 \<le> length content"
  shows "cpu_getname Linux arch hw h maxsz =
     Inr (snprintf_str maxsz (replicate maxsz 0)
            (bytes_of (takeWhile (\<lambda>c. c \<noteq> CHR 0x0A) (drop (i + j + 2) content))), h)"
  using assms
  by (simp add: cpu_getname_def cpu_getname_linux_def cpuinfo_single_chunk fclose_def model_name_piece_def
                line_of_strstr_newline Let_def)

lemma cpu_getname_linux_model_name_witness:
  "cpu_getname Linux X86 (\<lambda>_ _. zero_quad) \<lparr>files = [''/proc/cpuinfo'' \<mapsto> ''model name'' @ [CHR 0x09] @ '': Xeon'' @ [CHR 0x0A] @ ''flags''], env = Map.empty, open_fds = 0, heap_blocks = 0\<rparr> 6 = Inr (bytes_of ''Xeon'' @ [0, 0], \<lparr>files = [''/proc/cpuinfo'' \<mapsto> ''model name'' @ [CHR 0x09] @ '': Xeon'' @ [CHR 0x0A] @ ''flags''], env = Map.empty, open_fds = 0, heap_blocks = 0\<rparr>)"
  using cpu_getname_linux_model_name [of "\<lparr>files = [''/proc/cpuinfo'' \<mapsto> ''model name'' @ [CHR 0x09] @ '': Xeon'' @ [CHR 0x0A] @ ''flags''], env = Map.empty, open_fds = 0, heap_blocks = 0\<rparr>" "''model name'' @ [CHR 0x09] @ '': Xeon'' @ [CHR 0x0A] @ ''flags''" 0 11 X86 "\<lambda>_ _. zero_quad" 6]
  by (simp add: model_name_key_def snprintf_str_def bytes_of_def)

text \<open>
  C21. Linux, colon at the end: when the colon found after \<open>"model name\t"\<close> is the
  last character of the file, \<open>p += 2\<close> moves past the terminating NUL and the next
  \<open>strstr\<close> reads outside the string: undefined behaviour (\<open>Out_Of_Bounds\<close>).
\<close>

theorem cpu_getname_linux_colon_at_end:
  assumes "files h ''/proc/cpuinfo'' = Some content" and "CHR 0x00 \<notin> set content"
    and "strstr content model_name_key = Some i" and "strstr (drop i content) '':'' = Some j"
    and "length content < i + j + 2"
  shows "cpu_getname Linux arch hw h maxsz = Inl Out_Of_Bounds"
  using assms by (simp add: cpu_getname_def cpu_getname_linux_def cpuinfo_single_chunk model_name_piece_def)

lemma cpu_getname_linux_colon_at_end_witness:
  "cpu_getname Linux X86 (\<lambda>_ _. zero_quad) \<lparr>files = [''/proc/cpuinfo'' \<mapsto> ''model name'' @ [CHR 0x09] @ '':''], env = Map.empty, open_fds = 0, heap_blocks = 0\<rparr> 6 = Inl Out_Of_Bounds"
  using cpu_getname_linux_colon_at_end [of "\<lparr>files = [''/proc/cpuinfo'' \<mapsto> ''model name'' @ [CHR 0x09] @ '':''], env = Map.empty, open_fds = 0, heap_blocks = 0\<rparr>" "''model name'' @ [CHR 0x09] @ '':''" 0 11 X86 "\<lambda>_ _. zero_quad" 6]
  by (simp add: model_name_key_def)

text \<open>
  C22. Linux, colon before the delimiter: when the colon found after \<open>"model name\t"\<close>
  is the last character of a piece that ends with a NUL delimiter, \<open>p += 2\<close> lands on
  the NUL \<open>getdelim\<close> wrote after the delimiter: still inside the buffer, so the name
  is the empty string and the scan stops there.
\<close>

theorem cpu_getname_linux_colon_before_nul:
  assumes "files h ''/proc/cpuinfo'' = Some (piece @ CHR 0x00 # rest)" and "CHR 0x00 \<notin> set piece"
    and "strstr piece model_name_key = Some i" and "strstr (drop i piece) '':'' = Some j"
    and "length piece = i + j + 1"
  shows "cpu_getname Linux arch hw h maxsz = Inr (snprintf_str maxsz (replicate maxsz 0) [], h)"
  using assms
  by (simp add: cpu_getname_def cpu_getname_linux_def nul_chunks_delimited fclose_def model_name_piece_def
                newline_def Let_def bytes_of_def)

lemma cpu_getname_linux_colon_before_nul_witness:
  "cpu_getname Linux X86 (\<lambda>_ _. zero_quad) \<lparr>files = [''/proc/cpuinfo'' \<mapsto> ''model name'' @ [CHR 0x09] @ '':'' @ CHR 0x00 # ''flags''], env = Map.empty, open_fds = 0, heap_blocks = 0\<rparr> 6 = Inr ([0, 0, 0, 0, 0, 0], \<lparr>files = [''/proc/cpuinfo'' \<mapsto> ''model name'' @ [CHR 0x09] @ '':'' @ CHR 0x00 # ''flags''], env = Map.empty, open_fds = 0, heap_blocks = 0\<rparr>)"
  using cpu_getname_linux_colon_before_nul [of "\<lparr>files = [''/proc/cpuinfo'' \<mapsto> ''model name'' @ [CHR 0x09] @ '':'' @ CHR 0x00 # ''flags''], env = Map.empty, open_fds = 0, heap_blocks = 0\<rparr>" "''model name'' @ [CHR 0x09] @ '':''" "''flags''" 0 11 X86 "\<lambda>_ _. zero_quad" 6]
  by (simp add: model_name_key_def snprintf_str_def numeral_eq_Suc)

text \<open>
  C23. WIN32, unterminated brand: when the low nibble of \<open>ext\<close> is 13 the loop fills all
  192 bytes of \<open>brand\<close> (leaves 0x80000002 .. 0x8000000D); if none of those bytes is
  zero, \<open>brand\<close> has no terminating NUL and \<open>snprintf("%s", brand)\<close> reads past its
  end (error \<open>Unterminated_String\<close>).
\<close>

theorem cpu_getname_win32_unterminated:
  assumes "0x80000004 \<le> hw 0x80000000 0 EAX_Reg" and "unat (hw 0x80000000 0 EAX_Reg AND 0xF) = 13"
    and "0 \<notin> set (brand_leaves hw 2 13)"
  shows "cpu_getname_win32 X86 hw h maxsz = Inl Unterminated_String"
  using assms by (simp add: cpu_getname_win32_X86_ext win32_brand_def cstr_def)

lemma cpu_getname_win32_unterminated_witness:
  "cpu_getname_win32 X86 (\<lambda>leaf sub r. if leaf = 0x80000000 \<and> r = EAX_Reg then 0x8000000D else 0x41414141) \<lparr>files = Map.empty, env = Map.empty, open_fds = 0, heap_blocks = 0\<rparr> 4 = Inl Unterminated_String"
  using cpu_getname_win32_unterminated [of "\<lambda>leaf sub r. if leaf = 0x80000000 \<and> r = EAX_Reg then 0x8000000D else 0x41414141" "\<lparr>files = Map.empty, env = Map.empty, open_fds = 0, heap_blocks = 0\<rparr>" 4]
  by (simp add: brand_leaves_def quad_bytes_unfold le_bytes_def upt_rec)

text \<open>
  C24. Equivalence of the WIN32 loop with its reference: for every bound \<open>hi\<close>, the loop
  as written (for \<open>i = 2 .. hi\<close>, leaf \<open>0x80000000 + i\<close> copied with \<open>memcpy\<close> to
  offset \<open>(i - 2) * 16\<close> of the zeroed \<open>brand[0xC0]\<close>) gives the reference buffer
  \<open>win32_brand\<close> (the 16-byte images of leaves 2 .. \<open>hi\<close> in order, then zeros) when
  \<open>hi \<le> 13\<close>, and writes outside \<open>brand\<close> for every larger bound.
\<close>

theorem brand_loop_equiv:
  "brand_loop X86 hw 2 hi q0 (replicate 192 0) =
     (if hi \<le> 13 then Inr (win32_brand hw hi) else Inl Out_Of_Bounds)"
  by (simp add: win32_brand_fill brand_loop_overflows)

text \<open>
  C25. Linux, single line: the name \<^verbatim>\<open>cpu_getname\<close> leaves in the buffer, read as a C
  string, never contains a newline byte: the text is cut at the end of its line before it
  is printed, and \<open>snprintf\<close> only shortens it.
\<close>

theorem cpu_getname_linux_single_line:
  assumes "cpu_getname Linux arch hw h maxsz = Inr (out, h')"
  shows "(10::byte) \<notin> set (takeWhile (\<lambda>b. b \<noteq> 0) out)"
  using assms
  by (auto simp: cpu_getname_def newline_in_bytes_of dest!: cpu_getname_linux_Inr
           dest: subsetD [OF snprintf_str_zeroed_prefix])

lemma cpu_getname_linux_single_line_witness:
  "cpu_getname Linux X86 (\<lambda>_ _. zero_quad)
     \<lparr>files = [''/proc/cpuinfo'' \<mapsto> ''model name'' @ [CHR 0x09] @ '': Xeon'' @ [CHR 0x0A] @ ''flags''], env = Map.empty, open_fds = 0, heap_blocks = 0\<rparr> 8 = Inr (bytes_of ''Xeon'' @ 0 # replicate 3 0, \<lparr>files = [''/proc/cpuinfo'' \<mapsto> ''model name'' @ [CHR 0x09] @ '': Xeon'' @ [CHR 0x0A] @ ''flags''], env = Map.empty, open_fds = 0, heap_blocks = 0\<rparr>) \<and>
   (10::byte) \<notin> set (takeWhile (\<lambda>b. b \<noteq> 0) (bytes_of ''Xeon'' @ 0 # replicate 3 0))"
  using cpu_getname_linux_single_line [of X86 "\<lambda>_ _. zero_quad" "\<lparr>files = [''/proc/cpuinfo'' \<mapsto> ''model name'' @ [CHR 0x09] @ '': Xeon'' @ [CHR 0x0A] @ ''flags''], env = Map.empty, open_fds = 0, heap_blocks = 0\<rparr>" 8 "bytes_of ''Xeon'' @ 0 # replicate 3 0" "\<lparr>files = [''/proc/cpuinfo'' \<mapsto> ''model name'' @ [CHR 0x09] @ '': Xeon'' @ [CHR 0x0A] @ ''flags''], env = Map.empty, open_fds = 0, heap_blocks = 0\<rparr>"]
  by (simp add: cpu_getname_def cpu_getname_linux_def model_name_piece_def model_name_key_def newline_def
        snprintf_str_def bytes_of_def fclose_def)

end
