(* ===== verification/ModelId.thy ===== *)
theory ModelId
  imports Host
begin

text \<open>
  \<^verbatim>\<open>cpu_getmodelid\<close> (\<^verbatim>\<open>src/sysinfos.c\<close> lines 182--236).  The result is the contents
  of \<open>outbuf\<close> (\<open>maxsz\<close> bytes, zeroed first by \<open>memset\<close>).

  On WIN32 the three environment variables \<open>PROCESSOR_LEVEL\<close>, \<open>PROCESSOR_REVISION\<close>
  and \<open>NUMBER_OF_PROCESSORS\<close> are printed as \<open>"%s:%s:%s"\<close>; a missing one is a NULL
  \<open>%s\<close> argument.

  On Linux \<^verbatim>\<open>/proc/cpuinfo\<close> is read piece by piece; in each piece the values after
  \<open>"cpu family\t"\<close>, \<open>"model\t"\<close> and \<open>"stepping\t"\<close> (two characters after the
  next colon, read with \<open>atoi\<close>) update three \<open>int\<close>s that start at 0.  As soon as all
  three are non-zero the text \<open>"%x:%02x%02x:%d"\<close> of family, model, stepping and the
  global \<open>num_cpus\<close> is printed, the last byte of the buffer is set to NUL and the scan
  stops.  The stream is closed before returning.  \<open>num_cpus\<close> is a global of the miner
  (not in \<^verbatim>\<open>src/\<close>); it is a parameter here.
\<close>

subsection \<open>WIN32\<close>

definition cpu_getmodelid_win32 :: "host \<Rightarrow> nat \<Rightarrow> byte list result" where
  "cpu_getmodelid_win32 h maxsz =
     (let outbuf = replicate maxsz 0 in
      case (getenv h ''PROCESSOR_LEVEL'', getenv h ''PROCESSOR_REVISION'',
            getenv h ''NUMBER_OF_PROCESSORS'') of
        (Some l, Some r, Some n) \<Rightarrow> Inr (snprintf_str maxsz outbuf (bytes_of (l @ '':'' @ r @ '':'' @ n)))
      | _ \<Rightarrow> Inl Null_String)"

subsection \<open>Linux\<close>

definition cpu_family_key :: string where
  "cpu_family_key = ''cpu family'' @ [CHR 0x09]"

definition model_key :: string where
  "model_key = ''model'' @ [CHR 0x09]"

definition stepping_key :: string where
  "stepping_key = ''stepping'' @ [CHR 0x09]"

text \<open>
  One of the three blocks of lines 198--224: when \<open>key\<close> and then a colon occur in the
  C string of the piece, \<open>atoi\<close> of the text two characters after the colon (inside the
  bytes \<open>getdelim\<close> stored and its terminating NUL, as in \<open>model_name_piece\<close>); \<open>None\<close> when the block
  does not fire and the variable keeps its value.
\<close>

definition field_value :: "string \<Rightarrow> string \<Rightarrow> int option result" where
  "field_value key buf =
     (let s = c_string buf in
      case strstr s key of
        None \<Rightarrow> Inr None
      | Some i \<Rightarrow>
          (case strstr (drop i s) '':'' of
             None \<Rightarrow> Inr None
           | Some j \<Rightarrow>
               (let q = i + j + 2 in
                if length buf < q then Inl Out_Of_Bounds
                else bind_res (atoi (drop q s)) (\<lambda>v. Inr (Some v)))))"

definition upd_field :: "int \<Rightarrow> int option \<Rightarrow> int" where
  "upd_field old v = (case v of None \<Rightarrow> old | Some x \<Rightarrow> x)"

text \<open>\<open>"%x:%02x%02x:%d"\<close>: \<open>%x\<close> prints an \<open>int\<close> as \<open>unsigned int\<close>.\<close>

definition modelid_text :: "int \<Rightarrow> int \<Rightarrow> int \<Rightarrow> int \<Rightarrow> string" where
  "modelid_text cpufam model stepping num_cpus =
     fmt_hex (word_of_int cpufam) @ '':'' @ pad2 (fmt_hex (word_of_int model))
       @ pad2 (fmt_hex (word_of_int stepping)) @ '':'' @ fmt_dec_int num_cpus"

text \<open>\<open>outbuf[maxsz-1] = '\0'\<close>: with \<open>maxsz = 0\<close> the index is \<open>SIZE_MAX\<close>.\<close>

definition set_last_nul :: "nat \<Rightarrow> byte list \<Rightarrow> byte list result" where
  "set_last_nul maxsz out = (if maxsz = 0 then Inl Out_Of_Bounds else Inr (out[maxsz - 1 := 0]))"

text \<open>
  One iteration of the \<open>getdelim\<close> loop of lines 196--232 on the piece \<open>buf\<close>, with the
  loop state \<open>(cpufam, model, stepping)\<close>: the three blocks, then the test of line 225,
  which prints and leaves the loop, or goes on with the updated state.
\<close>

definition modelid_piece ::
  "int \<Rightarrow> nat \<Rightarrow> string \<Rightarrow> int \<times> int \<times> int \<Rightarrow> byte list \<Rightarrow> (int \<times> int \<times> int, byte list result) loop_step" where
  "modelid_piece num_cpus maxsz buf st outbuf =
     (case st of (cpufam, model, stepping) \<Rightarrow>
        bind_step (field_value cpu_family_key buf) (\<lambda>f.
          let cpufam = upd_field cpufam f in
          bind_step (field_value model_key buf) (\<lambda>m.
            let model = upd_field model m in
            bind_step (field_value stepping_key buf) (\<lambda>s.
              let stepping = upd_field stepping s in
              if cpufam \<noteq> 0 \<and> model \<noteq> 0 \<and> stepping \<noteq> 0 then
                Break (set_last_nul maxsz
                  (snprintf_str maxsz outbuf (bytes_of (modelid_text cpufam model stepping num_cpus))))
              else Continue (cpufam, model, stepping)))))"

fun scan_modelid :: "int \<Rightarrow> nat \<Rightarrow> string list \<Rightarrow> int \<times> int \<times> int \<Rightarrow> byte list \<Rightarrow> byte list result" where
  "scan_modelid num_cpus maxsz [] st outbuf = Inr outbuf"
| "scan_modelid num_cpus maxsz (buf # bufs) st outbuf =
     (case modelid_piece num_cpus maxsz buf st outbuf of
        Continue st' \<Rightarrow> scan_modelid num_cpus maxsz bufs st' outbuf
      | Break r \<Rightarrow> r)"

definition cpu_getmodelid_linux :: "host \<Rightarrow> int \<Rightarrow> nat \<Rightarrow> (byte list \<times> host) result" where
  "cpu_getmodelid_linux h num_cpus maxsz =
     (let outbuf = replicate maxsz 0 in
      case fopen h ''/proc/cpuinfo'' of
        (None, h') \<Rightarrow> Inr (outbuf, h')
      | (Some content, h') \<Rightarrow>
          bind_res (scan_modelid num_cpus maxsz (nul_chunks [] content) (0, 0, 0) outbuf)
            (\<lambda>out. Inr (out, fclose h')))"

subsection \<open>Both builds\<close>

definition cpu_getmodelid :: "platform \<Rightarrow> host \<Rightarrow> int \<Rightarrow> nat \<Rightarrow> (byte list \<times> host) result" where
  "cpu_getmodelid os h num_cpus maxsz =
     (case os of
        WIN32 \<Rightarrow> bind_res (cpu_getmodelid_win32 h maxsz) (\<lambda>out. Inr (out, h))
      | Linux \<Rightarrow> cpu_getmodelid_linux h num_cpus maxsz)"

subsection \<open>Reading the text back\<close>

text \<open>
  A reader of the Linux text: the hexadecimal family up to the first colon, two
  two-digit hexadecimal fields, a colon and a decimal number.
\<close>

definition parse_modelid :: "string \<Rightarrow> (nat \<times> nat \<times> nat \<times> int) option" where
  "parse_modelid t =
     (case strstr t '':'' of
        None \<Rightarrow> None
      | Some k \<Rightarrow>
          (let r = drop (Suc k) t in
           if length r < 5 \<or> r ! 4 \<noteq> CHR '':'' then None
           else (case atoi (drop 5 r) of
                   Inl _ \<Rightarrow> None
                 | Inr n \<Rightarrow> Some (parse_hex (take k t), parse_hex (take 2 r), parse_hex (take 2 (drop 2 r)), n))))"

subsection \<open>Facts on the Linux scan\<close>

lemma field_value_nonempty: "field_value key buf = Inr (Some v) \<Longrightarrow> buf \<noteq> []"
  by (auto simp: field_value_def Let_def split: option.splits if_splits)

lemma modelid_piece_Break:
  "modelid_piece num_cpus maxsz buf st out = Break (Inr out') \<Longrightarrow>
     0 < maxsz \<and> (\<exists>s. out' = (snprintf_str maxsz out s)[maxsz - 1 := 0])"
  by (cases st)
     (auto simp: modelid_piece_def bind_step_def Let_def set_last_nul_def split: sum.splits if_splits)

lemma scan_modelid_Inr:
  "scan_modelid num_cpus maxsz bufs st out = Inr out' \<Longrightarrow>
     out' = out \<or> (0 < maxsz \<and> (\<exists>s. out' = (snprintf_str maxsz out s)[maxsz - 1 := 0]))"
  by (induction bufs arbitrary: st) (auto split: loop_step.splits dest: modelid_piece_Break [simplified])

lemma cpu_getmodelid_linux_single:
  assumes "files h ''/proc/cpuinfo'' = Some content" and "CHR 0x00 \<notin> set content"
    and "content \<noteq> []"
  shows "cpu_getmodelid Linux h num_cpus maxsz =
     bind_res (scan_modelid num_cpus maxsz [content] (0, 0, 0) (replicate maxsz 0)) (\<lambda>out. Inr (out, h))"
  using assms by (simp add: cpu_getmodelid_def cpu_getmodelid_linux_def nul_chunks_single fclose_def Let_def
                     del: scan_modelid.simps)

lemma modelid_out_ok:
  "length (snprintf_str maxsz (replicate maxsz 0) s) = maxsz \<and>
   (0 < maxsz \<longrightarrow> snprintf_str maxsz (replicate maxsz 0) s ! (maxsz - 1) = 0)"
  using snprintf_str_zeroed_last [of maxsz s] by simp

lemma takeWhile_upto: "c \<notin> set xs \<Longrightarrow> takeWhile (\<lambda>x. x \<noteq> c) (xs @ c # ys) = xs"
  by (induction xs) auto

lemma hex_colon_split:
  "strstr (fmt_hex_nat n @ CHR '':'' # rest) '':'' = Some (length (fmt_hex_nat n))"
proof -
  have "CHR '':'' \<notin> set (fmt_hex_nat n)"
    using fmt_hex_nat_digits [of n] unfolding is_hex_digit_def by fastforce
  then show ?thesis by (simp add: strstr_single takeWhile_upto)
qed

lemma cpu_getmodelid_win32_Inr:
  "cpu_getmodelid_win32 h maxsz = Inr out \<Longrightarrow> \<exists>s. out = snprintf_str maxsz (replicate maxsz 0) s"
  by (auto simp: cpu_getmodelid_win32_def Let_def split: option.splits)

lemma cpu_getmodelid_linux_Inr:
  "cpu_getmodelid_linux h num_cpus maxsz = Inr (out, h') \<Longrightarrow>
     (out = replicate maxsz 0 \<or>
      (0 < maxsz \<and> (\<exists>s. out = (snprintf_str maxsz (replicate maxsz 0) s)[maxsz - 1 := 0]))) \<and>
     files h' = files h \<and> env h' = env h \<and> open_fds h' = open_fds h \<and>
     heap_blocks h' = heap_blocks h"
  by (cases "files h ''/proc/cpuinfo''")
     (auto simp: cpu_getmodelid_linux_def fclose_def bind_res_Inr_iff Let_def dest!: scan_modelid_Inr)

subsection \<open>Properties of cpu_getmodelid\<close>

text \<open>
  C29. Safety of \<^verbatim>\<open>cpu_getmodelid\<close> on both builds: whenever it returns, the
  buffer keeps its \<open>maxsz\<close> bytes, its last byte is NUL when there is one, and the host is
  as before (the stream opened on Linux is closed again).
\<close>

theorem cpu_getmodelid_safe:
  assumes "cpu_getmodelid os h num_cpus maxsz = Inr (out, h')"
  shows "length out = maxsz \<and> (0 < maxsz \<longrightarrow> out ! (maxsz - 1) = 0) \<and>
         files h' = files h \<and> env h' = env h \<and> open_fds h' = open_fds h"
proof (cases os)
  case WIN32
  with assms show ?thesis
    by (auto simp: cpu_getmodelid_def bind_res_Inr_iff modelid_out_ok snprintf_str_zeroed_last [simplified]
             dest!: cpu_getmodelid_win32_Inr)
next
  case Linux
  with assms show ?thesis
    by (auto simp: cpu_getmodelid_def modelid_out_ok dest!: cpu_getmodelid_linux_Inr)
qed

lemma cpu_getmodelid_safe_witness:
  "cpu_getmodelid Linux \<lparr>files = [''/proc/cpuinfo'' \<mapsto> ''cpu family'' @ [CHR 0x09] @ '': 6'' @ [CHR 0x0A] @ ''model'' @ [CHR 0x09, CHR 0x09] @ '': 58'' @ [CHR 0x0A] @ ''model name'' @ [CHR 0x09] @ '': Xeon'' @ [CHR 0x0A] @ ''stepping'' @ [CHR 0x09] @ '': 9'' @ [CHR 0x0A]], env = Map.empty, open_fds = 0, heap_blocks = 0\<rparr> 4 10 = Inr (bytes_of ''6:3a09:4'' @ [0, 0], \<lparr>files = [''/proc/cpuinfo'' \<mapsto> ''cpu family'' @ [CHR 0x09] @ '': 6'' @ [CHR 0x0A] @ ''model'' @ [CHR 0x09, CHR 0x09] @ '': 58'' @ [CHR 0x0A] @ ''model name'' @ [CHR 0x09] @ '': Xeon'' @ [CHR 0x0A] @ ''stepping'' @ [CHR 0x09] @ '': 9'' @ [CHR 0x0A]], env = Map.empty, open_fds = 0, heap_blocks = 0\<rparr>) \<and>
   (bytes_of ''6:3a09:4'' @ [0, 0]) ! 9 = 0"
  using cpu_getmodelid_safe [of Linux "\<lparr>files = [''/proc/cpuinfo'' \<mapsto> ''cpu family'' @ [CHR 0x09] @ '': 6'' @ [CHR 0x0A] @ ''model'' @ [CHR 0x09, CHR 0x09] @ '': 58'' @ [CHR 0x0A] @ ''model name'' @ [CHR 0x09] @ '': Xeon'' @ [CHR 0x0A] @ ''stepping'' @ [CHR 0x09] @ '': 9'' @ [CHR 0x0A]], env = Map.empty, open_fds = 0, heap_blocks = 0\<rparr>" 4 10 "bytes_of ''6:3a09:4'' @ [0, 0]" "\<lparr>files = [''/proc/cpuinfo'' \<mapsto> ''cpu family'' @ [CHR 0x09] @ '': 6'' @ [CHR 0x0A] @ ''model'' @ [CHR 0x09, CHR 0x09] @ '': 58'' @ [CHR 0x0A] @ ''model name'' @ [CHR 0x09] @ '': Xeon'' @ [CHR 0x0A] @ ''stepping'' @ [CHR 0x09] @ '': 9'' @ [CHR 0x0A]], env = Map.empty, open_fds = 0, heap_blocks = 0\<rparr>"]
  by (simp add: cpu_getmodelid_def cpu_getmodelid_linux_def fclose_def field_value_def cpu_family_key_def
        model_key_def stepping_key_def atoi_def c_isspace_def c_isdigit_def dec_val_def int_in_range_def
        upd_field_def modelid_piece_def set_last_nul_def modelid_text_def fmt_hex_def fmt_hex_nat.simps hex_digit_def
        pad2_def fmt_dec_int_def fmt_dec_nat.simps snprintf_str_def bytes_of_def)

text \<open>
  C30. Linux, functional: for a \<^verbatim>\<open>/proc/cpuinfo\<close> without NUL bytes whose
  \<open>cpu family\<close>, \<open>model\<close> and \<open>stepping\<close> fields read non-zero values, the buffer
  holds \<open>"%x:%02x%02x:%d"\<close> of the three values and \<open>num_cpus\<close>, cut to
  \<open>maxsz - 1\<close> characters, with its last byte NUL.
\<close>

theorem cpu_getmodelid_linux_text:
  assumes "files h ''/proc/cpuinfo'' = Some content" and "CHR 0x00 \<notin> set content"
    and "field_value cpu_family_key content = Inr (Some f)"
    and "field_value model_key content = Inr (Some m)"
    and "field_value stepping_key content = Inr (Some s)"
    and "f \<noteq> 0" and "m \<noteq> 0" and "s \<noteq> 0" and "0 < maxsz"
  shows "cpu_getmodelid Linux h num_cpus maxsz =
     Inr ((snprintf_str maxsz (replicate maxsz 0) (bytes_of (modelid_text f m s num_cpus)))[maxsz - 1 := 0], h)"
proof -
  have "content \<noteq> []" using assms(3) by (rule field_value_nonempty)
  with assms show ?thesis
    by (simp add: cpu_getmodelid_linux_single upd_field_def modelid_piece_def set_last_nul_def)
qed

lemma cpu_getmodelid_linux_text_witness:
  "cpu_getmodelid Linux \<lparr>files = [''/proc/cpuinfo'' \<mapsto> ''cpu family'' @ [CHR 0x09] @ '': 6'' @ [CHR 0x0A] @ ''model'' @ [CHR 0x09, CHR 0x09] @ '': 58'' @ [CHR 0x0A] @ ''model name'' @ [CHR 0x09] @ '': Xeon'' @ [CHR 0x0A] @ ''stepping'' @ [CHR 0x09] @ '': 9'' @ [CHR 0x0A]], env = Map.empty, open_fds = 0, heap_blocks = 0\<rparr> 4 10 = Inr (bytes_of ''6:3a09:4'' @ [0, 0], \<lparr>files = [''/proc/cpuinfo'' \<mapsto> ''cpu family'' @ [CHR 0x09] @ '': 6'' @ [CHR 0x0A] @ ''model'' @ [CHR 0x09, CHR 0x09] @ '': 58'' @ [CHR 0x0A] @ ''model name'' @ [CHR 0x09] @ '': Xeon'' @ [CHR 0x0A] @ ''stepping'' @ [CHR 0x09] @ '': 9'' @ [CHR 0x0A]], env = Map.empty, open_fds = 0, heap_blocks = 0\<rparr>)"
  using cpu_getmodelid_linux_text [of "\<lparr>files = [''/proc/cpuinfo'' \<mapsto> ''cpu family'' @ [CHR 0x09] @ '': 6'' @ [CHR 0x0A] @ ''model'' @ [CHR 0x09, CHR 0x09] @ '': 58'' @ [CHR 0x0A] @ ''model name'' @ [CHR 0x09] @ '': Xeon'' @ [CHR 0x0A] @ ''stepping'' @ [CHR 0x09] @ '': 9'' @ [CHR 0x0A]], env = Map.empty, open_fds = 0, heap_blocks = 0\<rparr>" "''cpu family'' @ [CHR 0x09] @ '': 6'' @ [CHR 0x0A] @ ''model'' @ [CHR 0x09, CHR 0x09] @ '': 58'' @ [CHR 0x0A] @ ''model name'' @ [CHR 0x09] @ '': Xeon'' @ [CHR 0x0A] @ ''stepping'' @ [CHR 0x09] @ '': 9'' @ [CHR 0x0A]" 6 58 9 10 4]
  by (simp add: field_value_def cpu_family_key_def model_key_def stepping_key_def atoi_def c_isspace_def
        c_isdigit_def dec_val_def int_in_range_def modelid_text_def fmt_hex_def fmt_hex_nat.simps hex_digit_def
        pad2_def fmt_dec_int_def fmt_dec_nat.simps snprintf_str_def bytes_of_def)

text \<open>
  C31. Round trip of the Linux text: for a non-negative family, a model and a
  stepping below 256 and an \<open>int\<close> processor count, the text \<open>"%x:%02x%02x:%d"\<close>
  reads back (hexadecimal up to the first colon, two two-digit fields, a colon, \<open>atoi\<close>)
  as the four values.
\<close>

theorem cpu_getmodelid_text_roundtrip:
  assumes "0 \<le> f" "f < 2 ^ 31" "0 \<le> m" "m < 256" "0 \<le> s" "s < 256" "int_in_range n"
  shows "parse_modelid (modelid_text f m s n) = Some (nat f, nat m, nat s, n)"
proof -
  let ?a = "pad2 (fmt_hex_nat (nat m))" and ?b = "pad2 (fmt_hex_nat (nat s))"
  let ?r = "?a @ ?b @ CHR '':'' # fmt_dec_int n"
  have la: "length ?a = 2" and lb: "length ?b = 2"
    using assms by (simp_all add: length_pad2 length_fmt_hex_byte)
  have t: "modelid_text f m s n = fmt_hex_nat (nat f) @ CHR '':'' # ?r"
    using assms by (simp add: modelid_text_def fmt_hex_def unat_word_of_int_small)
  have r4: "?r ! 4 = CHR '':''" and d5: "drop 5 ?r = fmt_dec_int n"
    and t2: "take 2 ?r = ?a" and t3: "take 2 (drop 2 ?r) = ?b"
    using la lb by (simp_all add: nth_append)
  have at: "atoi (fmt_dec_int n) = Inr n"
    using atoi_fmt_dec_int [of n "[]"] assms(7) by simp
  show ?thesis
    using la lb
    by (simp add: parse_modelid_def t hex_colon_split r4 d5 t2 t3 at parse_hex_pad2 parse_hex_fmt_hex_nat)
qed

lemma cpu_getmodelid_text_roundtrip_witness:
  "parse_modelid (modelid_text 6 58 9 4) = Some (6, 58, 9, 4)"
  using cpu_getmodelid_text_roundtrip [of 6 58 9 4]
  by (simp add: int_in_range_def)

text \<open>
  C32. Linux, stepping 0: the code takes a value of 0 for \<open>"not found yet"\<close>, so a
  processor whose \<open>stepping\<close> line reads 0 (for instance an AMD family 23 model 113
  part) never satisfies \<open>cpufam && model && stepping\<close> and the model id stays empty.
\<close>

theorem cpu_getmodelid_stepping_zero:
  assumes "files h ''/proc/cpuinfo'' = Some content" and "CHR 0x00 \<notin> set content"
    and "field_value cpu_family_key content = Inr fo"
    and "field_value model_key content = Inr mo"
    and "field_value stepping_key content = Inr (Some 0)"
  shows "cpu_getmodelid Linux h num_cpus maxsz = Inr (replicate maxsz 0, h)"
proof -
  have "content \<noteq> []" using assms(5) by (rule field_value_nonempty)
  with assms show ?thesis
    by (simp add: cpu_getmodelid_linux_single upd_field_def modelid_piece_def)
qed

lemma cpu_getmodelid_stepping_zero_witness:
  "cpu_getmodelid Linux \<lparr>files = [''/proc/cpuinfo'' \<mapsto> ''cpu family'' @ [CHR 0x09] @ '': 23'' @ [CHR 0x0A] @ ''model'' @ [CHR 0x09, CHR 0x09] @ '': 113'' @ [CHR 0x0A] @ ''stepping'' @ [CHR 0x09] @ '': 0'' @ [CHR 0x0A]], env = Map.empty, open_fds = 0, heap_blocks = 0\<rparr> 4 10 = Inr (replicate 10 0, \<lparr>files = [''/proc/cpuinfo'' \<mapsto> ''cpu family'' @ [CHR 0x09] @ '': 23'' @ [CHR 0x0A] @ ''model'' @ [CHR 0x09, CHR 0x09] @ '': 113'' @ [CHR 0x0A] @ ''stepping'' @ [CHR 0x09] @ '': 0'' @ [CHR 0x0A]], env = Map.empty, open_fds = 0, heap_blocks = 0\<rparr>)"
  using cpu_getmodelid_stepping_zero [of "\<lparr>files = [''/proc/cpuinfo'' \<mapsto> ''cpu family'' @ [CHR 0x09] @ '': 23'' @ [CHR 0x0A] @ ''model'' @ [CHR 0x09, CHR 0x09] @ '': 113'' @ [CHR 0x0A] @ ''stepping'' @ [CHR 0x09] @ '': 0'' @ [CHR 0x0A]], env = Map.empty, open_fds = 0, heap_blocks = 0\<rparr>" "''cpu family'' @ [CHR 0x09] @ '': 23'' @ [CHR 0x0A] @ ''model'' @ [CHR 0x09, CHR 0x09] @ '': 113'' @ [CHR 0x0A] @ ''stepping'' @ [CHR 0x09] @ '': 0'' @ [CHR 0x0A]" "Some 23" "Some 113" 4 10]
  by (simp add: field_value_def cpu_family_key_def model_key_def stepping_key_def atoi_def c_isspace_def
        c_isdigit_def dec_val_def int_in_range_def)

text \<open>
  C33. Linux, zero-sized buffer: when all three fields are found and \<open>maxsz = 0\<close>,
  \<open>outbuf[maxsz-1] = '\0'\<close> writes at index \<open>SIZE_MAX\<close>: undefined behaviour
  (\<open>Out_Of_Bounds\<close>).
\<close>

theorem cpu_getmodelid_zero_size:
  assumes "files h ''/proc/cpuinfo'' = Some content" and "CHR 0x00 \<notin> set content"
    and "field_value cpu_family_key content = Inr (Some f)"
    and "field_value model_key content = Inr (Some m)"
    and "field_value stepping_key content = Inr (Some s)"
    and "f \<noteq> 0" and "m \<noteq> 0" and "s \<noteq> 0"
  shows "cpu_getmodelid Linux h num_cpus 0 = Inl Out_Of_Bounds"
proof -
  have "content \<noteq> []" using assms(3) by (rule field_value_nonempty)
  with assms show ?thesis
    by (simp add: cpu_getmodelid_linux_single upd_field_def modelid_piece_def set_last_nul_def)
qed

lemma cpu_getmodelid_zero_size_witness:
  "cpu_getmodelid Linux \<lparr>files = [''/proc/cpuinfo'' \<mapsto> ''cpu family'' @ [CHR 0x09] @ '': 6'' @ [CHR 0x0A] @ ''model'' @ [CHR 0x09, CHR 0x09] @ '': 58'' @ [CHR 0x0A] @ ''model name'' @ [CHR 0x09] @ '': Xeon'' @ [CHR 0x0A] @ ''stepping'' @ [CHR 0x09] @ '': 9'' @ [CHR 0x0A]], env = Map.empty, open_fds = 0, heap_blocks = 0\<rparr> 4 0 = Inl Out_Of_Bounds"
  using cpu_getmodelid_zero_size [of "\<lparr>files = [''/proc/cpuinfo'' \<mapsto> ''cpu family'' @ [CHR 0x09] @ '': 6'' @ [CHR 0x0A] @ ''model'' @ [CHR 0x09, CHR 0x09] @ '': 58'' @ [CHR 0x0A] @ ''model name'' @ [CHR 0x09] @ '': Xeon'' @ [CHR 0x0A] @ ''stepping'' @ [CHR 0x09] @ '': 9'' @ [CHR 0x0A]], env = Map.empty, open_fds = 0, heap_blocks = 0\<rparr>" "''cpu family'' @ [CHR 0x09] @ '': 6'' @ [CHR 0x0A] @ ''model'' @ [CHR 0x09, CHR 0x09] @ '': 58'' @ [CHR 0x0A] @ ''model name'' @ [CHR 0x09] @ '': Xeon'' @ [CHR 0x0A] @ ''stepping'' @ [CHR 0x09] @ '': 9'' @ [CHR 0x0A]" 6 58 9 4]
  by (simp add: field_value_def cpu_family_key_def model_key_def stepping_key_def atoi_def c_isspace_def
        c_isdigit_def dec_val_def int_in_range_def)

text \<open>
  C34. WIN32, missing variable: when one of \<open>PROCESSOR_LEVEL\<close>,
  \<open>PROCESSOR_REVISION\<close>, \<open>NUMBER_OF_PROCESSORS\<close> is not set, the NULL from
  \<open>getenv\<close> is passed to \<open>%s\<close> (error \<open>Null_String\<close>).
\<close>

theorem cpu_getmodelid_win32_missing:
  assumes "env h ''PROCESSOR_LEVEL'' = None \<or> env h ''PROCESSOR_REVISION'' = None \<or>
           env h ''NUMBER_OF_PROCESSORS'' = None"
  shows "cpu_getmodelid WIN32 h num_cpus maxsz = Inl Null_String"
  using assms by (auto simp: cpu_getmodelid_def cpu_getmodelid_win32_def getenv_def split: option.splits)

lemma cpu_getmodelid_win32_missing_witness:
  "env \<lparr>files = Map.empty, env = [''PROCESSOR_LEVEL'' \<mapsto> ''6'', ''PROCESSOR_REVISION'' \<mapsto> ''4701''], open_fds = 0, heap_blocks = 0\<rparr> ''NUMBER_OF_PROCESSORS'' = None \<and>
   cpu_getmodelid WIN32 \<lparr>files = Map.empty, env = [''PROCESSOR_LEVEL'' \<mapsto> ''6'', ''PROCESSOR_REVISION'' \<mapsto> ''4701''], open_fds = 0, heap_blocks = 0\<rparr> 4 10 = Inl Null_String"
  using cpu_getmodelid_win32_missing [of "\<lparr>files = Map.empty, env = [''PROCESSOR_LEVEL'' \<mapsto> ''6'', ''PROCESSOR_REVISION'' \<mapsto> ''4701''], open_fds = 0, heap_blocks = 0\<rparr>" 4 10]
  by simp

end
