(* ===== verification/Getdelim.thy ===== *)
theory Getdelim
  imports CpuName ModelId
begin

text \<open>
  The two \<^verbatim>\<open>while (getdelim(&buf, &size, 0, fd) != -1)\<close> loops of
  \<^verbatim>\<open>src/sysinfos.c\<close> (lines 163--176 in \<open>cpu_getname\<close>, 196--232 in
  \<open>cpu_getmodelid\<close>) as they are written: a loop over the position of the stream, the
  line buffer \<open>buf\<close>/\<open>size\<close> and the host, reading one piece per iteration with
  \<open>getdelim\<close> and running the loop body (\<open>model_name_piece\<close>,
  \<open>modelid_piece\<close>) on it, until the end of the file or a \<open>break\<close>; and the two
  Linux readers built on them, with \<open>free(buf)\<close> and \<open>fclose(fd)\<close>.  Nothing in the loop itself bounds the number of iterations, so they are
  \<open>partial_function (option)\<close>s: \<open>None\<close> would be a loop that never exits.  The lemmas
  show that they always exit, that they compute what the component theories compute
  from the list of pieces (\<open>nul_chunks\<close>), and that the readers as written refine the
  list-level readers and release the buffer and the stream.
\<close>

partial_function (option) getname_loop ::
  "nat \<Rightarrow> byte list \<Rightarrow> string \<Rightarrow> nat \<Rightarrow> line_buf \<Rightarrow> host \<Rightarrow> (byte list result \<times> line_buf \<times> host) option" where
  "getname_loop maxsz outbuf content pos lb h =
     (case getdelim content pos lb h of
        (None, lb, h) \<Rightarrow> Some (Inr outbuf, lb, h)
      | (Some (buf, pos'), lb, h) \<Rightarrow>
          (case (if buf_block lb = None then Continue () else model_name_piece buf maxsz outbuf) of
             Continue _ \<Rightarrow> getname_loop maxsz outbuf content pos' lb h
           | Break r \<Rightarrow> Some (r, lb, h)))"

text \<open>
  In the model-id loop each of the three blocks tests \<open>buf\<close> first; with a NULL
  \<open>buf\<close> none of them fires and only the test of line 225 runs, which is the body on the
  empty piece (\<open>field_value\<close> finds no key in it).
\<close>

partial_function (option) getmodelid_loop ::
  "int \<Rightarrow> nat \<Rightarrow> byte list \<Rightarrow> string \<Rightarrow> nat \<Rightarrow> int \<times> int \<times> int \<Rightarrow> line_buf \<Rightarrow> host \<Rightarrow>
   (byte list result \<times> line_buf \<times> host) option" where
  "getmodelid_loop num_cpus maxsz outbuf content pos st lb h =
     (case getdelim content pos lb h of
        (None, lb, h) \<Rightarrow> Some (Inr outbuf, lb, h)
      | (Some (buf, pos'), lb, h) \<Rightarrow>
          (case modelid_piece num_cpus maxsz (if buf_block lb = None then [] else buf) st outbuf of
             Continue st' \<Rightarrow> getmodelid_loop num_cpus maxsz outbuf content pos' st' lb h
           | Break r \<Rightarrow> Some (r, lb, h)))"

subsection \<open>The Linux readers as written\<close>

text \<open>
  Lines 158--179 and 189--235 with their buffer: \<open>fopen\<close>, the early return when it
  fails (before anything is allocated), the loop from \<open>buf = NULL\<close>, \<open>size = 0\<close>,
  then \<open>free(buf)\<close> and \<open>fclose(fd)\<close>.  \<open>None\<close> would be a reader that never
  returns.
\<close>

definition cpu_getname_linux_stream :: "host \<Rightarrow> nat \<Rightarrow> (byte list \<times> host) result option" where
  "cpu_getname_linux_stream h maxsz =
     (let outbuf = replicate maxsz 0 in
      case fopen h ''/proc/cpuinfo'' of
        (None, h') \<Rightarrow> Some (Inr (outbuf, h'))
      | (Some content, h') \<Rightarrow>
          (case getname_loop maxsz outbuf content 0 \<lparr>buf_block = None, buf_size = 0\<rparr> h' of
             None \<Rightarrow> None
           | Some (r, lb, h'') \<Rightarrow>
               Some (bind_res r (\<lambda>out. Inr (out, fclose (c_free (buf_block lb) h''))))))"

definition cpu_getmodelid_linux_stream :: "host \<Rightarrow> int \<Rightarrow> nat \<Rightarrow> (byte list \<times> host) result option" where
  "cpu_getmodelid_linux_stream h num_cpus maxsz =
     (let outbuf = replicate maxsz 0 in
      case fopen h ''/proc/cpuinfo'' of
        (None, h') \<Rightarrow> Some (Inr (outbuf, h'))
      | (Some content, h') \<Rightarrow>
          (case getmodelid_loop num_cpus maxsz outbuf content 0 (0, 0, 0) \<lparr>buf_block = None, buf_size = 0\<rparr> h' of
             None \<Rightarrow> None
           | Some (r, lb, h'') \<Rightarrow>
               Some (bind_res r (\<lambda>out. Inr (out, fclose (c_free (buf_block lb) h''))))))"

subsection \<open>The iterations of the name loop\<close>

text \<open>
  The run of the \<open>cpu_getname\<close> loop as a step relation on stream positions: a step
  reads one piece whose body goes on (\<open>Continue\<close>); \<open>getname_exit\<close> is the value the
  loop leaves with at a position whose piece breaks.
\<close>

inductive getname_step :: "nat \<Rightarrow> byte list \<Rightarrow> string \<Rightarrow> nat \<Rightarrow> nat \<Rightarrow> bool"
  for maxsz outbuf content where
  next_piece: "getdelim_nul content pos = Some (buf, pos') \<Longrightarrow>
    model_name_piece buf maxsz outbuf = Continue u \<Longrightarrow> getname_step maxsz outbuf content pos pos'"

definition getname_exit :: "nat \<Rightarrow> byte list \<Rightarrow> string \<Rightarrow> nat \<Rightarrow> byte list result option" where
  "getname_exit maxsz outbuf content pos =
     (case getdelim_nul content pos of
        None \<Rightarrow> None
      | Some (buf, pos') \<Rightarrow>
          (case model_name_piece buf maxsz outbuf of Continue _ \<Rightarrow> None | Break r \<Rightarrow> Some r))"

text \<open>
  The test of line 165 on one piece: its C string holds \<open>"model name\t"\<close> and, after
  it, a colon.  \<open>has_model_name\<close>: some piece of the file passes it.
\<close>

definition model_name_line :: "string \<Rightarrow> bool" where
  "model_name_line buf \<longleftrightarrow>
     (case strstr (c_string buf) model_name_key of
        None \<Rightarrow> False
      | Some i \<Rightarrow> strstr (drop i (c_string buf)) '':'' \<noteq> None)"

definition has_model_name :: "string \<Rightarrow> bool" where
  "has_model_name content \<longleftrightarrow> list_ex model_name_line (nul_chunks [] content)"

subsection \<open>The loops compute the list models\<close>

text \<open>
  Both proofs are by induction on the unread length \<open>length content - pos\<close>, which every
  iteration decreases (\<open>getdelim_nul_Some\<close>).  The loop leaves with the value of the
  list model, a usable buffer, and the host as the first \<open>getdelim\<close> left it
  (\<open>getdelim_heap\<close>): the later calls do not allocate.
\<close>

lemma getdelim_step_cases:
  obtains (eof) lb' h' where "getdelim content pos lb h = (None, lb', h')" "length content \<le> pos"
    "buf_ready lb'" "h' = getdelim_heap lb h"
  | (piece) buf pos' lb' h' where "getdelim content pos lb h = (Some (buf, pos'), lb', h')"
    "length content - pos' < length content - pos"
    "nul_chunks [] (drop pos content) = buf # nul_chunks [] (drop pos' content)"
    "buf_ready lb'" "h' = getdelim_heap lb h" "getdelim_nul content pos = Some (buf, pos')"
proof -
  obtain r lb' h' where g: "getdelim content pos lb h = (r, lb', h')" by (cases "getdelim content pos lb h") auto
  note e = getdelim_eq [OF g]
  show ?thesis
  proof (cases r)
    case None
    with e g show ?thesis by (intro eof) (auto simp: getdelim_nul_None)
  next
    case (Some a)
    then obtain buf pos' where r: "r = Some (buf, pos')" by (cases a) auto
    with e have gn: "getdelim_nul content pos = Some (buf, pos')" by simp
    from getdelim_nul_Some [OF gn] g e r gn show ?thesis by (intro piece) auto
  qed
qed

lemma buf_ready_not_None: "buf_ready lb \<Longrightarrow> buf_block lb \<noteq> None"
  by (simp add: buf_ready_def)

lemma getname_loop_scan:
  "\<exists>lb'. getname_loop maxsz outbuf content pos lb h =
     Some (scan_model_name (nul_chunks [] (drop pos content)) maxsz outbuf, lb', getdelim_heap lb h) \<and> buf_ready lb'"
proof (induction "length content - pos" arbitrary: pos lb h rule: less_induct)
  case less
  show ?case
  proof (cases content pos lb h rule: getdelim_step_cases)
    case (eof lb' h')
    then show ?thesis by (auto simp: getname_loop.simps)
  next
    case (piece buf pos' lb' h')
    from less [OF piece(2), of lb' h'] piece show ?thesis
      by (auto simp: getname_loop.simps buf_ready_not_None split: loop_step.split)
  qed
qed

lemma getmodelid_loop_scan:
  "\<exists>lb'. getmodelid_loop num_cpus maxsz outbuf content pos st lb h =
     Some (scan_modelid num_cpus maxsz (nul_chunks [] (drop pos content)) st outbuf, lb', getdelim_heap lb h) \<and>
     buf_ready lb'"
proof (induction "length content - pos" arbitrary: pos st lb h rule: less_induct)
  case less
  show ?case
  proof (cases content pos lb h rule: getdelim_step_cases)
    case (eof lb' h')
    then show ?thesis by (auto simp: getmodelid_loop.simps)
  next
    case (piece buf pos' lb' h')
    from piece show ?thesis
      using less [OF piece(2), of _ lb' h']
      by (auto simp: getmodelid_loop.simps buf_ready_not_None split: loop_step.split)
  qed
qed

lemma cpu_getname_linux_stream_eq: "cpu_getname_linux_stream h maxsz = Some (cpu_getname_linux h maxsz)"
proof (cases "files h ''/proc/cpuinfo''")
  case None
  then show ?thesis by (simp add: cpu_getname_linux_stream_def cpu_getname_linux_def)
next
  case (Some content)
  obtain lb' where "getname_loop maxsz (replicate maxsz 0) content 0 \<lparr>buf_block = None, buf_size = 0\<rparr>
      (h\<lparr>open_fds := Suc (open_fds h)\<rparr>) =
    Some (scan_model_name (nul_chunks [] content) maxsz (replicate maxsz 0), lb',
      getdelim_heap \<lparr>buf_block = None, buf_size = 0\<rparr> (h\<lparr>open_fds := Suc (open_fds h)\<rparr>)) \<and> buf_ready lb'"
    using getname_loop_scan [where pos = 0] by fastforce
  with Some show ?thesis by (simp add: cpu_getname_linux_stream_def cpu_getname_linux_def)
qed

lemma cpu_getmodelid_linux_stream_eq:
  "cpu_getmodelid_linux_stream h num_cpus maxsz = Some (cpu_getmodelid_linux h num_cpus maxsz)"
proof (cases "files h ''/proc/cpuinfo''")
  case None
  then show ?thesis by (simp add: cpu_getmodelid_linux_stream_def cpu_getmodelid_linux_def)
next
  case (Some content)
  obtain lb' where "getmodelid_loop num_cpus maxsz (replicate maxsz 0) content 0 (0, 0, 0)
      \<lparr>buf_block = None, buf_size = 0\<rparr> (h\<lparr>open_fds := Suc (open_fds h)\<rparr>) =
    Some (scan_modelid num_cpus maxsz (nul_chunks [] content) (0, 0, 0) (replicate maxsz 0), lb',
      getdelim_heap \<lparr>buf_block = None, buf_size = 0\<rparr> (h\<lparr>open_fds := Suc (open_fds h)\<rparr>)) \<and> buf_ready lb'"
    using getmodelid_loop_scan [where pos = 0] by fastforce
  with Some show ?thesis by (simp add: cpu_getmodelid_linux_stream_def cpu_getmodelid_linux_def)
qed

subsection \<open>Properties of the loops\<close>

lemma model_name_line_breaks: "model_name_line buf \<Longrightarrow> model_name_piece buf maxsz outbuf \<noteq> Continue ()"
  by (auto simp: model_name_line_def model_name_piece_def Let_def split: option.splits)

lemma getname_reaches_break:
  "list_ex (\<lambda>buf. model_name_piece buf maxsz outbuf \<noteq> Continue ()) (nul_chunks [] (drop pos content)) \<Longrightarrow>
   \<exists>pos' r. (getname_step maxsz outbuf content)\<^sup>*\<^sup>* pos pos' \<and>
     getname_exit maxsz outbuf content pos' = Some r \<and>
     scan_model_name (nul_chunks [] (drop pos content)) maxsz outbuf = r"
proof (induction "length content - pos" arbitrary: pos rule: less_induct)
  case less
  show ?case
  proof (cases "getdelim_nul content pos")
    case None
    then have "length content \<le> pos" by (simp add: getdelim_nul_None)
    with less.prems show ?thesis by simp
  next
    case (Some a)
    then obtain buf pos' where g: "getdelim_nul content pos = Some (buf, pos')" by (cases a) auto
    from getdelim_nul_Some [OF g] have lt: "length content - pos' < length content - pos"
      and nc: "nul_chunks [] (drop pos content) = buf # nul_chunks [] (drop pos' content)" by auto
    show ?thesis
    proof (cases "model_name_piece buf maxsz outbuf")
      case (Continue u)
      from g Continue have "getname_step maxsz outbuf content pos pos'" by (rule getname_step.next_piece)
      moreover from less.prems nc Continue
      have "list_ex (\<lambda>buf. model_name_piece buf maxsz outbuf \<noteq> Continue ()) (nul_chunks [] (drop pos' content))"
        by simp
      then obtain p r where "(getname_step maxsz outbuf content)\<^sup>*\<^sup>* pos' p"
        and "getname_exit maxsz outbuf content p = Some r"
        and "scan_model_name (nul_chunks [] (drop pos' content)) maxsz outbuf = r"
        using less.hyps [OF lt] by blast
      ultimately show ?thesis
        using nc Continue by (auto intro: converse_rtranclp_into_rtranclp)
    next
      case (Break r)
      with g nc show ?thesis by (auto simp: getname_exit_def)
    qed
  qed
qed

text \<open>
  C26. Liveness of the name scan: when some piece of \<^verbatim>\<open>/proc/cpuinfo\<close> passes the
  test of line 165 (\<open>"model name\t"\<close> followed by a colon, \<open>has_model_name\<close>, a
  property of the file alone), the loop of \<open>cpu_getname\<close> reaches, by steps over
  pieces that fail it, a position where it leaves by \<open>break\<close>, and that exit is the value
  the loop returns: it does not run to the end of the file.
\<close>

theorem getname_loop_finds_model_name:
  assumes "has_model_name content"
  shows "\<exists>pos r. (getname_step maxsz outbuf content)\<^sup>*\<^sup>* 0 pos \<and>
           getname_exit maxsz outbuf content pos = Some r \<and>
           map_option fst (getname_loop maxsz outbuf content 0 lb h) = Some r"
proof -
  from assms have "list_ex (\<lambda>buf. model_name_piece buf maxsz outbuf \<noteq> Continue ()) (nul_chunks [] (drop 0 content))"
    by (auto simp: has_model_name_def list_ex_iff dest: model_name_line_breaks)
  from getname_reaches_break [OF this] obtain pos r where "(getname_step maxsz outbuf content)\<^sup>*\<^sup>* 0 pos"
    and "getname_exit maxsz outbuf content pos = Some r"
    and "scan_model_name (nul_chunks [] content) maxsz outbuf = r" by auto
  with getname_loop_scan [of maxsz outbuf content 0 lb h] show ?thesis by auto
qed

lemma getname_loop_finds_model_name_witness:
  "has_model_name (''processor'' @ [CHR 0x09] @ '': 0'' @ [CHR 0x00] @ ''model name'' @ [CHR 0x09] @ '': Xeon'' @ [CHR 0x0A]) \<and>
   (\<exists>pos r. (getname_step 6 (replicate 6 0) (''processor'' @ [CHR 0x09] @ '': 0'' @ [CHR 0x00] @ ''model name'' @ [CHR 0x09] @ '': Xeon'' @ [CHR 0x0A]))\<^sup>*\<^sup>* 0 pos \<and>
      getname_exit 6 (replicate 6 0) (''processor'' @ [CHR 0x09] @ '': 0'' @ [CHR 0x00] @ ''model name'' @ [CHR 0x09] @ '': Xeon'' @ [CHR 0x0A]) pos = Some r \<and>
      map_option fst (getname_loop 6 (replicate 6 0) (''processor'' @ [CHR 0x09] @ '': 0'' @ [CHR 0x00] @ ''model name'' @ [CHR 0x09] @ '': Xeon'' @ [CHR 0x0A]) 0 \<lparr>buf_block = None, buf_size = 0\<rparr> \<lparr>files = Map.empty, env = Map.empty, open_fds = 0, heap_blocks = 0\<rparr>) = Some r)"
proof
  show h: "has_model_name (''processor'' @ [CHR 0x09] @ '': 0'' @ [CHR 0x00] @ ''model name'' @ [CHR 0x09] @ '': Xeon'' @ [CHR 0x0A])"
    by (simp add: has_model_name_def model_name_line_def model_name_key_def)
  show "\<exists>pos r. (getname_step 6 (replicate 6 0) (''processor'' @ [CHR 0x09] @ '': 0'' @ [CHR 0x00] @ ''model name'' @ [CHR 0x09] @ '': Xeon'' @ [CHR 0x0A]))\<^sup>*\<^sup>* 0 pos \<and>
      getname_exit 6 (replicate 6 0) (''processor'' @ [CHR 0x09] @ '': 0'' @ [CHR 0x00] @ ''model name'' @ [CHR 0x09] @ '': Xeon'' @ [CHR 0x0A]) pos = Some r \<and>
      map_option fst (getname_loop 6 (replicate 6 0) (''processor'' @ [CHR 0x09] @ '': 0'' @ [CHR 0x00] @ ''model name'' @ [CHR 0x09] @ '': Xeon'' @ [CHR 0x0A]) 0 \<lparr>buf_block = None, buf_size = 0\<rparr> \<lparr>files = Map.empty, env = Map.empty, open_fds = 0, heap_blocks = 0\<rparr>) = Some r"
    by (rule getname_loop_finds_model_name [OF h])
qed


text \<open>
  C27. Refinement of the Linux readers: \<open>cpu_getname\<close> and \<open>cpu_getmodelid\<close> as
  written, with the \<open>getdelim\<close> loop over the stream, the line buffer, \<open>free(buf)\<close>
  and \<open>fclose(fd)\<close>, always return, and return what the list-level readers
  \<open>cpu_getname_linux\<close> and \<open>cpu_getmodelid_linux\<close> return: the same buffer or error
  and the same host, heap included.
\<close>

theorem linux_readers_refine:
  "cpu_getname_linux_stream h maxsz = Some (cpu_getname_linux h maxsz) \<and>
   cpu_getmodelid_linux_stream h num_cpus maxsz = Some (cpu_getmodelid_linux h num_cpus maxsz)"
  by (simp add: cpu_getname_linux_stream_eq cpu_getmodelid_linux_stream_eq)

text \<open>
  C28. The Linux readers release what they acquire: a call of \<open>cpu_getname\<close> or
  \<open>cpu_getmodelid\<close> that returns leaves as many heap blocks and open streams as it
  found, so the block \<open>getdelim\<close> allocated on its first call is freed and the stream is
  closed, on the \<open>break\<close> path as on the end-of-file path.
\<close>

theorem linux_readers_release:
  assumes "cpu_getname_linux_stream h maxsz = Some (Inr (out, h1))"
    and "cpu_getmodelid_linux_stream h num_cpus maxsz = Some (Inr (out', h2))"
  shows "heap_blocks h1 = heap_blocks h \<and> open_fds h1 = open_fds h \<and>
         heap_blocks h2 = heap_blocks h \<and> open_fds h2 = open_fds h"
  using assms by (auto simp: cpu_getname_linux_stream_eq cpu_getmodelid_linux_stream_eq
                       dest!: cpu_getname_linux_Inr cpu_getmodelid_linux_Inr)

lemma linux_readers_release_witness:
  "cpu_getname_linux_stream \<lparr>files = [''/proc/cpuinfo'' \<mapsto> ''model name'' @ [CHR 0x09] @ '': Xeon'' @ [CHR 0x0A] @ ''flags''], env = Map.empty, open_fds = 0, heap_blocks = 0\<rparr> 6 =
     Some (Inr (bytes_of ''Xeon'' @ [0, 0], \<lparr>files = [''/proc/cpuinfo'' \<mapsto> ''model name'' @ [CHR 0x09] @ '': Xeon'' @ [CHR 0x0A] @ ''flags''], env = Map.empty, open_fds = 0, heap_blocks = 0\<rparr>)) \<and>
   cpu_getmodelid_linux_stream \<lparr>files = [''/proc/cpuinfo'' \<mapsto> ''model name'' @ [CHR 0x09] @ '': Xeon'' @ [CHR 0x0A] @ ''flags''], env = Map.empty, open_fds = 0, heap_blocks = 0\<rparr> 4 6 =
     Some (Inr (replicate 6 0, \<lparr>files = [''/proc/cpuinfo'' \<mapsto> ''model name'' @ [CHR 0x09] @ '': Xeon'' @ [CHR 0x0A] @ ''flags''], env = Map.empty, open_fds = 0, heap_blocks = 0\<rparr>)) \<and>
   heap_blocks \<lparr>files = [''/proc/cpuinfo'' \<mapsto> ''model name'' @ [CHR 0x09] @ '': Xeon'' @ [CHR 0x0A] @ ''flags''], env = Map.empty, open_fds = 0, heap_blocks = 0\<rparr> = 0"
proof -
  have g: "cpu_getname_linux_stream \<lparr>files = [''/proc/cpuinfo'' \<mapsto> ''model name'' @ [CHR 0x09] @ '': Xeon'' @ [CHR 0x0A] @ ''flags''], env = Map.empty, open_fds = 0, heap_blocks = 0\<rparr> 6 =
     Some (Inr (bytes_of ''Xeon'' @ [0, 0], \<lparr>files = [''/proc/cpuinfo'' \<mapsto> ''model name'' @ [CHR 0x09] @ '': Xeon'' @ [CHR 0x0A] @ ''flags''], env = Map.empty, open_fds = 0, heap_blocks = 0\<rparr>))"
    by (simp add: cpu_getname_linux_stream_eq cpu_getname_linux_def cpuinfo_single_chunk fclose_def
          model_name_piece_def model_name_key_def newline_def Let_def snprintf_str_def bytes_of_def)
  have m: "cpu_getmodelid_linux_stream \<lparr>files = [''/proc/cpuinfo'' \<mapsto> ''model name'' @ [CHR 0x09] @ '': Xeon'' @ [CHR 0x0A] @ ''flags''], env = Map.empty, open_fds = 0, heap_blocks = 0\<rparr> 4 6 =
     Some (Inr (replicate 6 0, \<lparr>files = [''/proc/cpuinfo'' \<mapsto> ''model name'' @ [CHR 0x09] @ '': Xeon'' @ [CHR 0x0A] @ ''flags''], env = Map.empty, open_fds = 0, heap_blocks = 0\<rparr>))"
    by (simp add: cpu_getmodelid_linux_stream_eq cpu_getmodelid_linux_def fclose_def modelid_piece_def
          field_value_def cpu_family_key_def model_key_def stepping_key_def upd_field_def Let_def)
  from linux_readers_release [OF g m] g m show ?thesis by simp
qed

end
