(* ===== verification/Sensors.thy ===== *)
theory Sensors
  imports Host Complex_Main
begin

text \<open>
  The sensor readers of \<^verbatim>\<open>src/sysinfos.c\<close> (lines 14--96): \<open>linux_cputemp\<close> reads
  the first of three hwmon files that can be opened, \<open>linux_cpufreq\<close> reads the cpufreq
  file, both with \<open>fscanf("%d")\<close> into a \<open>uint32_t\<close>; \<open>cpu_temp\<close>, \<open>cpu_clock\<close> and
  \<open>cpu_fanpercent\<close> are the exported entry points, with fixed zero values on WIN32.
  A reading is returned with the host after the call, so that the streams left open are
  visible.  The \<open>float\<close> temperature is the real number \<open>val / 1000\<close> (the
  rounding to single precision is not modelled).  The \<open>core\<close> argument is unused by the
  code and is kept as a parameter.
\<close>

definition HWMON_PATH :: string where
  "HWMON_PATH = ''/sys/devices/platform/coretemp.0/hwmon/hwmon1/temp1_input''"

definition HWMON_ALT :: string where
  "HWMON_ALT = ''/sys/class/hwmon/hwmon1/temp1_input''"

definition HWMON_ALT2 :: string where
  "HWMON_ALT2 = ''/sys/class/hwmon/hwmon0/temp1_input''"

definition CPUFREQ_PATH :: string where
  "CPUFREQ_PATH = ''/sys/devices/system/cpu/cpu0/cpufreq/cpuinfo_cur_freq''"

text \<open>
  \<open>fscanf(fd, "%d", &val)\<close> with \<open>uint32_t val\<close>: the converted \<open>int\<close> is stored
  through an \<open>int *\<close> into the 32 bits of \<open>val\<close>, so a negative value is read back
  modulo \<open>2^32\<close>; nothing is stored when nothing is converted.
\<close>

definition store_u32 :: "int option \<Rightarrow> u32 \<Rightarrow> u32" where
  "store_u32 v old = (case v of None \<Rightarrow> old | Some x \<Rightarrow> word_of_int x)"

definition linux_cputemp :: "host \<Rightarrow> int \<Rightarrow> (real \<times> host) result" where
  "linux_cputemp h core =
     (let tc = 0;
          val = (0 :: u32);
          (fd, h) = fopen h HWMON_PATH;
          (fd, h) = (case fd of None \<Rightarrow> fopen h HWMON_ALT | Some c \<Rightarrow> (Some c, h));
          (fd, h) = (case fd of None \<Rightarrow> fopen h HWMON_ALT2 | Some c \<Rightarrow> (Some c, h))
      in case fd of
           None \<Rightarrow> Inr (tc, h)
         | Some c \<Rightarrow>
             bind_res (fscanf_d c) (\<lambda>(ret, v).
               let val = store_u32 v val;
                   tc = (if ret \<noteq> 0 then real (unat val) / 1000 else tc)
               in Inr (tc, fclose h)))"

definition linux_cpufreq :: "host \<Rightarrow> int \<Rightarrow> (u32 \<times> host) result" where
  "linux_cpufreq h core =
     (let (fd, h) = fopen h CPUFREQ_PATH;
          freq = (0 :: u32)
      in case fd of
           None \<Rightarrow> Inr (freq, h)
         | Some c \<Rightarrow>
             bind_res (fscanf_d c) (\<lambda>(ret, v).
               let freq = store_u32 v freq
               in if ret = 0 then Inr (freq, h) else Inr (freq, h)))"

definition win32_cputemp :: "int \<Rightarrow> real" where
  "win32_cputemp core = 0"

definition cpu_temp :: "platform \<Rightarrow> host \<Rightarrow> int \<Rightarrow> (real \<times> host) result" where
  "cpu_temp os h core =
     (case os of WIN32 \<Rightarrow> Inr (win32_cputemp core, h) | Linux \<Rightarrow> linux_cputemp h core)"

definition cpu_clock :: "platform \<Rightarrow> host \<Rightarrow> int \<Rightarrow> (u32 \<times> host) result" where
  "cpu_clock os h core = (case os of WIN32 \<Rightarrow> Inr (0, h) | Linux \<Rightarrow> linux_cpufreq h core)"

definition cpu_fanpercent :: int where
  "cpu_fanpercent = 0"

subsection \<open>What the temperature reader promises\<close>

text \<open>
  The reader's contract: the first of the three hwmon files that exists is read; its first
  decimal number, taken modulo \<open>2^32\<close>, divided by 1000, is the temperature; no file
  gives 0.
\<close>

definition hwmon_paths :: "string list" where
  "hwmon_paths = [HWMON_PATH, HWMON_ALT, HWMON_ALT2]"

definition temp_of_text :: "string \<Rightarrow> real result" where
  "temp_of_text c =
     bind_res (fscanf_d c) (\<lambda>(ret, v).
       Inr (if ret \<noteq> 0 then real (unat (store_u32 v 0)) / 1000 else 0))"

definition temp_spec :: "host \<Rightarrow> real result" where
  "temp_spec h =
     (case find (\<lambda>p. files h p \<noteq> None) hwmon_paths of
        None \<Rightarrow> Inr 0
      | Some p \<Rightarrow> temp_of_text (the (files h p)))"

subsection \<open>Facts on the readers\<close>

lemma fclose_fopen_same [simp]: "fclose (h\<lparr>open_fds := Suc (open_fds h)\<rparr>) = h"
  by (simp add: fclose_def)

lemma cpu_temp_Linux:
  "cpu_temp Linux h core =
     (case find (\<lambda>p. files h p \<noteq> None) hwmon_paths of
        None \<Rightarrow> Inr (0, h)
      | Some p \<Rightarrow> bind_res (temp_of_text (the (files h p))) (\<lambda>t. Inr (t, h)))"
  by (cases "files h HWMON_PATH"; cases "files h HWMON_ALT"; cases "files h HWMON_ALT2")
     (auto simp: cpu_temp_def linux_cputemp_def hwmon_paths_def temp_of_text_def fopen_def
        Let_def store_u32_def bind_res_def split: prod.splits sum.splits)

lemma unat_store_u32: "unat (store_u32 (Some v) w) = nat (v mod 2 ^ 32)"
  by (simp add: store_u32_def unsigned_of_int take_bit_eq_mod)

lemma real_unat_store_u32: "real (unat (store_u32 (Some v) w)) = real_of_int (v mod 2 ^ 32)"
proof -
  have nn: "0 \<le> v mod 2 ^ 32" by simp
  show ?thesis by (simp only: unat_store_u32 of_nat_nat [OF nn])
qed

lemma temp_of_text_dec:
  "int_in_range v \<Longrightarrow> takeWhile c_isdigit rest = [] \<Longrightarrow>
   temp_of_text (fmt_dec_int v @ rest) = Inr (real_of_int (v mod 2 ^ 32) / 1000)"
  by (simp add: temp_of_text_def fscanf_d_fmt_dec_int real_unat_store_u32 del: of_nat_unat)

lemma cpu_temp_first_path:
  "files h HWMON_PATH = Some c \<Longrightarrow>
   cpu_temp Linux h core = bind_res (temp_of_text c) (\<lambda>t. Inr (t, h))"
  by (simp add: cpu_temp_Linux hwmon_paths_def)

lemma cpu_temp_host: "cpu_temp os h core = Inr (t, h') \<Longrightarrow> h' = h"
  by (cases os) (auto simp: cpu_temp_Linux bind_res_Inr_iff split: option.splits,
                 simp add: cpu_temp_def)

lemma linux_cpufreq_host:
  "linux_cpufreq h core = Inr (f, h') \<Longrightarrow>
   files h' = files h \<and> env h' = env h \<and>
   open_fds h' = (if files h CPUFREQ_PATH = None then open_fds h else Suc (open_fds h))"
  by (cases "files h CPUFREQ_PATH")
     (auto simp: linux_cpufreq_def Let_def bind_res_Inr_iff split: prod.splits if_splits)

subsection \<open>Properties of the sensor readers\<close>

text \<open>
  C35. Refinement of the temperature reader: on Linux \<open>cpu_temp\<close> returns the reading
  of the first of the three hwmon files that exists (its first decimal number modulo
  \<open>2^32\<close>, divided by 1000), 0 when none exists, and leaves the host as it found it:
  the stream it opened is closed.
\<close>

theorem cpu_temp_refines:
  "cpu_temp Linux h core = bind_res (temp_spec h) (\<lambda>t. Inr (t, h))"
  by (simp add: cpu_temp_Linux temp_spec_def split: option.splits)

text \<open>
  C36. Linux temperature below zero: \<open>fscanf("%d")\<close> stores a negative value into the
  \<open>uint32_t val\<close>, which is read back as \<open>v + 2^32\<close>; a sensor reporting -5000
  millidegrees gives 4294962.296 degrees, not -5.
\<close>

theorem cpu_temp_negative_wraps:
  assumes "files h HWMON_PATH = Some (fmt_dec_int v @ rest)" and "takeWhile c_isdigit rest = []"
    and "- (2 ^ 31) \<le> v" and "v < 0"
  shows "cpu_temp Linux h core = Inr ((real_of_int v + 2 ^ 32) / 1000, h)"
proof -
  have "int_in_range v" using assms(3,4) by (simp add: int_in_range_def)
  moreover have "v mod 2 ^ 32 = v + 2 ^ 32"
    using assms(3,4) by (rule int_mod_2p32_neg)
  ultimately show ?thesis using assms(1,2) by (simp add: cpu_temp_first_path temp_of_text_dec)
qed

lemma cpu_temp_negative_wraps_witness:
  "cpu_temp Linux \<lparr>files = [HWMON_PATH \<mapsto> ''-5000'' @ [CHR 0x0A]], env = Map.empty, open_fds = 0, heap_blocks = 0\<rparr> 0 = Inr ((- 5000 + 2 ^ 32) / 1000, \<lparr>files = [HWMON_PATH \<mapsto> ''-5000'' @ [CHR 0x0A]], env = Map.empty, open_fds = 0, heap_blocks = 0\<rparr>)"
  using cpu_temp_negative_wraps [of "\<lparr>files = [HWMON_PATH \<mapsto> ''-5000'' @ [CHR 0x0A]], env = Map.empty, open_fds = 0, heap_blocks = 0\<rparr>" "- 5000" "[CHR 0x0A]" 0]
  by (simp add: fmt_dec_int_def fmt_dec_nat.simps hex_digit_def c_isdigit_def)

text \<open>
  C37. Linux clock: \<open>linux_cpufreq\<close> never calls \<open>fclose\<close>, so every call that
  finds the cpufreq file leaves one more stream open; files and environment are unchanged.
\<close>

theorem cpu_clock_leaks_fd:
  assumes "cpu_clock Linux h core = Inr (f, h')"
  shows "files h' = files h \<and> env h' = env h \<and>
         open_fds h' = (if files h CPUFREQ_PATH = None then open_fds h else Suc (open_fds h))"
  using assms by (simp add: cpu_clock_def linux_cpufreq_host)

lemma cpu_clock_leaks_fd_witness:
  "cpu_clock Linux \<lparr>files = [CPUFREQ_PATH \<mapsto> ''2400000'' @ [CHR 0x0A]], env = Map.empty, open_fds = 0, heap_blocks = 0\<rparr> 0 = Inr (2400000, \<lparr>files = [CPUFREQ_PATH \<mapsto> ''2400000'' @ [CHR 0x0A]], env = Map.empty, open_fds = 0, heap_blocks = 0\<rparr>\<lparr>open_fds := 1\<rparr>) \<and>
   open_fds (\<lparr>files = [CPUFREQ_PATH \<mapsto> ''2400000'' @ [CHR 0x0A]], env = Map.empty, open_fds = 0, heap_blocks = 0\<rparr>\<lparr>open_fds := 1\<rparr>) = Suc (open_fds \<lparr>files = [CPUFREQ_PATH \<mapsto> ''2400000'' @ [CHR 0x0A]], env = Map.empty, open_fds = 0, heap_blocks = 0\<rparr>)"
  using cpu_clock_leaks_fd [of "\<lparr>files = [CPUFREQ_PATH \<mapsto> ''2400000'' @ [CHR 0x0A]], env = Map.empty, open_fds = 0, heap_blocks = 0\<rparr>" 0 2400000 "\<lparr>files = [CPUFREQ_PATH \<mapsto> ''2400000'' @ [CHR 0x0A]], env = Map.empty, open_fds = 0, heap_blocks = 0\<rparr>\<lparr>open_fds := 1\<rparr>"]
  by (simp add: cpu_clock_def linux_cpufreq_def fscanf_d_def c_isspace_def c_isdigit_def dec_val_def int_in_range_def store_u32_def)

end
