(* ===== verification/Spec2Isabelle.thy ===== *)
theory Spec2Isabelle
  imports Features Highest Brand CpuName ModelId Getdelim Sensors
begin

text \<open>
  \<^bold>\<open>Verification of \<^verbatim>\<open>src/sysinfos.c\<close>\<close> (cpuminer-opt, "unit to read cpu
  informations").  The file is one C unit with four groups of exported functions: the
  processor-capability detector built on the CPUID instruction, two readers of the
  processor's name and model id, and the temperature and clock sensors.  Each group is
  modelled by a shallow embedding in its own theory; this root theory imports them all and
  adds one property that spans them.

  \<^bold>\<open>Shared vocabulary.\<close>
  \<^item> \<open>Prelude\<close>: the machine types (\<open>u32 = 32 word\<close>, \<open>byte = 8 word\<close>), the
    error values that make the file's undefined behaviours explicit (\<open>Out_Of_Bounds\<close>,
    \<open>Null_String\<close>, \<open>Unterminated_String\<close>, \<open>Int_Overflow\<close>) with the result type
    \<open>c_error + 'a\<close> and its bind, little-endian byte images of words and their round
    trip, single-bit tests; \<open>loop_step\<close> (\<open>Continue\<close> with the next loop state or
    \<open>Break\<close> with the value the loop leaves with) for one iteration of a C loop.
  \<^item> \<open>CLib\<close>: the C library the file calls, modelled from the C standard (it is not
    repository code): \<open>memcpy\<close> into a buffer, \<open>printf\<close> conversions \<open>%x\<close>,
    \<open>%02x\<close>, \<open>%d\<close>, \<open>%s\<close>, \<open>snprintf\<close>, \<open>strstr\<close>, \<open>getdelim\<close> with a NUL
    delimiter, whose data is the bytes it stores in \<open>buf\<close> (the piece and its
    delimiter, followed by getdelim's terminating NUL), as the list \<open>nul_chunks\<close> and
    as the stream call \<open>getdelim_nul\<close>; \<open>c_string\<close> is what a string function sees
    in such a buffer, \<open>atoi\<close>, \<open>fscanf("%d")\<close>, and \<open>sprintf_buf\<close>, the
    unbounded \<open>sprintf(buf, "%s", ...)\<close> / \<open>strcpy\<close> store of a string and its NUL;
    with round trips of the number renderings.
  \<^item> \<open>Host\<close>: the process environment as a record of files, environment variables,
    the number of open \<open>FILE\<close> streams and the number of live heap blocks;
    \<open>fopen\<close>, \<open>fclose\<close>, \<open>getenv\<close>, \<open>free\<close> (\<open>c_free\<close>); the build target
    \<open>WIN32\<close> or Linux; and \<open>getdelim\<close> with its buffer arguments \<open>buf\<close> and
    \<open>size\<close> (\<open>line_buf\<close>), following the GNU C library: the first call
    \<open>malloc\<close>s 120 bytes (\<open>getdelim_alloc\<close>), a longer piece \<open>realloc\<close>s
    (\<open>getdelim_grow\<close>); afterwards the buffer is non-NULL and holds what was read and a
    NUL (\<open>getdelim_eq\<close>).

  \<^bold>\<open>Capability detector.\<close>
  \<^item> \<open>Cpuid\<close> (lines 98--132, 240--254): \<open>cpuid\<close> and \<open>processor_id\<close>.  The processor
    is a parameter \<open>hw :: u32 \<Rightarrow> u32 \<Rightarrow> quad\<close> (leaf, subleaf \<mapsto> EAX..EDX), the
    interface every detector lemma is stated over, so each lemma holds for every processor.
    The x86 wrapper returns \<open>hw leaf 0\<close>; the ARM macro stores 0 in \<open>output[0]\<close> only.
  \<^item> \<open>Features\<close> (lines 256--362, 393--421): the flag and mask constants, the eight
    \<open>has_*\<close> checks and \<open>cpu_bestfeature\<close>.  An abstract table (\<open>feature_bits\<close>,
    \<open>supports\<close>) and the preference order give the contract; \<open>cpu_bestfeature_refines\<close>
    proves that the code's if-chain writes the label of the first selectable feature.
    Further lemmas: each check is its table row, the FMA3 mask contains the AVX1 mask so
    the FMA3 branch is dead, the AVX2 precedence, and the ARM and all-zero cases.
    \<open>cpu_bestfeature_write\<close> is the whole function with its stores into
    \<open>outbuf\<close>: the label (at most 5 characters) and its NUL, or the single NUL of the
    empty label; \<open>maxsz\<close> is never read.
  \<^item> \<open>Highest\<close> (lines 364--391): the era label of the highest standard leaf, the
    \<open>"undef %x"\<close> fallback and its length bound (14 characters);
    \<open>cpuid_get_highest_function_write\<close> is the \<open>sprintf\<close> into the caller's buffer,
    which fits any buffer of 15 bytes.
  \<^item> \<open>Brand\<close> (lines 423--437): \<open>cpu_brand_string\<close> with its signed guard on leaf 0,
    three queries and three 16-byte copies into the caller's buffer (a byte list; a copy
    past its end is \<open>Out_Of_Bounds\<close>): content, frame, overflow.

  \<^bold>\<open>Name and model id readers.\<close>
  \<^item> \<open>CpuName\<close> (lines 134--180): \<open>cpu_getname\<close> on both builds.  The WIN32 loop
    \<open>for (i = 2; i <= (ext & 0xF); i++)\<close> is the recursion \<open>brand_loop\<close>, total with the
    measure \<open>Suc hi - i\<close>; since \<open>hi = ext AND 0xF \<le> 15\<close> no fuel is needed.  Its
    lemmas cover every value of the nibble: \<open>hi \<le> 12\<close> gives the concatenated leaves cut
    at the first NUL, \<open>hi = 13\<close> fills the 192-byte buffer exactly (and leaves it without a NUL unless a leaf
    holds a zero byte), \<open>hi \<ge> 14\<close> writes
    past it, \<open>hi < 2\<close> copies nothing; \<open>brand_loop_equiv\<close> states the loop's
    equivalence with the reference buffer \<open>win32_brand\<close> for every bound.  The Linux scan of \<^verbatim>\<open>/proc/cpuinfo\<close> is
    \<open>scan_model_name\<close> over the \<open>getdelim\<close> pieces, one iteration being
    \<open>model_name_piece\<close>; the name it prints is a single line.  After \<open>p += 2\<close> the
    body may read up to getdelim's terminating NUL: a colon that ends a NUL-delimited
    piece gives the empty name, one that ends the file reads outside the buffer.
  \<^item> \<open>ModelId\<close> (lines 182--236): \<open>cpu_getmodelid\<close>.  The Linux loop keeps family, model
    and stepping across pieces (\<open>scan_modelid\<close>) and prints
    \<open>"%x:%02x%02x:%d"\<close>; \<open>num_cpus\<close>, a global of the miner outside \<^verbatim>\<open>src/\<close>, is a
    parameter.  Lemmas: safety, the printed text, its round trip through a reader, and the
    stepping-0 and \<open>maxsz = 0\<close> defects.
  \<^item> \<open>Getdelim\<close> (lines 163--176, 196--232): the two \<open>while (getdelim(...) != -1)\<close>
    loops as written, over the stream position, as \<open>partial_function (option)\<close>s
    (\<open>getname_loop\<close>, \<open>getmodelid_loop\<close>) running the loop bodies
    \<open>model_name_piece\<close> and \<open>modelid_piece\<close>.  No fuel is used: the lemmas prove by
    induction on the unread length of the file that both loops exit and compute
    the list models \<open>scan_model_name\<close> and \<open>scan_modelid\<close> the readers are defined with.
    The name loop is also a small-step relation \<open>getname_step\<close> (one iteration that
    continues, from stream position to stream position) with its exit \<open>getname_exit\<close>:
    when a piece of the file passes the test of line 165 (\<open>has_model_name\<close>, a
    property of the file alone) the loop reaches, by
    \<open>getname_step\<^sup>*\<^sup>*\<close> from position 0, a position where it breaks, and
    \<open>getname_loop\<close> returns that break's value (a liveness property).
    The loops pass \<open>&buf, &size\<close> to \<open>getdelim\<close> and test \<open>buf\<close> as the code does;
    \<open>cpu_getname_linux_stream\<close> and \<open>cpu_getmodelid_linux_stream\<close> are the Linux
    readers exactly as written (\<open>fopen\<close>, the early return, the loop from
    \<open>buf = NULL, size = 0\<close>, \<open>free(buf)\<close>, \<open>fclose(fd)\<close>), with an option result
    for a reader that would not return.  The refinement theorem shows they always return
    and equal the list-level readers \<open>cpu_getname_linux\<close> and
    \<open>cpu_getmodelid_linux\<close>, heap included, so the getdelim buffer is always freed.

  \<^bold>\<open>Sensors.\<close>
  \<^item> \<open>Sensors\<close> (lines 14--96): \<open>linux_cputemp\<close> with its three-path fallback,
    \<open>linux_cpufreq\<close>, the WIN32 stubs and the exports \<open>cpu_temp\<close>, \<open>cpu_clock\<close>,
    \<open>cpu_fanpercent\<close>.  \<open>cpu_temp_refines\<close> proves the reader against a contract
    (\<open>temp_spec\<close>: first existing file, value modulo \<open>2^32\<close> over 1000).  The
    \<open>float\<close> result is a real number: single-precision rounding is not modelled.

  \<^bold>\<open>Across components.\<close>  The session below threads one host through any sequence of
  exported calls and shows that only \<open>cpu_clock\<close> leaves streams open.

  \<^bold>\<open>Defects the development exhibits\<close> (each is a theorem with a concrete witness):
  the unreachable FMA3 label; the ARM query that leaves three words unset; the brand-string
  guard that reads leaf 0 as a signed \<open>int\<close> instead of leaf 0x80000000 and copies 48
  bytes into a buffer of unknown size; the WIN32 name loop bounded by the low nibble of
  \<open>ext\<close>, which overruns \<open>brand[0xC0]\<close> for nibbles 14 and 15 and reads nothing for 0
  and 1, and for 13 can leave \<open>brand\<close> unterminated; \<open>p += 2\<close> past the end of a file ending in a colon; NULL \<open>%s\<close> arguments
  when environment variables are unset; a stepping of 0 read as "not found"; the
  \<open>outbuf[maxsz-1]\<close> store with \<open>maxsz = 0\<close>; negative temperatures read through a
  \<open>uint32_t\<close>; the stream \<open>linux_cpufreq\<close> never closes; the \<open>maxsz\<close> argument
  of \<open>cpu_bestfeature\<close> ignored, so a buffer shorter than the label plus its NUL is
  overrun (\<open>cpuid_get_highest_function\<close> takes no size at all and needs 15 bytes).

  \<^bold>\<open>Not modelled.\<close>  The three inline-assembly spellings of CPUID are one function
  (they agree on EAX = leaf, ECX = 0 and the register order); allocation failure in
  \<open>getdelim\<close>, and the stale bytes the line buffer holds past getdelim's terminating
  NUL (only its allocation and size are kept); read errors other than end of file and matching failure;
  the rounding of \<open>float\<close>; the declarations of \<^verbatim>\<open>miner.h\<close>.  All the
  definitions are executable (\<open>definition\<close>s, \<open>fun\<close>s, one \<open>function\<close>
  with a termination proof and two \<open>partial_function (option)\<close>s proved to return
  from every state),
  and every witness is evaluated by \<open>simp\<close>.
\<close>

subsection \<open>A diagnostics session\<close>

text \<open>
  The exports of the file as a caller uses them: a sequence of calls of
  \<^verbatim>\<open>cpu_getname\<close>, \<^verbatim>\<open>cpu_getmodelid\<close>, \<^verbatim>\<open>cpu_temp\<close> and \<^verbatim>\<open>cpu_clock\<close> on one
  host, each seeing the host the previous one left.  Only the host is threaded; the
  values returned are dropped.
\<close>

datatype export_call = GetName | GetModelId | Temp | Clock

definition run_call ::
  "platform \<Rightarrow> arch \<Rightarrow> cpuid_hw \<Rightarrow> int \<Rightarrow> nat \<Rightarrow> export_call \<Rightarrow> host \<Rightarrow> host result" where
  "run_call os arch hw num_cpus maxsz c h =
     (case c of
        GetName \<Rightarrow> bind_res (cpu_getname os arch hw h maxsz) (\<lambda>(out, h'). Inr h')
      | GetModelId \<Rightarrow> bind_res (cpu_getmodelid os h num_cpus maxsz) (\<lambda>(out, h'). Inr h')
      | Temp \<Rightarrow> bind_res (cpu_temp os h 0) (\<lambda>(t, h'). Inr h')
      | Clock \<Rightarrow> bind_res (cpu_clock os h 0) (\<lambda>(f, h'). Inr h'))"

fun run_calls ::
  "platform \<Rightarrow> arch \<Rightarrow> cpuid_hw \<Rightarrow> int \<Rightarrow> nat \<Rightarrow> export_call list \<Rightarrow> host \<Rightarrow> host result" where
  "run_calls os arch hw num_cpus maxsz [] h = Inr h"
| "run_calls os arch hw num_cpus maxsz (c # cs) h =
     bind_res (run_call os arch hw num_cpus maxsz c h) (run_calls os arch hw num_cpus maxsz cs)"

lemma run_call_host:
  assumes "run_call os arch hw num_cpus maxsz c h = Inr h'"
  shows "files h' = files h \<and>
         open_fds h' = open_fds h + (if c = Clock \<and> os = Linux \<and> files h CPUFREQ_PATH \<noteq> None then 1 else 0)"
proof (cases os)
  case WIN32
  with assms show ?thesis
    by (cases c) (auto simp: run_call_def cpu_getname_def cpu_getmodelid_def cpu_temp_def cpu_clock_def
                    bind_res_Inr_iff)
next
  case Linux
  with assms show ?thesis
    by (cases c) (auto simp: run_call_def cpu_getname_def cpu_getmodelid_def cpu_clock_def
                    bind_res_Inr_iff dest!: cpu_temp_host cpu_getname_linux_Inr cpu_getmodelid_linux_Inr linux_cpufreq_host)
qed

text \<open>
  C38. Over a whole session the only stream left open is the one of each Linux
  \<^verbatim>\<open>cpu_clock\<close> call that finds the cpufreq file: the name, model id and temperature
  readers close what they open, and no call changes the file system.
\<close>

theorem session_open_fds:
  assumes "run_calls os arch hw num_cpus maxsz cs h = Inr h'"
  shows "files h' = files h \<and>
         open_fds h' = open_fds h +
           (if os = Linux \<and> files h CPUFREQ_PATH \<noteq> None then count_list cs Clock else 0)"
  using assms
proof (induction cs arbitrary: h)
  case Nil
  then show ?case by simp
next
  case (Cons c cs)
  then obtain h1 where h1: "run_call os arch hw num_cpus maxsz c h = Inr h1"
    and rest: "run_calls os arch hw num_cpus maxsz cs h1 = Inr h'"
    by (auto simp: bind_res_Inr_iff)
  from Cons.IH [OF rest] run_call_host [OF h1] show ?case by auto
qed

lemma session_open_fds_witness:
  "run_calls Linux X86 (\<lambda>_ _. zero_quad) 4 8 [GetName, Temp, Clock, Clock] \<lparr>files = [CPUFREQ_PATH \<mapsto> ''2400000''], env = Map.empty, open_fds = 0, heap_blocks = 0\<rparr> = Inr \<lparr>files = [CPUFREQ_PATH \<mapsto> ''2400000''], env = Map.empty, open_fds = 2, heap_blocks = 0\<rparr> \<and>
   open_fds \<lparr>files = [CPUFREQ_PATH \<mapsto> ''2400000''], env = Map.empty, open_fds = 2, heap_blocks = 0\<rparr> = open_fds \<lparr>files = [CPUFREQ_PATH \<mapsto> ''2400000''], env = Map.empty, open_fds = 0, heap_blocks = 0\<rparr> + 2"
  using session_open_fds [of Linux X86 "\<lambda>_ _. zero_quad" 4 8 "[GetName, Temp, Clock, Clock]" "\<lparr>files = [CPUFREQ_PATH \<mapsto> ''2400000''], env = Map.empty, open_fds = 0, heap_blocks = 0\<rparr>" "\<lparr>files = [CPUFREQ_PATH \<mapsto> ''2400000''], env = Map.empty, open_fds = 2, heap_blocks = 0\<rparr>"]
  by (simp add: run_call_def cpu_getname_def cpu_getname_linux_def cpu_temp_Linux
        hwmon_paths_def cpu_clock_def linux_cpufreq_def fscanf_d_def c_isspace_def c_isdigit_def
        dec_val_def int_in_range_def store_u32_def CPUFREQ_PATH_def HWMON_PATH_def HWMON_ALT_def
        HWMON_ALT2_def)

end
